(* ===== verification/Prelude.thy ===== *)
theory Prelude
  imports Complex_Main "HOL-Library.Multiset_Order"
begin

text \<open>
  Shared vocabulary of the development: the types that name the program's data
  (symbols, timestamps, prices), Python's run-time errors as values, the error
  monad the handlers run in, Python dictionaries as maps with their raising
  accessors, and the generic lemmas on these that the component theories use.
\<close>

section \<open>Types of the model\<close>

type_synonym symbol = string
type_synonym timestamp = nat
type_synonym price = real
type_synonym date = int

text \<open>
  Python exceptions the modelled code can raise (\<open>MySQLError\<close> is
  \<open>mysql.connector.Error\<close>). A raising statement of the source is an \<open>Inl\<close>
  value of the model; the exception aborts the whole backtest, so the state at the
  point of the raise is not kept.
\<close>

datatype py_error =
    KeyError
  | IndexError
  | TypeError
  | NameError
  | AttributeError
  | ZeroDivisionError
  | ValueError
  | OverflowError
  | UnboundLocalError
  | MySQLError

type_synonym 'a result = "py_error + 'a"

named_theorems result_simps "equations of the error monad and of the dictionary accessors"

section \<open>The error monad\<close>

definition rbind :: "'a result \<Rightarrow> ('a \<Rightarrow> 'b result) \<Rightarrow> 'b result" where
  "rbind r f = (case r of Inl e \<Rightarrow> Inl e | Inr x \<Rightarrow> f x)"

text \<open>A Python \<open>for\<close> loop whose body may raise: the first error stops it.\<close>

fun for_each :: "('s \<Rightarrow> 'a \<Rightarrow> 's result) \<Rightarrow> 'a list \<Rightarrow> 's \<Rightarrow> 's result" where
  "for_each f [] s = Inr s"
| "for_each f (x # xs) s = rbind (f s x) (for_each f xs)"

section \<open>Python dictionaries\<close>

text \<open>
  \<open>dict((k, v) for k in keys)\<close>: every key of the list mapped to \<open>v\<close>,
  inserted in list order.
\<close>

definition fromkeys :: "'k list \<Rightarrow> 'v \<Rightarrow> ('k \<rightharpoonup> 'v)" where
  "fromkeys ks v = fold (\<lambda>k m. m(k \<mapsto> v)) ks Map.empty"

text \<open>\<open>d[k]\<close>: raises \<open>KeyError\<close> on a missing key.\<close>

definition getitem :: "('k \<rightharpoonup> 'v) \<Rightarrow> 'k \<Rightarrow> 'v result" where
  "getitem d k = (case d k of None \<Rightarrow> Inl KeyError | Some v \<Rightarrow> Inr v)"

text \<open>\<open>d[k] += v\<close>: reads the key first, so it raises on a missing key too.\<close>

definition iadd :: "('k \<rightharpoonup> 'v::plus) \<Rightarrow> 'k \<Rightarrow> 'v \<Rightarrow> ('k \<rightharpoonup> 'v) result" where
  "iadd d k v = rbind (getitem d k) (\<lambda>x. Inr (d(k \<mapsto> x + v)))"

text \<open>\<open>d[k] -= v\<close>.\<close>

definition isub :: "('k \<rightharpoonup> 'v::minus) \<Rightarrow> 'k \<Rightarrow> 'v \<Rightarrow> ('k \<rightharpoonup> 'v) result" where
  "isub d k v = rbind (getitem d k) (\<lambda>x. Inr (d(k \<mapsto> x - v)))"

text \<open>A value of a map read as a number, 0 where the key is absent.\<close>

definition val0 :: "('k \<rightharpoonup> 'v::zero) \<Rightarrow> 'k \<Rightarrow> 'v" where
  "val0 d k = (case d k of None \<Rightarrow> 0 | Some v \<Rightarrow> v)"

text \<open>Sum of the numeric values of a map over a list of keys.\<close>

definition sum_vals :: "('k \<rightharpoonup> 'v::monoid_add) \<Rightarrow> 'k list \<Rightarrow> 'v" where
  "sum_vals d ks = sum_list (map (val0 d) ks)"

section \<open>Lemmas on the error monad\<close>

lemma rbind_Inl [simp, result_simps]: "rbind (Inl e) f = Inl e"
  by (simp add: rbind_def)

lemma rbind_Inr [simp, result_simps]: "rbind (Inr x) f = f x"
  by (simp add: rbind_def)

text \<open>Congruence rule: a recursive call under \<open>rbind\<close> is made only on a value the first computation returned.\<close>

lemma rbind_cong [fundef_cong]:
  "r = r' \<Longrightarrow> (\<And>x. r' = Inr x \<Longrightarrow> f x = g x) \<Longrightarrow> rbind r f = rbind r' g"
  by (auto simp: rbind_def split: sum.splits)

lemma rbind_eq_Inr [result_simps]:
  "rbind r f = Inr y \<longleftrightarrow> (\<exists>x. r = Inr x \<and> f x = Inr y)"
  by (cases r) simp_all

lemma for_each_append:
  "for_each f (xs @ ys) s = rbind (for_each f xs s) (for_each f ys)"
  by (induction xs arbitrary: s) (simp_all add: rbind_def split: sum.splits)

lemma for_each_invariant:
  assumes "P s"
    and "\<And>s x s'. P s \<Longrightarrow> x \<in> set xs \<Longrightarrow> f s x = Inr s' \<Longrightarrow> P s'"
    and "for_each f xs s = Inr s'"
  shows "P s'"
  using assms
proof (induction xs arbitrary: s)
  case Nil
  then show ?case by simp
next
  case (Cons x xs)
  from Cons.prems(3) obtain t where t: "f s x = Inr t" and rest: "for_each f xs t = Inr s'"
    by (auto simp: rbind_eq_Inr)
  have "P t" using Cons.prems(2) [OF Cons.prems(1) _ t] by simp
  moreover have "\<And>s y s'. P s \<Longrightarrow> y \<in> set xs \<Longrightarrow> f s y = Inr s' \<Longrightarrow> P s'"
    using Cons.prems(2) by (meson list.set_intros(2))
  ultimately show ?case using rest by (rule Cons.IH)
qed

section \<open>Lemmas on dictionaries\<close>

lemma fold_update_apply:
  "fold (\<lambda>k m. m(k \<mapsto> v)) ks m0 k' = (if k' \<in> set ks then Some v else m0 k')"
  by (induction ks arbitrary: m0) auto

lemma fromkeys_apply [simp]:
  "fromkeys ks v k = (if k \<in> set ks then Some v else None)"
  by (simp add: fromkeys_def fold_update_apply)

lemma dom_fromkeys [simp]: "dom (fromkeys ks v) = set ks"
  by (auto simp: dom_def)

text \<open>
  The accessors unfold to a case distinction on the lookup, which the simplifier
  decides whenever the map is known.
\<close>

lemma getitem_case [simp]:
  "getitem d k = (case d k of None \<Rightarrow> Inl KeyError | Some v \<Rightarrow> Inr v)"
  by (rule getitem_def)

lemma iadd_case [simp]:
  "iadd d k v = (case d k of None \<Rightarrow> Inl KeyError | Some x \<Rightarrow> Inr (d(k \<mapsto> x + v)))"
  by (simp add: iadd_def split: option.splits)

lemma isub_case [simp]:
  "isub d k v = (case d k of None \<Rightarrow> Inl KeyError | Some x \<Rightarrow> Inr (d(k \<mapsto> x - v)))"
  by (simp add: isub_def split: option.splits)

lemma getitem_Some [result_simps]: "d k = Some v \<Longrightarrow> getitem d k = Inr v"
  by (simp add: getitem_def)

lemma getitem_None [result_simps]: "d k = None \<Longrightarrow> getitem d k = Inl KeyError"
  by (simp add: getitem_def)

lemma getitem_eq_Inr [result_simps]: "getitem d k = Inr v \<longleftrightarrow> d k = Some v"
  by (simp add: getitem_def split: option.splits)

lemma iadd_Some [result_simps]:
  "d k = Some x \<Longrightarrow> iadd d k v = Inr (d(k \<mapsto> x + v))"
  by (simp add: iadd_def)

lemma iadd_None [result_simps]: "d k = None \<Longrightarrow> iadd d k v = Inl KeyError"
  by (simp add: iadd_def)

lemma isub_Some [result_simps]:
  "d k = Some x \<Longrightarrow> isub d k v = Inr (d(k \<mapsto> x - v))"
  by (simp add: isub_def)

lemma isub_None [result_simps]: "d k = None \<Longrightarrow> isub d k v = Inl KeyError"
  by (simp add: isub_def)

lemma val0_upd: "val0 (d(k \<mapsto> v)) k' = (if k' = k then v else val0 d k')"
  by (simp add: val0_def)

lemma val0_Some [simp]: "d k = Some v \<Longrightarrow> val0 d k = v"
  by (simp add: val0_def)

lemma sum_list_val0_upd_notin:
  "k \<notin> set ks \<Longrightarrow> sum_list (map (val0 (d(k \<mapsto> v))) ks) = sum_list (map (val0 d) ks)"
  by (induction ks) (auto simp: val0_upd)

lemma sum_list_val0_upd_distinct:
  assumes "distinct ks" and "k \<in> set ks"
  shows "sum_list (map (val0 (d(k \<mapsto> v))) ks) = sum_list (map (val0 d) ks) - val0 d k + (v :: 'v::ab_group_add)"
  using assms
proof (induction ks)
  case Nil
  then show ?case by simp
next
  case (Cons k0 ks)
  show ?case
  proof (cases "k0 = k")
    case True
    with Cons.prems have "k \<notin> set ks" by simp
    then have "sum_list (map (val0 (d(k \<mapsto> v))) ks) = sum_list (map (val0 d) ks)"
      by (rule sum_list_val0_upd_notin)
    moreover have "val0 (d(k \<mapsto> v)) k0 = v" using True by (simp add: val0_upd)
    ultimately show ?thesis using True by (simp only: list.map sum_list.Cons) simp
  next
    case False
    have h1: "sum_list (map (val0 (d(k \<mapsto> v))) ks) = sum_list (map (val0 d) ks) - val0 d k + v"
      using Cons.prems False by (intro Cons.IH) auto
    have h2: "val0 (d(k \<mapsto> v)) k0 = val0 d k0" using False by (simp add: val0_upd)
    show ?thesis by (simp only: list.map sum_list.Cons h1 h2) (simp add: algebra_simps)
  qed
qed

lemma sum_vals_upd_notin [simp]:
  "k \<notin> set ks \<Longrightarrow> sum_vals (d(k \<mapsto> v)) ks = sum_vals d ks"
  unfolding sum_vals_def by (rule sum_list_val0_upd_notin)

lemma sum_vals_upd_in:
  "distinct ks \<Longrightarrow> k \<in> set ks \<Longrightarrow>
   sum_vals (d(k \<mapsto> v)) ks = sum_vals d ks - val0 d k + (v :: 'v::ab_group_add)"
  unfolding sum_vals_def by (rule sum_list_val0_upd_distinct)

lemma sum_vals_zero:
  "(\<And>k. k \<in> set ks \<Longrightarrow> val0 d k = 0) \<Longrightarrow> sum_vals d ks = (0::'v::comm_monoid_add)"
  unfolding sum_vals_def by (induction ks) auto

lemma val0_fromkeys_zero [simp]: "val0 (fromkeys ks 0) k = 0"
  by (simp add: val0_def)

lemma sum_vals_cong:
  "(\<And>k. k \<in> set ks \<Longrightarrow> val0 d k = val0 d' k) \<Longrightarrow> sum_vals d ks = sum_vals d' ks"
  unfolding sum_vals_def by (induction ks) auto

section \<open>Lemmas on lists\<close>

lemma filter_ge_upt: "filter (\<lambda>i. K \<le> i) [0..<L] = [K..<L]"
  by (induction L) auto

lemma drop_map_upt: "drop K (map g xs) = map (\<lambda>i. g (xs ! i)) [K..<length xs]"
  by (rule nth_equalityI) simp_all

lemma map_concat_if:
  "map h (concat (map (\<lambda>x. if P x then [g x] else []) xs)) = map (h \<circ> g) (filter P xs)"
  by (induction xs) auto

lemma mem_concat_if:
  "x \<in> set (concat (map (\<lambda>i. if P i then [g i] else []) xs)) \<Longrightarrow> \<exists>i \<in> set xs. P i \<and> x = g i"
  by (auto split: if_splits)

end
