(* ===== verification/Events.thy ===== *)
theory Events
  imports Prelude
begin

text \<open>
  The event taxonomy of the backtester. The event classes live in \<open>event.py\<close>,
  which is not part of the sources under \<open>src/\<close>; they are modelled from the
  specification (section 3) and from the way \<open>portfolio.py\<close>,
  \<open>backtest.py\<close> and \<open>ib_execution.py\<close> construct and read them. The
  Python classes carry a \<open>type\<close> string; here the four classes are the
  constructors of one datatype and \<open>event_type\<close> gives back the string the
  dispatch code compares against. Directions, signal types and order types stay
  strings, as in the source, so that the fall-through branches of the code
  (a direction that is neither \<open>BUY\<close> nor \<open>SELL\<close>) are part of the model.
\<close>

record signal_event =
  sig_symbol :: symbol
  sig_datetime :: timestamp
  signal_type :: string
  strength :: real

record order_event =
  ord_symbol :: symbol
  order_type :: string
  ord_quantity :: int
  ord_direction :: string

text \<open>
  \<open>fill_cost\<close> is optional: the simulated execution handler reports \<open>None\<close>,
  the Interactive Brokers handler the average fill price.
\<close>

record fill_event =
  timeindex :: timestamp
  fill_symbol :: symbol
  exchange :: string
  fill_quantity :: int
  fill_direction :: string
  fill_cost :: "real option"
  commission :: real

datatype event =
    MarketEvent
  | SignalEvent signal_event
  | OrderEvent order_event
  | FillEvent fill_event

fun event_type :: "event \<Rightarrow> string" where
  "event_type MarketEvent = ''MARKET''"
| "event_type (SignalEvent _) = ''SIGNAL''"
| "event_type (OrderEvent _) = ''ORDER''"
| "event_type (FillEvent _) = ''FILL''"

text \<open>
  The queue of \<open>backtest.py\<close> is a \<open>queue.Queue\<close> of Python objects; the
  portfolio puts \<open>None\<close> on it when the sizing policy yields no order, so an
  entry is an \<open>event option\<close>.
\<close>

type_synonym queue_entry = "event option"

text \<open>
  Rank of a queue entry in the pipeline Market \<open>\<rightarrow>\<close> Signal \<open>\<rightarrow>\<close> Order
  \<open>\<rightarrow>\<close> Fill: handling an entry only ever enqueues entries of smaller rank.
  It is the termination measure of the event loop.
\<close>

fun rank :: "queue_entry \<Rightarrow> nat" where
  "rank (Some MarketEvent) = 3"
| "rank (Some (SignalEvent _)) = 2"
| "rank (Some (OrderEvent _)) = 1"
| "rank (Some (FillEvent _)) = 0"
| "rank None = 0"

lemma event_type_inj: "event_type e = event_type e' \<Longrightarrow> (\<exists>x x'. e = SignalEvent x \<and> e' = SignalEvent x')
   \<or> (\<exists>x x'. e = OrderEvent x \<and> e' = OrderEvent x') \<or> (\<exists>x x'. e = FillEvent x \<and> e' = FillEvent x')
   \<or> (e = MarketEvent \<and> e' = MarketEvent)"
  by (cases e; cases e') auto

end
