(* ===== verification/Data_Handler.thy ===== *)
theory Data_Handler
  imports Events
begin

text \<open>
  The market-data provider. Its class (\<open>DataHandler\<close> and the historic CSV
  handler of \<open>data.py\<close>) is not part of the sources under \<open>src/\<close>; it is
  modelled from the interface of specification section 6 and from the calls the
  portfolio and the backtest make on it: \<open>continue_backtest\<close>,
  \<open>update_bars()\<close>, \<open>get_latest_bar_datetime(s)\<close> and
  \<open>get_latest_bar_value(s, field)\<close>.

  The provider holds the ticks still to be replayed (each tick maps the symbols
  that have a bar at that time to the bar) and, per symbol, the bars seen so far.
  \<open>update_bars\<close> consumes one tick and enqueues one \<open>MarketEvent\<close>; when no
  tick is left it reports exhaustion by clearing \<open>continue_backtest\<close> and
  enqueues nothing.
\<close>

record bar =
  bar_datetime :: timestamp
  bar_values :: "string \<rightharpoonup> real"

type_synonym tick = "symbol \<rightharpoonup> bar"

record data_handler =
  dh_symbol_list :: "symbol list"
  pending :: "tick list"
  latest_symbol_data :: "symbol \<rightharpoonup> bar list"
  continue_backtest :: bool

definition init_data_handler :: "symbol list \<Rightarrow> tick list \<Rightarrow> data_handler" where
  "init_data_handler syms ticks =
     \<lparr>dh_symbol_list = syms, pending = ticks, latest_symbol_data = fromkeys syms [],
      continue_backtest = True\<rparr>"

text \<open>Appending the bar of one symbol to its history, if the tick has one.\<close>

definition push_bar :: "tick \<Rightarrow> (symbol \<rightharpoonup> bar list) \<Rightarrow> symbol \<Rightarrow> (symbol \<rightharpoonup> bar list)" where
  "push_bar t m s =
     (case t s of None \<Rightarrow> m
      | Some b \<Rightarrow> m(s \<mapsto> (case m s of None \<Rightarrow> [] | Some bs \<Rightarrow> bs) @ [b]))"

definition update_bars :: "data_handler \<Rightarrow> data_handler \<times> queue_entry list" where
  "update_bars dh =
     (case pending dh of
        [] \<Rightarrow> (dh\<lparr>continue_backtest := False\<rparr>, [])
      | t # rest \<Rightarrow>
          (dh\<lparr>pending := rest,
              latest_symbol_data := fold (\<lambda>s m. push_bar t m s) (dh_symbol_list dh) (latest_symbol_data dh)\<rparr>,
           [Some MarketEvent]))"

text \<open>
  The latest bar of a symbol: \<open>KeyError\<close> for a symbol the handler does not
  track, \<open>IndexError\<close> (\<open>bars_list[-1]\<close>) before its first bar.
\<close>

definition get_latest_bar :: "data_handler \<Rightarrow> symbol \<Rightarrow> bar result" where
  "get_latest_bar dh s =
     rbind (getitem (latest_symbol_data dh) s)
       (\<lambda>bs. if bs = [] then Inl IndexError else Inr (last bs))"

definition get_latest_bar_datetime :: "data_handler \<Rightarrow> symbol \<Rightarrow> timestamp result" where
  "get_latest_bar_datetime dh s = rbind (get_latest_bar dh s) (\<lambda>b. Inr (bar_datetime b))"

definition get_latest_bar_value :: "data_handler \<Rightarrow> symbol \<Rightarrow> string \<Rightarrow> real result" where
  "get_latest_bar_value dh s field = rbind (get_latest_bar dh s) (\<lambda>b. getitem (bar_values b) field)"

text \<open>The bar histories of \<open>dh'\<close> extend those of \<open>dh\<close>: no delivered bar is lost or changed.\<close>

definition extends_history :: "data_handler \<Rightarrow> data_handler \<Rightarrow> bool" where
  "extends_history dh dh' \<longleftrightarrow>
     (\<forall>s bs. latest_symbol_data dh s = Some bs \<longrightarrow> (\<exists>bs'. latest_symbol_data dh' s = Some (bs @ bs')))"

section \<open>Properties of the provider\<close>

text \<open>
  Measure of the outer (heartbeat) loop: every call of \<open>update_bars\<close> on a
  handler that still reports data either consumes a tick or clears the flag.
\<close>

definition dh_measure :: "data_handler \<Rightarrow> nat" where
  "dh_measure dh = length (pending dh) + (if continue_backtest dh then 1 else 0)"

lemma update_bars_decreases:
  "continue_backtest dh \<Longrightarrow> dh_measure (fst (update_bars dh)) < dh_measure dh"
  by (auto simp: update_bars_def dh_measure_def split: list.splits)

lemma update_bars_decreases_pair:
  "(bars, new) = update_bars dh \<Longrightarrow> continue_backtest dh \<Longrightarrow> dh_measure bars < dh_measure dh"
  using update_bars_decreases [of dh] by (metis fst_conv)

lemma update_bars_symbols [simp]:
  "dh_symbol_list (fst (update_bars dh)) = dh_symbol_list dh"
  by (simp add: update_bars_def split: list.splits)

lemma update_bars_events:
  "snd (update_bars dh) = (if pending dh = [] then [] else [Some MarketEvent])"
  by (simp add: update_bars_def split: list.splits)

lemma update_bars_pending:
  "pending (fst (update_bars dh)) = tl (pending dh)"
  by (simp add: update_bars_def split: list.splits)

lemma update_bars_continue:
  "continue_backtest (fst (update_bars dh)) = (continue_backtest dh \<and> pending dh \<noteq> [])"
  by (simp add: update_bars_def split: list.splits)

lemma push_bar_extends:
  "m s = Some bs \<Longrightarrow> \<exists>bs'. push_bar t m s' s = Some (bs @ bs')"
  by (auto simp: push_bar_def split: option.splits)

lemma fold_push_bar_extends:
  "m s = Some bs \<Longrightarrow> \<exists>bs'. fold (\<lambda>s m. push_bar t m s) syms m s = Some (bs @ bs')"
proof (induction syms arbitrary: m bs)
  case (Cons s' syms)
  obtain bs1 where "push_bar t m s' s = Some (bs @ bs1)"
    using push_bar_extends [of m s bs t s'] Cons.prems by blast
  from Cons.IH [of "push_bar t m s'" "bs @ bs1"] this show ?case by auto
qed simp

lemma update_bars_extends: "extends_history dh (fst (update_bars dh))"
  unfolding extends_history_def update_bars_def
  by (auto split: list.splits intro: fold_push_bar_extends exI [of _ "[]"])
end
