(* ===== verification/Portfolio.thy ===== *)
theory Portfolio
  imports Data_Handler
begin

text \<open>
  The \<open>Portfolio\<close> class of \<open>portfolio.py\<close>: its state is a record with the
  fields of the Python object (the references to the data handler and to the
  event queue become arguments and results of the operations), every method that
  changes state is a function from the old record to an error or the new
  record, and \<open>update_signal\<close> returns the entries it puts on the queue.
  The holdings dictionaries keep their Python shape: one map from strings to
  numbers holding the symbols and the keys \<open>cash\<close>, \<open>commission\<close> and
  \<open>total\<close>; the \<open>datetime\<close> key of a snapshot is the first component of a
  pair. Prices and money are \<open>real\<close>: float rounding is not modelled.
\<close>

section \<open>State\<close>

record portfolio =
  symbol_list :: "symbol list"
  start_date :: timestamp
  initial_capital :: real
  all_positions :: "(timestamp \<times> (symbol \<rightharpoonup> int)) list"
  current_positions :: "symbol \<rightharpoonup> int"
  all_holdings :: "(timestamp \<times> (string \<rightharpoonup> real)) list"
  current_holdings :: "string \<rightharpoonup> real"

definition construct_all_positions :: "symbol list \<Rightarrow> timestamp \<Rightarrow> (timestamp \<times> (symbol \<rightharpoonup> int)) list" where
  "construct_all_positions syms start = [(start, fromkeys syms 0)]"

definition construct_all_holdings :: "symbol list \<Rightarrow> timestamp \<Rightarrow> real \<Rightarrow> (timestamp \<times> (string \<rightharpoonup> real)) list" where
  "construct_all_holdings syms start cap =
     [(start, (fromkeys syms 0)(''cash'' \<mapsto> cap, ''commission'' \<mapsto> 0, ''total'' \<mapsto> cap))]"

definition construct_current_holdings :: "symbol list \<Rightarrow> real \<Rightarrow> (string \<rightharpoonup> real)" where
  "construct_current_holdings syms cap =
     (fromkeys syms 0)(''cash'' \<mapsto> cap, ''commission'' \<mapsto> 0, ''total'' \<mapsto> cap)"

text \<open>\<open>Portfolio.__init__(bars, events, start_date, initial_capital)\<close>.\<close>

definition init_portfolio :: "data_handler \<Rightarrow> timestamp \<Rightarrow> real \<Rightarrow> portfolio" where
  "init_portfolio bars start cap =
     (let syms = dh_symbol_list bars in
      \<lparr>symbol_list = syms, start_date = start, initial_capital = cap,
       all_positions = construct_all_positions syms start,
       current_positions = fromkeys syms 0,
       all_holdings = construct_all_holdings syms start cap,
       current_holdings = construct_current_holdings syms cap\<rparr>)"

section \<open>Market ticks: \<open>update_timeindex\<close>\<close>

text \<open>Body of the positions loop: \<open>dp[s] = self.current_positions[s]\<close>.\<close>

definition copy_position :: "portfolio \<Rightarrow> (symbol \<rightharpoonup> int) \<Rightarrow> symbol \<Rightarrow> (symbol \<rightharpoonup> int) result" where
  "copy_position p dp s = rbind (getitem (current_positions p) s) (\<lambda>q. Inr (dp(s \<mapsto> q)))"

text \<open>
  Body of the holdings loop: the market value of the position at the latest
  adjusted close is stored under the symbol and added to \<open>total\<close>.
\<close>

definition mark_symbol :: "data_handler \<Rightarrow> portfolio \<Rightarrow> (string \<rightharpoonup> real) \<Rightarrow> symbol \<Rightarrow> (string \<rightharpoonup> real) result" where
  "mark_symbol bars p dh s =
     rbind (getitem (current_positions p) s) (\<lambda>q.
     rbind (get_latest_bar_value bars s ''adj_close'') (\<lambda>px.
       (let market_value = real_of_int q * px in
        iadd (dh(s \<mapsto> market_value)) ''total'' market_value)))"

definition update_timeindex :: "data_handler \<Rightarrow> portfolio \<Rightarrow> portfolio result" where
  "update_timeindex bars p =
     rbind (case symbol_list p of [] \<Rightarrow> Inl IndexError
            | s0 # _ \<Rightarrow> get_latest_bar_datetime bars s0) (\<lambda>latest_datetime.
     rbind (for_each (copy_position p) (symbol_list p) (fromkeys (symbol_list p) 0)) (\<lambda>dp.
     rbind (getitem (current_holdings p) ''cash'') (\<lambda>cash.
     rbind (getitem (current_holdings p) ''commission'') (\<lambda>comm.
     rbind (for_each (mark_symbol bars p) (symbol_list p)
              ((fromkeys (symbol_list p) 0)(''cash'' \<mapsto> cash, ''commission'' \<mapsto> comm, ''total'' \<mapsto> cash)))
       (\<lambda>dh.
     Inr (p\<lparr>all_positions := all_positions p @ [(latest_datetime, dp)],
            all_holdings := all_holdings p @ [(latest_datetime, dh)]\<rparr>))))))"

section \<open>Fills\<close>

text \<open>
  The sign of a fill: two successive \<open>if\<close>s over an initial 0, so a direction
  that is neither \<open>BUY\<close> nor \<open>SELL\<close> counts 0.
\<close>

definition fill_dir :: "string \<Rightarrow> int" where
  "fill_dir d = (if d = ''SELL'' then -1 else if d = ''BUY'' then 1 else 0)"

definition update_positions_from_fill :: "portfolio \<Rightarrow> fill_event \<Rightarrow> portfolio result" where
  "update_positions_from_fill p fill =
     rbind (iadd (current_positions p) (fill_symbol fill) (fill_dir (fill_direction fill) * fill_quantity fill))
       (\<lambda>cp. Inr (p\<lparr>current_positions := cp\<rparr>))"

text \<open>
  The cost of a fill is taken from the latest adjusted close of the data
  handler, not from the \<open>fill_cost\<close> of the event (lines 515--516).
\<close>

definition fill_cost_of :: "data_handler \<Rightarrow> fill_event \<Rightarrow> real result" where
  "fill_cost_of bars fill =
     rbind (get_latest_bar_value bars (fill_symbol fill) ''adj_close'') (\<lambda>fill_cost.
       Inr (real_of_int (fill_dir (fill_direction fill)) * fill_cost * real_of_int (fill_quantity fill)))"

definition update_holdings_from_fill :: "data_handler \<Rightarrow> portfolio \<Rightarrow> fill_event \<Rightarrow> portfolio result" where
  "update_holdings_from_fill bars p fill =
     rbind (fill_cost_of bars fill) (\<lambda>cost.
     rbind (iadd (current_holdings p) (fill_symbol fill) cost) (\<lambda>h1.
     rbind (iadd h1 ''commission'' (commission fill)) (\<lambda>h2.
     rbind (isub h2 ''cash'' (cost + commission fill)) (\<lambda>h3.
     rbind (isub h3 ''total'' (cost + commission fill)) (\<lambda>h4.
       Inr (p\<lparr>current_holdings := h4\<rparr>))))))"

definition update_fill :: "data_handler \<Rightarrow> portfolio \<Rightarrow> event \<Rightarrow> portfolio result" where
  "update_fill bars p ev =
     (case ev of
        FillEvent fill \<Rightarrow>
          rbind (update_positions_from_fill p fill) (\<lambda>p'. update_holdings_from_fill bars p' fill)
      | _ \<Rightarrow> Inr p)"

section \<open>Signals\<close>

text \<open>
  \<open>generate_naive_order\<close>: four successive \<open>if\<close>s, each of which may
  overwrite the \<open>order\<close> variable; the conditions exclude one another, so at
  most one fires.
\<close>

definition generate_naive_order :: "portfolio \<Rightarrow> signal_event \<Rightarrow> order_event option result" where
  "generate_naive_order p signal =
     (let symbol = sig_symbol signal; direction = signal_type signal;
          mkt_quantity = (100::int); order_type = ''MKT'' in
      rbind (getitem (current_positions p) symbol) (\<lambda>cur_quantity.
        (let o1 = (if direction = ''LONG'' \<and> cur_quantity = 0
                   then Some \<lparr>ord_symbol = symbol, order_type = order_type, ord_quantity = mkt_quantity, ord_direction = ''BUY''\<rparr>
                   else None);
             o2 = (if direction = ''SHORT'' \<and> cur_quantity = 0
                   then Some \<lparr>ord_symbol = symbol, order_type = order_type, ord_quantity = mkt_quantity, ord_direction = ''SELL''\<rparr>
                   else o1);
             o3 = (if direction = ''EXIT'' \<and> cur_quantity > 0
                   then Some \<lparr>ord_symbol = symbol, order_type = order_type, ord_quantity = \<bar>cur_quantity\<bar>, ord_direction = ''SELL''\<rparr>
                   else o2);
             o4 = (if direction = ''EXIT'' \<and> cur_quantity < 0
                   then Some \<lparr>ord_symbol = symbol, order_type = order_type, ord_quantity = \<bar>cur_quantity\<bar>, ord_direction = ''BUY''\<rparr>
                   else o3)
         in Inr o4)))"

text \<open>
  \<open>update_signal\<close> puts the result of the sizing policy on the queue as it
  is, \<open>None\<close> included.
\<close>

definition update_signal :: "portfolio \<Rightarrow> event \<Rightarrow> queue_entry list result" where
  "update_signal p ev =
     (case ev of
        SignalEvent signal \<Rightarrow> rbind (generate_naive_order p signal) (\<lambda>order_event. Inr [map_option OrderEvent order_event])
      | _ \<Rightarrow> Inr [])"

section \<open>Invariant\<close>

text \<open>
  The keys of the holdings dictionary that are not symbols. A symbol with one of
  these names would share its entry with the bookkeeping field.
\<close>

definition reserved :: "string set" where
  "reserved = {''cash'', ''commission'', ''total''}"

text \<open>A holdings snapshot whose \<open>total\<close> is its cash plus the market values of the symbols.\<close>

definition snapshot_ok :: "symbol list \<Rightarrow> (string \<rightharpoonup> real) \<Rightarrow> bool" where
  "snapshot_ok syms h \<longleftrightarrow> ''cash'' \<in> dom h \<and> ''total'' \<in> dom h \<and>
     val0 h ''total'' = val0 h ''cash'' + sum_vals h syms"

text \<open>
  The portfolio invariant: the dictionaries have exactly the keys the constructor
  gives them; the current \<open>total\<close> equals the current \<open>cash\<close> (fills move both
  by the same amount and market ticks do not re-mark the current holdings); cash,
  cumulative commission and the cost bases of the symbols add up to the initial
  capital; and every holdings snapshot is marked to market.
\<close>

definition pf_inv :: "portfolio \<Rightarrow> bool" where
  "pf_inv p \<longleftrightarrow>
     distinct (symbol_list p) \<and> (\<forall>s \<in> set (symbol_list p). s \<notin> reserved) \<and>
     dom (current_positions p) = set (symbol_list p) \<and>
     dom (current_holdings p) = set (symbol_list p) \<union> reserved \<and>
     val0 (current_holdings p) ''total'' = val0 (current_holdings p) ''cash'' \<and>
     val0 (current_holdings p) ''cash'' + val0 (current_holdings p) ''commission''
       + sum_vals (current_holdings p) (symbol_list p) = initial_capital p \<and>
     (\<forall>(t, h) \<in> set (all_holdings p). snapshot_ok (symbol_list p) h)"

text \<open>Cash that one fill costs at the price \<open>px\<close>, and the change it makes to the position of a symbol.\<close>

definition fill_cash_flow :: "real \<Rightarrow> fill_event \<Rightarrow> real" where
  "fill_cash_flow px fill =
     real_of_int (fill_dir (fill_direction fill)) * px * real_of_int (fill_quantity fill) + commission fill"

definition fill_position_delta :: "symbol \<Rightarrow> fill_event \<Rightarrow> int" where
  "fill_position_delta s fill = (if fill_symbol fill = s then fill_dir (fill_direction fill) * fill_quantity fill else 0)"

text \<open>
  A holdings snapshot is marked against the positions snapshot taken with it when
  every symbol's entry is the symbol's position times the adjusted close of a bar
  the data handler has delivered for it, or 0 for a flat position (the
  constructor's snapshot, taken before any bar).
\<close>

definition snapshot_marked ::
  "data_handler \<Rightarrow> symbol list \<Rightarrow> (symbol \<rightharpoonup> int) \<Rightarrow> (string \<rightharpoonup> real) \<Rightarrow> bool" where
  "snapshot_marked dh syms dp h \<longleftrightarrow>
     (\<forall>s\<in>set syms. case (dp s, h s) of
        (Some q, Some v) \<Rightarrow> (q = 0 \<and> v = 0) \<or>
          (case latest_symbol_data dh s of None \<Rightarrow> False
           | Some bs \<Rightarrow> (\<exists>b\<in>set bs. case bar_values b ''adj_close'' of None \<Rightarrow> False
                                       | Some px \<Rightarrow> v = real_of_int q * px))
      | _ \<Rightarrow> False)"

text \<open>The snapshots of positions and holdings are taken in pairs, with one datetime,
  and every holdings snapshot is marked against its positions snapshot.\<close>

definition snapshots_marked :: "data_handler \<Rightarrow> portfolio \<Rightarrow> bool" where
  "snapshots_marked dh p \<longleftrightarrow>
     map fst (all_holdings p) = map fst (all_positions p) \<and>
     list_all2 (\<lambda>(t, dp) (t', h). snapshot_marked dh (symbol_list p) dp h) (all_positions p) (all_holdings p)"

section \<open>Example data\<close>

text \<open>One symbol X with a latest adjusted close of 10, a portfolio of 100000 on it,
  a fill buying 100 X with commission 1, and a LONG signal for X.\<close>

abbreviation ex_bars :: data_handler where
  "ex_bars \<equiv> \<lparr>dh_symbol_list = [''X''], pending = [],
     latest_symbol_data = [''X'' \<mapsto> [\<lparr>bar_datetime = 1, bar_values = [''adj_close'' \<mapsto> 10]\<rparr>]],
     continue_backtest = True\<rparr>"

abbreviation ex_portfolio :: portfolio where
  "ex_portfolio \<equiv> init_portfolio ex_bars 0 100000"

abbreviation ex_fill :: fill_event where
  "ex_fill \<equiv> \<lparr>timeindex = 1, fill_symbol = ''X'', exchange = ''ARCA'', fill_quantity = 100,
     fill_direction = ''BUY'', fill_cost = Some 10, commission = 1\<rparr>"

abbreviation ex_signal :: signal_event where
  "ex_signal \<equiv> \<lparr>sig_symbol = ''X'', sig_datetime = 1, signal_type = ''LONG'', strength = 1\<rparr>"

section \<open>Lemmas: fills\<close>

lemma not_reserved_iff [simp]:
  "s \<notin> reserved \<longleftrightarrow> s \<noteq> ''cash'' \<and> s \<noteq> ''commission'' \<and> s \<noteq> ''total''"
  by (auto simp: reserved_def)

lemma update_fill_FillEvent:
  assumes s: "fill_symbol f = s" "s \<notin> reserved"
    and pos: "current_positions p s = Some q"
    and hold: "current_holdings p s = Some hs" "current_holdings p ''commission'' = Some c0"
      "current_holdings p ''cash'' = Some c" "current_holdings p ''total'' = Some T"
    and px: "get_latest_bar_value bars s ''adj_close'' = Inr px"
  defines "cost \<equiv> real_of_int (fill_dir (fill_direction f)) * px * real_of_int (fill_quantity f)"
  shows "update_fill bars p (FillEvent f) =
    Inr (p\<lparr>current_positions := (current_positions p)(s \<mapsto> q + fill_dir (fill_direction f) * fill_quantity f),
           current_holdings := (current_holdings p)(s \<mapsto> hs + cost, ''commission'' \<mapsto> c0 + commission f,
              ''cash'' \<mapsto> c - (cost + commission f), ''total'' \<mapsto> T - (cost + commission f))\<rparr>)"
  using assms
  by (auto simp add: update_fill_def update_positions_from_fill_def update_holdings_from_fill_def
      fill_cost_of_def)

lemma update_fill_unknown_symbol:
  "current_positions p (fill_symbol f) = None \<Longrightarrow> update_fill bars p (FillEvent f) = Inl KeyError"
  by (simp add: update_fill_def update_positions_from_fill_def)

lemma update_fill_no_price:
  assumes "current_positions p (fill_symbol f) = Some q"
    and "get_latest_bar_value bars (fill_symbol f) ''adj_close'' = Inl e"
  shows "update_fill bars p (FillEvent f) = Inl e"
  using assms
  by (simp add: update_fill_def update_positions_from_fill_def update_holdings_from_fill_def fill_cost_of_def)

lemma update_fill_Inr_cases:
  assumes "update_fill bars p (FillEvent f) = Inr p'"
  obtains q px where "current_positions p (fill_symbol f) = Some q"
    "get_latest_bar_value bars (fill_symbol f) ''adj_close'' = Inr px"
proof (cases "current_positions p (fill_symbol f)")
  case None
  with assms show ?thesis by (simp add: update_fill_unknown_symbol)
next
  case (Some q)
  show ?thesis
  proof (cases "get_latest_bar_value bars (fill_symbol f) ''adj_close''")
    case (Inl e)
    with Some assms show ?thesis by (simp add: update_fill_no_price)
  next
    case (Inr px)
    with Some show ?thesis by (rule that)
  qed
qed

lemma pf_inv_lookups:
  assumes "pf_inv p" "s \<in> set (symbol_list p)"
  obtains q hs c0 c T where "current_positions p s = Some q" "current_holdings p s = Some hs"
    "current_holdings p ''commission'' = Some c0" "current_holdings p ''cash'' = Some c"
    "current_holdings p ''total'' = Some T"
  using assms unfolding pf_inv_def reserved_def by (metis domD UnCI insertCI)

lemma update_fill_inv:
  assumes inv: "pf_inv p" and ok: "update_fill bars p ev = Inr p'"
  shows "pf_inv p'"
proof (cases ev)
  case (FillEvent f)
  let ?s = "fill_symbol f"
  from ok FillEvent obtain q px where q: "current_positions p ?s = Some q"
    and px: "get_latest_bar_value bars ?s ''adj_close'' = Inr px"
    by (auto elim: update_fill_Inr_cases)
  from inv q have s: "?s \<in> set (symbol_list p)" "?s \<notin> reserved"
    unfolding pf_inv_def by blast+
  from inv s(1) obtain q' hs c0 c T where l: "current_positions p ?s = Some q'" "current_holdings p ?s = Some hs"
    "current_holdings p ''commission'' = Some c0" "current_holdings p ''cash'' = Some c"
    "current_holdings p ''total'' = Some T"
    by (rule pf_inv_lookups)
  have p': "p' = p\<lparr>current_positions := (current_positions p)(?s \<mapsto> q' + fill_dir (fill_direction f) * fill_quantity f),
           current_holdings := (current_holdings p)(?s \<mapsto> hs + real_of_int (fill_dir (fill_direction f)) * px * real_of_int (fill_quantity f),
              ''commission'' \<mapsto> c0 + commission f,
              ''cash'' \<mapsto> c - (real_of_int (fill_dir (fill_direction f)) * px * real_of_int (fill_quantity f) + commission f),
              ''total'' \<mapsto> T - (real_of_int (fill_dir (fill_direction f)) * px * real_of_int (fill_quantity f) + commission f))\<rparr>"
    using ok FillEvent update_fill_FillEvent [OF refl s(2) l px] by simp
  have notin: "''commission'' \<notin> set (symbol_list p)" "''cash'' \<notin> set (symbol_list p)" "''total'' \<notin> set (symbol_list p)"
    using inv unfolding pf_inv_def by auto
  have dist: "distinct (symbol_list p)" using inv unfolding pf_inv_def by blast
  show ?thesis
    using inv s l notin unfolding p' pf_inv_def
    by (auto simp: sum_vals_upd_in [OF dist s(1)] val0_upd)
next
  case MarketEvent
  with ok inv show ?thesis by (simp add: update_fill_def)
next
  case (SignalEvent x)
  with ok inv show ?thesis by (simp add: update_fill_def)
next
  case (OrderEvent x)
  with ok inv show ?thesis by (simp add: update_fill_def)
qed

section \<open>Lemmas: market ticks\<close>

lemma mark_symbol_Inr:
  assumes "mark_symbol bars p h s = Inr h'" and "s \<noteq> ''total''"
  obtains q px T where "current_positions p s = Some q"
    "get_latest_bar_value bars s ''adj_close'' = Inr px" "h ''total'' = Some T"
    "h' = h(s \<mapsto> real_of_int q * px, ''total'' \<mapsto> T + real_of_int q * px)"
  using assms
  by (auto simp: mark_symbol_def rbind_eq_Inr Let_def split: option.splits)

lemma mark_loop:
  assumes "for_each (mark_symbol bars p) xs h = Inr h'"
    and "distinct xs" "set xs \<subseteq> set syms" "distinct syms" "\<forall>s\<in>set syms. s \<notin> reserved"
    and "\<forall>s\<in>set xs. val0 h s = 0" "h ''total'' = Some T" "h ''cash'' = Some C"
  shows "h' ''cash'' = Some C \<and> ''total'' \<in> dom h' \<and>
    val0 h' ''total'' - sum_vals h' syms = T - sum_vals h syms"
  using assms
proof (induction xs arbitrary: h T)
  case Nil
  then show ?case by auto
next
  case (Cons s xs)
  from Cons.prems(1) obtain h1 where h1: "mark_symbol bars p h s = Inr h1"
    and rest: "for_each (mark_symbol bars p) xs h1 = Inr h'"
    by (auto simp: rbind_eq_Inr)
  have s: "s \<in> set syms" "s \<notin> reserved" using Cons.prems(3,5) by auto
  then obtain q px T0 where "h ''total'' = Some T0"
    and h1_eq: "h1 = h(s \<mapsto> real_of_int q * px, ''total'' \<mapsto> T0 + real_of_int q * px)"
    using h1 by (auto elim: mark_symbol_Inr)
  then have T0: "T0 = T" using Cons.prems(7) by simp
  have tot: "''total'' \<notin> set syms" using Cons.prems(5) by auto
  have sum1: "sum_vals h1 syms = sum_vals h syms + real_of_int q * px"
    using Cons.prems(4,6) s tot unfolding h1_eq by (simp add: sum_vals_upd_in)
  have IH: "h' ''cash'' = Some C \<and> ''total'' \<in> dom h' \<and>
    val0 h' ''total'' - sum_vals h' syms = (T + real_of_int q * px) - sum_vals h1 syms"
  proof (rule Cons.IH [OF rest])
    show "\<forall>s'\<in>set xs. val0 h1 s' = 0"
      using Cons.prems(2,3,5,6) s unfolding h1_eq by (auto simp: val0_upd)
  qed (use Cons.prems s T0 in \<open>auto simp: h1_eq\<close>)
  then show ?case using sum1 by simp
qed

lemma update_timeindex_Inr:
  assumes "update_timeindex bars p = Inr p'"
  obtains t dp C cm h where "current_holdings p ''cash'' = Some C"
    "current_holdings p ''commission'' = Some cm"
    "for_each (copy_position p) (symbol_list p) (fromkeys (symbol_list p) 0) = Inr dp"
    "for_each (mark_symbol bars p) (symbol_list p)
       ((fromkeys (symbol_list p) 0)(''cash'' \<mapsto> C, ''commission'' \<mapsto> cm, ''total'' \<mapsto> C)) = Inr h"
    "p' = p\<lparr>all_positions := all_positions p @ [(t, dp)], all_holdings := all_holdings p @ [(t, h)]\<rparr>"
  using assms
  using assms
  by (auto simp: update_timeindex_def rbind_eq_Inr split: list.splits option.splits)

lemma update_timeindex_snapshot_ok:
  assumes inv: "pf_inv p"
    and loop: "for_each (mark_symbol bars p) (symbol_list p)
       ((fromkeys (symbol_list p) 0)(''cash'' \<mapsto> C, ''commission'' \<mapsto> cm, ''total'' \<mapsto> C)) = Inr h"
  shows "snapshot_ok (symbol_list p) h"
proof -
  let ?h0 = "(fromkeys (symbol_list p) 0)(''cash'' \<mapsto> C, ''commission'' \<mapsto> cm, ''total'' \<mapsto> C)"
  have free: "\<forall>s\<in>set (symbol_list p). s \<notin> reserved" and dist: "distinct (symbol_list p)"
    using inv unfolding pf_inv_def by blast+
  have zero: "\<forall>s\<in>set (symbol_list p). val0 ?h0 s = 0"
    using free by (simp add: val0_def)
  have "sum_vals ?h0 (symbol_list p) = 0"
    using zero by (simp add: sum_vals_zero)
  moreover have "h ''cash'' = Some C \<and> ''total'' \<in> dom h \<and>
      val0 h ''total'' - sum_vals h (symbol_list p) = C - sum_vals ?h0 (symbol_list p)"
    by (rule mark_loop [OF loop dist order_refl dist free zero]) simp_all
  ultimately show ?thesis unfolding snapshot_ok_def by (simp add: val0_def domI)
qed

lemma update_timeindex_inv:
  assumes inv: "pf_inv p" and ok: "update_timeindex bars p = Inr p'"
  shows "pf_inv p'"
proof -
  from ok obtain t dp C cm h where
    loop: "for_each (mark_symbol bars p) (symbol_list p)
       ((fromkeys (symbol_list p) 0)(''cash'' \<mapsto> C, ''commission'' \<mapsto> cm, ''total'' \<mapsto> C)) = Inr h"
    and p': "p' = p\<lparr>all_positions := all_positions p @ [(t, dp)], all_holdings := all_holdings p @ [(t, h)]\<rparr>"
    by (rule update_timeindex_Inr)
  have "snapshot_ok (symbol_list p) h"
    using inv loop by (rule update_timeindex_snapshot_ok)
  with inv show ?thesis unfolding p' pf_inv_def by auto
qed

section \<open>Lemmas: initial state and runs of fills\<close>

lemma init_portfolio_inv:
  assumes "distinct (dh_symbol_list bars)" "\<forall>s\<in>set (dh_symbol_list bars). s \<notin> reserved"
  shows "pf_inv (init_portfolio bars start cap)"
proof -
  let ?syms = "dh_symbol_list bars"
  let ?h = "construct_current_holdings ?syms cap"
  have z: "sum_vals ?h ?syms = 0"
    using assms(2) by (intro sum_vals_zero) (auto simp: construct_current_holdings_def val0_def)
  have "dom ?h = set ?syms \<union> reserved"
    by (auto simp: construct_current_holdings_def reserved_def)
  moreover have "snapshot_ok ?syms ?h"
    using z by (simp add: snapshot_ok_def construct_current_holdings_def val0_def)
  ultimately show ?thesis
    using assms z
    by (simp add: pf_inv_def init_portfolio_def construct_all_holdings_def Let_def
        construct_current_holdings_def val0_def)
qed

lemma update_fill_step:
  assumes inv: "pf_inv p" and s: "fill_symbol f \<in> set (symbol_list p)"
    and px: "get_latest_bar_value bars (fill_symbol f) ''adj_close'' = Inr px"
  shows "\<exists>p'. update_fill bars p (FillEvent f) = Inr p' \<and> pf_inv p' \<and>
    symbol_list p' = symbol_list p \<and>
    val0 (current_holdings p') ''cash'' = val0 (current_holdings p) ''cash'' - fill_cash_flow px f \<and>
    (\<forall>k. val0 (current_positions p') k = val0 (current_positions p) k + fill_position_delta k f)"
proof -
  from inv s obtain q hs c0 c T where l: "current_positions p (fill_symbol f) = Some q"
    "current_holdings p (fill_symbol f) = Some hs"
    "current_holdings p ''commission'' = Some c0" "current_holdings p ''cash'' = Some c"
    "current_holdings p ''total'' = Some T"
    by (rule pf_inv_lookups)
  have r: "fill_symbol f \<notin> reserved" using inv s unfolding pf_inv_def by blast
  let ?p' = "p\<lparr>current_positions := (current_positions p)(fill_symbol f \<mapsto> q + fill_dir (fill_direction f) * fill_quantity f),
           current_holdings := (current_holdings p)(fill_symbol f \<mapsto> hs + real_of_int (fill_dir (fill_direction f)) * px * real_of_int (fill_quantity f),
              ''commission'' \<mapsto> c0 + commission f,
              ''cash'' \<mapsto> c - (real_of_int (fill_dir (fill_direction f)) * px * real_of_int (fill_quantity f) + commission f),
              ''total'' \<mapsto> T - (real_of_int (fill_dir (fill_direction f)) * px * real_of_int (fill_quantity f) + commission f))\<rparr>"
  have eq: "update_fill bars p (FillEvent f) = Inr ?p'"
    by (rule update_fill_FillEvent [OF refl r l px])
  have "pf_inv ?p'" using update_fill_inv [OF inv eq] .
  moreover have "\<forall>k. val0 (current_positions ?p') k = val0 (current_positions p) k + fill_position_delta k f"
    using l(1) by (auto simp: val0_upd fill_position_delta_def)
  ultimately show ?thesis
    using eq l by (auto simp: fill_cash_flow_def val0_def)
qed

text \<open>
  C1: a sequence of fills on tracked symbols with known prices is
  applied without error; the cash falls by the signed cost plus commission of every
  fill, the current total stays equal to the cash, each position moves by the
  signed quantities of its fills, and the invariant is kept.
\<close>

theorem fills_ledger:
  assumes "pf_inv p"
    and "\<forall>f\<in>set fs. fill_symbol f \<in> set (symbol_list p) \<and>
           get_latest_bar_value bars (fill_symbol f) ''adj_close'' = Inr (px (fill_symbol f))"
  shows "\<exists>p'. for_each (\<lambda>p f. update_fill bars p (FillEvent f)) fs p = Inr p' \<and> pf_inv p' \<and>
    val0 (current_holdings p') ''cash'' = val0 (current_holdings p) ''cash'' - (\<Sum>f\<leftarrow>fs. fill_cash_flow (px (fill_symbol f)) f) \<and>
    val0 (current_holdings p') ''total'' = val0 (current_holdings p') ''cash'' \<and>
    (\<forall>k. val0 (current_positions p') k = val0 (current_positions p) k + (\<Sum>f\<leftarrow>fs. fill_position_delta k f))"
  using assms
proof (induction fs arbitrary: p)
  case Nil
  then show ?case by (simp add: pf_inv_def)
next
  case (Cons f fs)
  have f: "fill_symbol f \<in> set (symbol_list p)"
    "get_latest_bar_value bars (fill_symbol f) ''adj_close'' = Inr (px (fill_symbol f))"
    using Cons.prems(2) by simp_all
  obtain p1 where p1: "update_fill bars p (FillEvent f) = Inr p1" "pf_inv p1"
    "symbol_list p1 = symbol_list p"
    "val0 (current_holdings p1) ''cash'' = val0 (current_holdings p) ''cash'' - fill_cash_flow (px (fill_symbol f)) f"
    "\<forall>k. val0 (current_positions p1) k = val0 (current_positions p) k + fill_position_delta k f"
    using update_fill_step [OF Cons.prems(1) f] by blast
  have "\<forall>f\<in>set fs. fill_symbol f \<in> set (symbol_list p1) \<and>
           get_latest_bar_value bars (fill_symbol f) ''adj_close'' = Inr (px (fill_symbol f))"
    using Cons.prems(2) p1(3) by simp
  from Cons.IH [OF p1(2) this] obtain p' where
    "for_each (\<lambda>p f. update_fill bars p (FillEvent f)) fs p1 = Inr p'" "pf_inv p'"
    "val0 (current_holdings p') ''cash'' = val0 (current_holdings p1) ''cash'' - (\<Sum>f\<leftarrow>fs. fill_cash_flow (px (fill_symbol f)) f)"
    "val0 (current_holdings p') ''total'' = val0 (current_holdings p') ''cash''"
    "\<forall>k. val0 (current_positions p') k = val0 (current_positions p1) k + (\<Sum>f\<leftarrow>fs. fill_position_delta k f)"
    by blast
  with p1 show ?case by (auto simp: algebra_simps)
qed

section \<open>Lemmas: market ticks, continued\<close>

lemma mark_loop_frame:
  assumes "for_each (mark_symbol bars p) xs h = Inr h'"
    and "k \<notin> set xs" "k \<noteq> ''total''" "''total'' \<notin> set xs"
  shows "h' k = h k"
  using assms
proof (induction xs arbitrary: h)
  case Nil
  then show ?case by simp
next
  case (Cons s xs)
  from Cons.prems(1) obtain h1 where h1: "mark_symbol bars p h s = Inr h1"
    and rest: "for_each (mark_symbol bars p) xs h1 = Inr h'"
    by (auto simp: rbind_eq_Inr)
  have "s \<noteq> ''total''" using Cons.prems(4) by auto
  with h1 obtain q px T where "h1 = h(s \<mapsto> real_of_int q * px, ''total'' \<mapsto> T + real_of_int q * px)"
    by (auto elim: mark_symbol_Inr)
  moreover have "h' k = h1 k" using Cons.IH [OF rest] Cons.prems(2-4) by simp
  ultimately show ?case using Cons.prems(2,3) by simp
qed

lemma mark_loop_value:
  assumes "for_each (mark_symbol bars p) xs h = Inr h'"
    and "distinct xs" "''total'' \<notin> set xs" "s \<in> set xs"
  shows "\<exists>q px. current_positions p s = Some q \<and> get_latest_bar_value bars s ''adj_close'' = Inr px \<and>
    h' s = Some (real_of_int q * px)"
  using assms
proof (induction xs arbitrary: h)
  case Nil
  then show ?case by simp
next
  case (Cons s0 xs)
  from Cons.prems(1) obtain h1 where h1: "mark_symbol bars p h s0 = Inr h1"
    and rest: "for_each (mark_symbol bars p) xs h1 = Inr h'"
    by (auto simp: rbind_eq_Inr)
  show ?case
  proof (cases "s = s0")
    case True
    have "s0 \<noteq> ''total''" using Cons.prems(3) by auto
    with h1 obtain q px T where q: "current_positions p s0 = Some q"
      "get_latest_bar_value bars s0 ''adj_close'' = Inr px"
      and h1_eq: "h1 = h(s0 \<mapsto> real_of_int q * px, ''total'' \<mapsto> T + real_of_int q * px)"
      by (auto elim: mark_symbol_Inr)
    have "h' s0 = h1 s0"
      using mark_loop_frame [OF rest] Cons.prems(2,3) \<open>s0 \<noteq> ''total''\<close> by simp
    with q h1_eq True \<open>s0 \<noteq> ''total''\<close> show ?thesis by simp
  next
    case False
    with Cons.prems(2-4) show ?thesis using Cons.IH [OF rest] by simp
  qed
qed

text \<open>C13: a market tick appends one holdings snapshot, marked to market, and leaves the current state alone.\<close>

theorem update_timeindex_marks_to_market:
  assumes inv: "pf_inv p" and ok: "update_timeindex bars p = Inr p'"
  shows "\<exists>t h. all_holdings p' = all_holdings p @ [(t, h)] \<and>
    current_holdings p' = current_holdings p \<and> current_positions p' = current_positions p \<and>
    h ''cash'' = current_holdings p ''cash'' \<and>
    val0 h ''total'' = val0 h ''cash'' + sum_vals h (symbol_list p) \<and>
    (\<forall>s\<in>set (symbol_list p). \<exists>q px. current_positions p s = Some q \<and>
        get_latest_bar_value bars s ''adj_close'' = Inr px \<and> h s = Some (real_of_int q * px))"
proof -
  from ok obtain t dp C cm h where C: "current_holdings p ''cash'' = Some C"
    and loop: "for_each (mark_symbol bars p) (symbol_list p)
       ((fromkeys (symbol_list p) 0)(''cash'' \<mapsto> C, ''commission'' \<mapsto> cm, ''total'' \<mapsto> C)) = Inr h"
    and p': "p' = p\<lparr>all_positions := all_positions p @ [(t, dp)], all_holdings := all_holdings p @ [(t, h)]\<rparr>"
    by (rule update_timeindex_Inr)
  have dist: "distinct (symbol_list p)" and tot: "''total'' \<notin> set (symbol_list p)"
    and cash: "''cash'' \<notin> set (symbol_list p)"
    using inv unfolding pf_inv_def by auto
  have snap: "snapshot_ok (symbol_list p) h"
    using inv loop by (rule update_timeindex_snapshot_ok)
  have "h ''cash'' = Some C"
    using mark_loop_frame [OF loop cash] tot by simp
  moreover have "\<forall>s\<in>set (symbol_list p). \<exists>q px. current_positions p s = Some q \<and>
        get_latest_bar_value bars s ''adj_close'' = Inr px \<and> h s = Some (real_of_int q * px)"
    using mark_loop_value [OF loop dist tot] by blast
  ultimately show ?thesis using snap C unfolding p' snapshot_ok_def by auto
qed

section \<open>Lemmas: signals\<close>

lemma generate_naive_order_cases:
  assumes "current_positions p (sig_symbol sg) = Some q"
  shows "generate_naive_order p sg = Inr
    (if signal_type sg = ''EXIT'' \<and> q < 0 then Some \<lparr>ord_symbol = sig_symbol sg, order_type = ''MKT'', ord_quantity = \<bar>q\<bar>, ord_direction = ''BUY''\<rparr>
     else if signal_type sg = ''EXIT'' \<and> q > 0 then Some \<lparr>ord_symbol = sig_symbol sg, order_type = ''MKT'', ord_quantity = \<bar>q\<bar>, ord_direction = ''SELL''\<rparr>
     else if signal_type sg = ''SHORT'' \<and> q = 0 then Some \<lparr>ord_symbol = sig_symbol sg, order_type = ''MKT'', ord_quantity = 100, ord_direction = ''SELL''\<rparr>
     else if signal_type sg = ''LONG'' \<and> q = 0 then Some \<lparr>ord_symbol = sig_symbol sg, order_type = ''MKT'', ord_quantity = 100, ord_direction = ''BUY''\<rparr>
     else None)"
  using assms by (simp add: generate_naive_order_def Let_def)

text \<open>C14: an order of the naive policy is a market order for a positive quantity of the signal's symbol; LONG and SHORT open a 100-unit position from flat, EXIT flattens the position.\<close>

theorem naive_order_sound:
  assumes "current_positions p (sig_symbol sg) = Some q"
    and "generate_naive_order p sg = Inr (Some ord)"
  shows "ord_symbol ord = sig_symbol sg \<and> order_type ord = ''MKT'' \<and> 0 < ord_quantity ord \<and>
    (signal_type sg = ''LONG'' \<longrightarrow> q = 0 \<and> ord_direction ord = ''BUY'' \<and> ord_quantity ord = 100) \<and>
    (signal_type sg = ''SHORT'' \<longrightarrow> q = 0 \<and> ord_direction ord = ''SELL'' \<and> ord_quantity ord = 100) \<and>
    (signal_type sg = ''EXIT'' \<longrightarrow> q + fill_dir (ord_direction ord) * ord_quantity ord = 0)"
  using assms generate_naive_order_cases [OF assms(1)]
  by (auto simp: fill_dir_def split: if_splits)

text \<open>C15: the naive policy yields no order exactly when no rule of its table applies.\<close>

theorem naive_order_none:
  assumes "current_positions p (sig_symbol sg) = Some q"
  shows "generate_naive_order p sg = Inr None \<longleftrightarrow>
    \<not> (signal_type sg = ''LONG'' \<and> q = 0) \<and> \<not> (signal_type sg = ''SHORT'' \<and> q = 0) \<and>
    \<not> (signal_type sg = ''EXIT'' \<and> q \<noteq> 0)"
  using generate_naive_order_cases [OF assms] by auto

text \<open>A signal for an untracked symbol raises KeyError.\<close>

theorem naive_order_unknown_symbol:
  "current_positions p (sig_symbol sg) = None \<Longrightarrow> generate_naive_order p sg = Inl KeyError"
  by (simp add: generate_naive_order_def Let_def)

text \<open>\<open>update_signal\<close> puts exactly one entry on the queue for a signal, None when there is no order.\<close>

theorem update_signal_one_entry:
  assumes "current_positions p (sig_symbol sg) = Some q"
  shows "\<exists>ord. generate_naive_order p sg = Inr ord \<and>
    update_signal p (SignalEvent sg) = Inr [map_option OrderEvent ord]"
  using generate_naive_order_cases [OF assms] by (simp add: update_signal_def)

text \<open>C17: the cost of a fill does not depend on the fill_cost the event reports.\<close>

theorem update_fill_ignores_fill_cost:
  "update_fill bars p (FillEvent (f\<lparr>fill_cost := c\<rparr>)) = update_fill bars p (FillEvent f)"
  by (simp add: update_fill_def update_positions_from_fill_def update_holdings_from_fill_def fill_cost_of_def)

section \<open>Lemmas: marking of the snapshots\<close>

lemma copy_loop_frame:
  "for_each (copy_position p) xs dp = Inr dp' \<Longrightarrow> s \<notin> set xs \<Longrightarrow> dp' s = dp s"
proof (induction xs arbitrary: dp)
  case (Cons s0 xs)
  then show ?case by (auto simp: copy_position_def rbind_eq_Inr)
qed simp

lemma copy_loop_value:
  "for_each (copy_position p) xs dp = Inr dp' \<Longrightarrow> distinct xs \<Longrightarrow> s \<in> set xs \<Longrightarrow>
   dp' s = current_positions p s"
proof (induction xs arbitrary: dp)
  case (Cons s0 xs)
  from Cons.prems(1) obtain dp1 where c: "copy_position p dp s0 = Inr dp1"
    and rest1: "for_each (copy_position p) xs dp1 = Inr dp'"
    by (auto simp: rbind_eq_Inr)
  from c obtain q where q: "current_positions p s0 = Some q" and dp1: "dp1 = dp(s0 \<mapsto> q)"
    by (auto simp: copy_position_def rbind_eq_Inr split: option.splits)
  note rest = rest1 [unfolded dp1]
  show ?case
  proof (cases "s = s0")
    case True
    with Cons.prems(2) copy_loop_frame [OF rest] q show ?thesis by simp
  next
    case False
    with Cons.prems(2,3) Cons.IH [OF rest] show ?thesis by simp
  qed
qed simp

lemma latest_value_delivered:
  assumes "get_latest_bar_value dh s f = Inr px"
  obtains bs b where "latest_symbol_data dh s = Some bs" "b \<in> set bs" "bar_values b f = Some px"
  using assms
  by (auto simp: get_latest_bar_value_def get_latest_bar_def rbind_eq_Inr split: option.splits if_splits
      intro: last_in_set)

lemma snapshot_marked_mono:
  "extends_history dh dh' \<Longrightarrow> snapshot_marked dh syms dp h \<Longrightarrow> snapshot_marked dh' syms dp h"
  unfolding snapshot_marked_def extends_history_def
  by (fastforce split: option.splits)

lemma snapshots_marked_mono:
  "extends_history dh dh' \<Longrightarrow> snapshots_marked dh p \<Longrightarrow> snapshots_marked dh' p"
  unfolding snapshots_marked_def
  by (auto elim: list_all2_mono intro: snapshot_marked_mono)

lemma init_portfolio_marked:
  "\<forall>s\<in>set (dh_symbol_list bars). s \<notin> reserved \<Longrightarrow> snapshots_marked dh (init_portfolio bars start cap)"
  by (auto simp: snapshots_marked_def snapshot_marked_def init_portfolio_def Let_def
      construct_all_positions_def construct_all_holdings_def)

lemma update_timeindex_marked:
  assumes inv: "pf_inv p" and m: "snapshots_marked bars p" and ok: "update_timeindex bars p = Inr p'"
  shows "snapshots_marked bars p'"
proof -
  from ok obtain t dp C cm h where
    cp: "for_each (copy_position p) (symbol_list p) (fromkeys (symbol_list p) 0) = Inr dp"
    and loop: "for_each (mark_symbol bars p) (symbol_list p)
       ((fromkeys (symbol_list p) 0)(''cash'' \<mapsto> C, ''commission'' \<mapsto> cm, ''total'' \<mapsto> C)) = Inr h"
    and p': "p' = p\<lparr>all_positions := all_positions p @ [(t, dp)], all_holdings := all_holdings p @ [(t, h)]\<rparr>"
    by (rule update_timeindex_Inr)
  have dist: "distinct (symbol_list p)" and tot: "''total'' \<notin> set (symbol_list p)"
    using inv unfolding pf_inv_def by auto
  have "snapshot_marked bars (symbol_list p) dp h"
    unfolding snapshot_marked_def
  proof
    fix s assume s: "s \<in> set (symbol_list p)"
    obtain q px where q: "current_positions p s = Some q"
      and px: "get_latest_bar_value bars s ''adj_close'' = Inr px" and hs: "h s = Some (real_of_int q * px)"
      using mark_loop_value [OF loop dist tot s] by blast
    obtain bs b where "latest_symbol_data bars s = Some bs" "b \<in> set bs" "bar_values b ''adj_close'' = Some px"
      using px by (rule latest_value_delivered)
    moreover have "dp s = Some q" using copy_loop_value [OF cp dist s] q by simp
    ultimately show "case (dp s, h s) of
        (Some q, Some v) \<Rightarrow> (q = 0 \<and> v = 0) \<or>
          (case latest_symbol_data bars s of None \<Rightarrow> False
           | Some bs \<Rightarrow> (\<exists>b\<in>set bs. case bar_values b ''adj_close'' of None \<Rightarrow> False
                                       | Some px \<Rightarrow> v = real_of_int q * px))
      | _ \<Rightarrow> False" using hs by force
  qed
  with m show ?thesis unfolding p' snapshots_marked_def by (auto intro: list_all2_appendI)
qed

section \<open>Invariant of every portfolio operation\<close>

text \<open>
  C3: the portfolio invariant is kept by every
  state-changing method of the class, the fill handler and the market-tick
  handler alike.
\<close>

theorem portfolio_inv_preserved:
  assumes "pf_inv p"
    and "update_fill bars p ev = Inr p' \<or> update_timeindex bars p = Inr p'"
  shows "pf_inv p'"
  using assms update_fill_inv update_timeindex_inv by blast

text \<open>
  C22: a fill for a symbol the portfolio does not track
  raises \<open>KeyError\<close> from the positions dictionary; a fill for a tracked symbol
  without a latest bar raises the data handler's error.
\<close>

theorem update_fill_error_paths:
  "(current_positions p (fill_symbol f) = None \<longrightarrow> update_fill bars p (FillEvent f) = Inl KeyError) \<and>
   (current_positions p (fill_symbol f) = Some q \<longrightarrow>
      get_latest_bar_value bars (fill_symbol f) ''adj_close'' = Inl e \<longrightarrow>
      update_fill bars p (FillEvent f) = Inl e)"
  using update_fill_unknown_symbol update_fill_no_price by blast

section \<open>Witnesses and scenarios\<close>

lemmas ex_simps = init_portfolio_def construct_all_positions_def construct_all_holdings_def
  construct_current_holdings_def get_latest_bar_value_def get_latest_bar_datetime_def
  get_latest_bar_def Let_def

lemma ex_portfolio_inv: "pf_inv ex_portfolio"
  by (rule init_portfolio_inv) (simp_all add: reserved_def)

lemma ex_price: "get_latest_bar_value ex_bars ''X'' ''adj_close'' = Inr 10"
  by (simp add: ex_simps)

theorem fills_ledger_witness:
  "\<exists>p'. for_each (\<lambda>p f. update_fill ex_bars p (FillEvent f)) [ex_fill] ex_portfolio = Inr p' \<and>
     val0 (current_holdings p') ''cash'' = 98999 \<and> val0 (current_positions p') ''X'' = 100"
proof -
  have "\<forall>f\<in>set [ex_fill]. fill_symbol f \<in> set (symbol_list ex_portfolio) \<and>
      get_latest_bar_value ex_bars (fill_symbol f) ''adj_close'' = Inr ((\<lambda>_. 10) (fill_symbol f))"
    by (simp add: ex_simps)
  from fills_ledger [OF ex_portfolio_inv this] obtain p' where
    run: "for_each (\<lambda>p f. update_fill ex_bars p (FillEvent f)) [ex_fill] ex_portfolio = Inr p'"
    and cash: "val0 (current_holdings p') ''cash'' =
       val0 (current_holdings ex_portfolio) ''cash'' - (\<Sum>f\<leftarrow>[ex_fill]. fill_cash_flow ((\<lambda>_. 10) (fill_symbol f)) f)"
    and pos: "\<forall>k. val0 (current_positions p') k =
       val0 (current_positions ex_portfolio) k + (\<Sum>f\<leftarrow>[ex_fill]. fill_position_delta k f)"
    by blast
  have "val0 (current_holdings p') ''cash'' = 98999"
    using cash by (simp add: ex_simps val0_def fill_cash_flow_def fill_dir_def)
  moreover have "val0 (current_positions p') ''X'' = 100"
    using pos by (simp add: ex_simps val0_def fill_position_delta_def fill_dir_def)
  ultimately show ?thesis using run by blast
qed

theorem update_timeindex_marks_to_market_witness:
  "\<exists>p'. update_timeindex ex_bars ex_portfolio = Inr p' \<and>
     (\<exists>t h. all_holdings p' = all_holdings ex_portfolio @ [(t, h)] \<and> h ''X'' = Some 0 \<and>
        val0 h ''total'' = val0 h ''cash'' + sum_vals h [''X''])"
proof -
  obtain p' where ok: "update_timeindex ex_bars ex_portfolio = Inr p'"
    by (simp add: update_timeindex_def copy_position_def mark_symbol_def ex_simps)
  from update_timeindex_marks_to_market [OF ex_portfolio_inv ok] ok show ?thesis
    by (auto simp: ex_simps)
qed

theorem naive_order_sound_witness:
  "generate_naive_order ex_portfolio ex_signal =
     Inr (Some \<lparr>ord_symbol = ''X'', order_type = ''MKT'', ord_quantity = 100, ord_direction = ''BUY''\<rparr>) \<and>
   0 < ord_quantity \<lparr>ord_symbol = ''X'', order_type = ''MKT'', ord_quantity = 100, ord_direction = ''BUY''\<rparr>"
proof -
  have q: "current_positions ex_portfolio (sig_symbol ex_signal) = Some 0" by (simp add: ex_simps)
  have o: "generate_naive_order ex_portfolio ex_signal =
     Inr (Some \<lparr>ord_symbol = ''X'', order_type = ''MKT'', ord_quantity = 100, ord_direction = ''BUY''\<rparr>)"
    by (simp add: generate_naive_order_def ex_simps)
  show ?thesis using naive_order_sound [OF q o] o by simp
qed

theorem naive_order_none_witness:
  "generate_naive_order ex_portfolio (ex_signal\<lparr>signal_type := ''EXIT''\<rparr>) = Inr None"
proof -
  have q: "current_positions ex_portfolio (sig_symbol (ex_signal\<lparr>signal_type := ''EXIT''\<rparr>)) = Some 0"
    by (simp add: ex_simps)
  show ?thesis using naive_order_none [OF q] by simp
qed

theorem naive_order_unknown_symbol_witness:
  "generate_naive_order ex_portfolio (ex_signal\<lparr>sig_symbol := ''Y''\<rparr>) = Inl KeyError"
  by (rule naive_order_unknown_symbol) (simp add: ex_simps)

theorem update_signal_one_entry_witness:
  "update_signal ex_portfolio (SignalEvent ex_signal) =
     Inr [Some (OrderEvent \<lparr>ord_symbol = ''X'', order_type = ''MKT'', ord_quantity = 100, ord_direction = ''BUY''\<rparr>)]"
proof -
  have q: "current_positions ex_portfolio (sig_symbol ex_signal) = Some 0" by (simp add: ex_simps)
  from update_signal_one_entry [OF q] obtain ord where
    "generate_naive_order ex_portfolio ex_signal = Inr ord" "update_signal ex_portfolio (SignalEvent ex_signal) = Inr [map_option OrderEvent ord]"
    by blast
  then show ?thesis by (simp add: generate_naive_order_def ex_simps)
qed

theorem portfolio_inv_preserved_witness:
  "\<exists>p'. update_fill ex_bars ex_portfolio (FillEvent ex_fill) = Inr p' \<and> pf_inv p'"
proof -
  obtain p' where ok: "update_fill ex_bars ex_portfolio (FillEvent ex_fill) = Inr p'"
    by (simp add: update_fill_def update_positions_from_fill_def update_holdings_from_fill_def
        fill_cost_of_def ex_simps)
  then show ?thesis using portfolio_inv_preserved [OF ex_portfolio_inv] by blast
qed

theorem update_fill_error_paths_witness:
  "update_fill ex_bars ex_portfolio (FillEvent (ex_fill\<lparr>fill_symbol := ''Y''\<rparr>)) = Inl KeyError"
  using update_fill_error_paths [of ex_portfolio "ex_fill\<lparr>fill_symbol := ''Y''\<rparr>" ex_bars]
  by (simp add: ex_simps)

text \<open>
  Specification scenario 1. Starting from a
  capital of 100000, a fill buying 100 units of X with commission 1 leaves a
  position of 100 and cash 98999 when the latest close of X is 10; when the
  latest close is 12 the cash is 98799 although the fill reports a cost of 10.
\<close>

theorem scenario_fill_at_latest_close:
  "(\<exists>p. update_fill ex_bars ex_portfolio (FillEvent ex_fill) = Inr p \<and>
      current_positions p ''X'' = Some 100 \<and> current_holdings p ''cash'' = Some 98999) \<and>
   (\<exists>p. update_fill (ex_bars\<lparr>latest_symbol_data := [''X'' \<mapsto> [\<lparr>bar_datetime = 1, bar_values = [''adj_close'' \<mapsto> 12]\<rparr>]]\<rparr>)
          ex_portfolio (FillEvent ex_fill) = Inr p \<and>
      current_positions p ''X'' = Some 100 \<and> current_holdings p ''cash'' = Some 98799)"
  by (simp add: update_fill_def update_positions_from_fill_def update_holdings_from_fill_def
        fill_cost_of_def fill_dir_def ex_simps)

end
