(* ===== verification/Backtest_Dispatch.thy ===== *)
theory Backtest_Dispatch
  imports Portfolio
begin

text \<open>
  The state of the \<open>Backtestclass\<close> of \<open>backtest.py\<close> (the event queue and
  the three counters next to the four components) and the handling of one event
  by the inner loop of \<open>_run_backtest\<close>. The strategy and the execution
  handler are not part of the sources under \<open>src/\<close>; they enter as the two
  functions of an interface record, over a state of their own (type variables
  \<open>'s\<close> and \<open>'x\<close>): the strategy turns a market event into signals, the
  execution handler turns an order into fills, and both read the data handler.
  What they return is what they put on the queue.
\<close>

section \<open>State and collaborators\<close>

record ('s, 'x) backtest =
  events :: "queue_entry list"
  signals :: nat
  orders :: nat
  fills :: nat
  data_handler :: data_handler
  portfolio :: portfolio
  strategy :: 's
  execution_handler :: 'x

record ('s, 'x) collaborators =
  calculate_signals :: "'s \<Rightarrow> data_handler \<Rightarrow> event \<Rightarrow> 's \<times> signal_event list"
  execute_order :: "'x \<Rightarrow> data_handler \<Rightarrow> event \<Rightarrow> 'x \<times> fill_event list"

text \<open>
  \<open>Backtest.__init__\<close> calls \<open>self._generate_trading_instances()\<close> without
  the \<open>strategy_params_dict\<close> argument the method requires, so constructing a
  backtest raises \<open>TypeError\<close> before any component exists.
\<close>

definition Backtest_init :: "symbol list \<Rightarrow> real \<Rightarrow> timestamp \<Rightarrow> ('s, 'x) backtest result" where
  "Backtest_init syms capital start = Inl TypeError"

text \<open>
  \<open>_generate_trading_instances(strategy_params_dict)\<close> as it is meant to be
  called: the data handler, strategy and execution handler come ready-made (the
  strategy's parameters are in its state), the portfolio is constructed on the
  data handler; the queue is empty and the counters are zero.
\<close>

definition generate_trading_instances ::
  "data_handler \<Rightarrow> 's \<Rightarrow> 'x \<Rightarrow> timestamp \<Rightarrow> real \<Rightarrow> ('s, 'x) backtest" where
  "generate_trading_instances bars strat exec start capital =
     \<lparr>events = [], signals = 0, orders = 0, fills = 0, data_handler = bars,
      portfolio = init_portfolio bars start capital,
      strategy = strat, execution_handler = exec\<rparr>"

section \<open>Dispatch of one event\<close>

text \<open>
  One iteration of the inner loop of \<open>_run_backtest\<close>, for an entry already
  taken off the queue. \<open>None\<close> is skipped. A market event goes to the
  strategy first and then to \<open>update_timeindex\<close>; a signal increments
  \<open>signals\<close> and goes to \<open>update_signal\<close>; an order increments
  \<open>orders\<close> and goes to the execution handler; a fill goes to
  \<open>update_fill\<close>, and \<open>self.fills ++ 1\<close> (line 177) evaluates
  \<open>self.fills + (+1)\<close> and discards it, so \<open>fills\<close> is not incremented.
\<close>

fun dispatch :: "('s, 'x) collaborators \<Rightarrow> ('s, 'x) backtest \<Rightarrow> queue_entry \<Rightarrow> ('s, 'x) backtest result" where
  "dispatch H bt None = Inr bt"
| "dispatch H bt (Some MarketEvent) =
     (let (st, sigs) = calculate_signals H (strategy bt) (data_handler bt) MarketEvent;
          bt1 = bt\<lparr>strategy := st, events := events bt @ map (\<lambda>sg. Some (SignalEvent sg)) sigs\<rparr>
      in rbind (update_timeindex (data_handler bt1) (portfolio bt1)) (\<lambda>p. Inr (bt1\<lparr>portfolio := p\<rparr>)))"
| "dispatch H bt (Some (SignalEvent sg)) =
     (let bt1 = bt\<lparr>signals := signals bt + 1\<rparr>
      in rbind (update_signal (portfolio bt1) (SignalEvent sg)) (\<lambda>new. Inr (bt1\<lparr>events := events bt1 @ new\<rparr>)))"
| "dispatch H bt (Some (OrderEvent ord)) =
     (let bt1 = bt\<lparr>orders := orders bt + 1\<rparr>;
          (ex, fs) = execute_order H (execution_handler bt1) (data_handler bt1) (OrderEvent ord)
      in Inr (bt1\<lparr>execution_handler := ex, events := events bt1 @ map (\<lambda>f. Some (FillEvent f)) fs\<rparr>))"
| "dispatch H bt (Some (FillEvent f)) =
     (let bt1 = bt\<lparr>fills := fills bt\<rparr>
      in rbind (update_fill (data_handler bt1) (portfolio bt1) (FillEvent f)) (\<lambda>p. Inr (bt1\<lparr>portfolio := p\<rparr>)))"

section \<open>Lemmas on dispatch\<close>

lemma Backtest_init_raises: "Backtest_init syms capital start = Inl TypeError"
  by (simp add: Backtest_init_def)

lemma rank_order_entry: "rank (map_option OrderEvent x) < 2"
  by (cases x) simp_all

lemma update_signal_ranks:
  "update_signal p ev = Inr new \<Longrightarrow> \<forall>n\<in>set new. rank n < 2"
  by (cases ev) (auto simp: update_signal_def rbind_eq_Inr rank_order_entry)

lemma dispatch_events:
  assumes "dispatch H bt e = Inr bt'"
  shows "\<exists>new. events bt' = events bt @ new \<and> (\<forall>n\<in>set new. rank n < rank e)"
proof (cases e)
  case None
  with assms show ?thesis by simp
next
  case (Some ev)
  show ?thesis
  proof (cases ev)
    case MarketEvent
    with assms Some show ?thesis
      by (auto simp: Let_def rbind_eq_Inr split: prod.splits)
  next
    case (SignalEvent sg)
    with assms Some show ?thesis
      by (fastforce simp: Let_def rbind_eq_Inr dest: update_signal_ranks)
  next
    case (OrderEvent ord)
    with assms Some show ?thesis
      by (auto simp: Let_def split: prod.splits)
  next
    case (FillEvent f)
    with assms Some show ?thesis
      by (auto simp: Let_def rbind_eq_Inr)
  qed
qed

lemma queue_measure_decreases:
  assumes "\<forall>n\<in>set new. rank n < rank e"
  shows "mset (map rank (rest @ new)) < mset (map rank (e # rest))"
proof -
  have "mset (map rank new) < {#rank e#}"
    using assms by (intro all_lt_Max_imp_lt_mset) auto
  then have "mset (map rank rest) + mset (map rank new) < mset (map rank rest) + {#rank e#}"
    by (rule union_le_mono2)
  then show ?thesis by simp
qed

lemma dispatch_data_handler: "dispatch H bt e = Inr bt' \<Longrightarrow> data_handler bt' = data_handler bt"
  by (cases "(H, bt, e)" rule: dispatch.cases) (auto simp: Let_def rbind_eq_Inr split: prod.splits)

lemma dispatch_fills: "dispatch H bt e = Inr bt' \<Longrightarrow> fills bt' = fills bt"
  by (cases "(H, bt, e)" rule: dispatch.cases) (auto simp: Let_def rbind_eq_Inr split: prod.splits)

lemma rank_le_3: "rank e \<le> 3"
  by (cases e rule: rank.cases) simp_all

lemma update_holdings_from_fill_shape:
  "update_holdings_from_fill bars p f = Inr p' \<Longrightarrow> \<exists>h. p' = p\<lparr>current_holdings := h\<rparr>"
  by (auto simp: update_holdings_from_fill_def rbind_eq_Inr simp del: iadd_case isub_case)

lemma update_positions_from_fill_shape:
  "update_positions_from_fill p f = Inr p' \<Longrightarrow> \<exists>cp. p' = p\<lparr>current_positions := cp\<rparr>"
  by (auto simp: update_positions_from_fill_def rbind_eq_Inr simp del: iadd_case)

lemma update_fill_snapshots:
  assumes "update_fill bars p ev = Inr p'"
  shows "all_positions p' = all_positions p \<and> all_holdings p' = all_holdings p"
proof (cases ev)
  case (FillEvent f)
  with assms obtain p1 where p1: "update_positions_from_fill p f = Inr p1"
    and p': "update_holdings_from_fill bars p1 f = Inr p'"
    by (auto simp: update_fill_def rbind_eq_Inr)
  from update_positions_from_fill_shape [OF p1] update_holdings_from_fill_shape [OF p']
  show ?thesis by auto
qed (use assms in \<open>simp_all add: update_fill_def\<close>)

lemma dispatch_positions:
  assumes "dispatch H bt e = Inr bt'"
  shows "length (all_positions (portfolio bt')) =
           length (all_positions (portfolio bt)) + (if e = Some MarketEvent then 1 else 0)"
proof (cases "(H, bt, e)" rule: dispatch.cases)
  case (2 H bt)
  with assms show ?thesis
    by (auto simp: Let_def rbind_eq_Inr split: prod.splits elim!: update_timeindex_Inr)
next
  case (5 H bt f)
  with assms show ?thesis
    by (auto simp: Let_def rbind_eq_Inr dest!: update_fill_snapshots)
qed (use assms in \<open>auto simp: Let_def rbind_eq_Inr split: prod.splits\<close>)

lemma dispatch_market_count:
  assumes "dispatch H bt e = Inr bt'"
  shows "count_list (events bt') (Some MarketEvent) = count_list (events bt) (Some MarketEvent)"
proof -
  from dispatch_events [OF assms] obtain new where new: "events bt' = events bt @ new"
    and r: "\<forall>n\<in>set new. rank n < rank e" by blast
  have "Some MarketEvent \<notin> set new"
    using r rank_le_3 [of e] by fastforce
  then have "count_list new (Some MarketEvent) = 0" by (simp add: count_list_0_iff)
  with new show ?thesis by simp
qed

lemma dispatch_pf_inv:
  assumes "dispatch H bt e = Inr bt'" and "pf_inv (portfolio bt)"
  shows "pf_inv (portfolio bt')"
proof (cases "(H, bt, e)" rule: dispatch.cases)
  case (2 H bt)
  with assms show ?thesis
    by (auto simp: Let_def rbind_eq_Inr split: prod.splits intro: update_timeindex_inv)
next
  case (5 H bt f)
  with assms show ?thesis
    by (auto simp: Let_def rbind_eq_Inr intro: update_fill_inv)
qed (use assms in \<open>auto simp: Let_def rbind_eq_Inr split: prod.splits\<close>)

lemma update_fill_symbol_list:
  assumes "update_fill bars p ev = Inr p'"
  shows "symbol_list p' = symbol_list p"
proof (cases ev)
  case (FillEvent f)
  with assms obtain p1 where p1: "update_positions_from_fill p f = Inr p1"
    and p': "update_holdings_from_fill bars p1 f = Inr p'"
    by (auto simp: update_fill_def rbind_eq_Inr)
  from update_positions_from_fill_shape [OF p1] update_holdings_from_fill_shape [OF p']
  show ?thesis by auto
qed (use assms in \<open>simp_all add: update_fill_def\<close>)

lemma update_fill_marked:
  "update_fill bars p ev = Inr p' \<Longrightarrow> snapshots_marked dh p \<Longrightarrow> snapshots_marked dh p'"
  unfolding snapshots_marked_def
  by (simp add: update_fill_snapshots update_fill_symbol_list)

lemma dispatch_marked:
  assumes "dispatch H bt e = Inr bt'" and "pf_inv (portfolio bt)"
    and "snapshots_marked (data_handler bt) (portfolio bt)"
  shows "snapshots_marked (data_handler bt') (portfolio bt')"
proof (cases "(H, bt, e)" rule: dispatch.cases)
  case (2 H bt)
  with assms show ?thesis
    by (auto simp: Let_def rbind_eq_Inr split: prod.splits intro: update_timeindex_marked)
next
  case (5 H bt f)
  with assms show ?thesis
    by (auto simp: Let_def rbind_eq_Inr intro: update_fill_marked)
qed (use assms in \<open>auto simp: Let_def rbind_eq_Inr split: prod.splits\<close>)
end
