(* ===== verification/Event_Loop.thy ===== *)
theory Event_Loop
  imports Backtest_Dispatch
begin

text \<open>
  The inner loop of \<open>Backtest._run_backtest\<close> (lines 157--178): take the
  head of the queue and dispatch it until the queue is empty. Handlers append
  to the queue while it is being drained, so the loop is not structural; it
  terminates because every dispatch replaces the entry it takes by entries of
  smaller rank (Market 3, Signal 2, Order 1, Fill and None 0), so the multiset
  of ranks in the queue decreases in the multiset ordering. An exception raised
  by a handler ends the loop with that error.
\<close>

section \<open>The drain loop\<close>

function drain :: "('s, 'x) collaborators \<Rightarrow> ('s, 'x) backtest \<Rightarrow> ('s, 'x) backtest result" where
  "drain H bt =
     (case events bt of
        [] \<Rightarrow> Inr bt
      | e # rest \<Rightarrow> rbind (dispatch H (bt\<lparr>events := rest\<rparr>) e) (drain H))"
  by pat_completeness auto
termination
proof (relation "inv_image {(M, N). M < N} (\<lambda>(H, bt). mset (map rank (events bt)))")
  show "wf (inv_image {(M, N). M < N} (\<lambda>(H, bt). mset (map rank (events bt))))"
    by (intro wf_inv_image wf_less_multiset)
next
  fix H :: "('s, 'x) collaborators" and bt e rest x
  assume "events bt = e # rest" and d: "dispatch H (bt\<lparr>events := rest\<rparr>) e = Inr x"
  from dispatch_events [OF d] obtain new where "events x = rest @ new" "\<forall>n\<in>set new. rank n < rank e"
    by auto
  with \<open>events bt = e # rest\<close> show "((H, x), (H, bt)) \<in> inv_image {(M, N). M < N} (\<lambda>(H, bt). mset (map rank (events bt)))"
    using queue_measure_decreases by auto
qed

section \<open>Lemmas on the drain\<close>

declare drain.simps [simp del]

lemma drain_Nil: "events bt = [] \<Longrightarrow> drain H bt = Inr bt"
  by (simp add: drain.simps)

lemma drain_Cons:
  "events bt = e # rest \<Longrightarrow> drain H bt = rbind (dispatch H (bt\<lparr>events := rest\<rparr>) e) (drain H)"
  by (simp add: drain.simps)

text \<open>A property that every dispatch keeps is kept by the whole drain.\<close>

lemma drain_preserves:
  assumes "drain H bt = Inr bt'" and "P bt"
    and "\<And>b e b'. P b \<Longrightarrow> dispatch H b e = Inr b' \<Longrightarrow> P b'"
    and "\<And>b rest. P b \<Longrightarrow> P (b\<lparr>events := rest\<rparr>)"
  shows "P bt'"
  using assms
proof (induction H bt rule: drain.induct)
  case (1 H bt)
  show ?case
  proof (cases "events bt")
    case Nil
    with "1.prems"(1,2) show ?thesis by (simp add: drain_Nil)
  next
    case (Cons e rest)
    with "1.prems"(1) obtain b1 where b1: "dispatch H (bt\<lparr>events := rest\<rparr>) e = Inr b1"
      and rest: "drain H b1 = Inr bt'"
      by (auto simp: drain_Cons rbind_eq_Inr)
    have "P (bt\<lparr>events := rest\<rparr>)" using "1.prems"(2,4) by blast
    then have "P b1" using "1.prems"(3) b1 by blast
    then show ?thesis using "1.IH" [OF Cons b1 rest] "1.prems"(3,4) by blast
  qed
qed

text \<open>A property of the whole state, queue included, that every dispatch keeps for the
  entry it takes off the queue is kept by the whole drain.\<close>

lemma drain_preserves_queue:
  assumes "drain H bt = Inr bt'" and "P bt"
    and "\<And>b e rest b'. P b \<Longrightarrow> events b = e # rest \<Longrightarrow> dispatch H (b\<lparr>events := rest\<rparr>) e = Inr b' \<Longrightarrow> P b'"
  shows "P bt'"
  using assms
proof (induction H bt rule: drain.induct)
  case (1 H bt)
  show ?case
  proof (cases "events bt")
    case Nil
    with "1.prems"(1,2) show ?thesis by (simp add: drain_Nil)
  next
    case (Cons e rest)
    with "1.prems"(1) obtain b1 where b1: "dispatch H (bt\<lparr>events := rest\<rparr>) e = Inr b1"
      and rest: "drain H b1 = Inr bt'"
      by (auto simp: drain_Cons rbind_eq_Inr)
    have "P b1" using "1.prems"(2,3) Cons b1 by blast
    then show ?thesis using "1.IH" [OF Cons b1 rest] "1.prems"(3) by blast
  qed
qed

lemma drain_empties_queue: "drain H bt = Inr bt' \<Longrightarrow> events bt' = []"
proof (induction H bt rule: drain.induct)
  case (1 H bt)
  show ?case
  proof (cases "events bt")
    case Nil
    with "1.prems" show ?thesis by (simp add: drain_Nil)
  next
    case (Cons e rest)
    with "1.prems" obtain b1 where b1: "dispatch H (bt\<lparr>events := rest\<rparr>) e = Inr b1"
      and rest: "drain H b1 = Inr bt'"
      by (auto simp: drain_Cons rbind_eq_Inr)
    show ?thesis using "1.IH" [OF Cons b1 rest] .
  qed
qed

lemma drain_data_handler: "drain H bt = Inr bt' \<Longrightarrow> data_handler bt' = data_handler bt"
  by (erule drain_preserves [where P = "\<lambda>b. data_handler b = data_handler bt"])
    (auto dest: dispatch_data_handler)

lemma drain_fills: "drain H bt = Inr bt' \<Longrightarrow> fills bt' = fills bt"
  by (erule drain_preserves [where P = "\<lambda>b. fills b = fills bt"]) (auto dest: dispatch_fills)

lemma drain_market_count:
  "drain H bt = Inr bt' \<Longrightarrow>
   length (all_positions (portfolio bt')) =
     length (all_positions (portfolio bt)) + count_list (events bt) (Some MarketEvent)"
proof (induction H bt rule: drain.induct)
  case (1 H bt)
  show ?case
  proof (cases "events bt")
    case Nil
    with "1.prems" show ?thesis by (simp add: drain_Nil)
  next
    case (Cons e rest)
    with "1.prems" obtain b1 where b1: "dispatch H (bt\<lparr>events := rest\<rparr>) e = Inr b1"
      and rest: "drain H b1 = Inr bt'"
      by (auto simp: drain_Cons rbind_eq_Inr)
    have "length (all_positions (portfolio bt')) =
        length (all_positions (portfolio b1)) + count_list (events b1) (Some MarketEvent)"
      by (rule "1.IH" [OF Cons b1 rest])
    moreover have "count_list (events b1) (Some MarketEvent) = count_list rest (Some MarketEvent)"
      using dispatch_market_count [OF b1] by simp
    moreover have "length (all_positions (portfolio b1)) =
        length (all_positions (portfolio bt)) + (if e = Some MarketEvent then 1 else 0)"
      using dispatch_positions [OF b1] by simp
    ultimately show ?thesis using Cons by simp
  qed
qed

lemma drain_pf_inv: "drain H bt = Inr bt' \<Longrightarrow> pf_inv (portfolio bt) \<Longrightarrow> pf_inv (portfolio bt')"
  by (erule drain_preserves [where P = "\<lambda>b. pf_inv (portfolio b)"]) (auto dest: dispatch_pf_inv)

lemma drain_marked:
  "drain H bt = Inr bt' \<Longrightarrow> pf_inv (portfolio bt) \<and> snapshots_marked (data_handler bt) (portfolio bt) \<Longrightarrow>
   pf_inv (portfolio bt') \<and> snapshots_marked (data_handler bt') (portfolio bt')"
  by (erule drain_preserves [where P = "\<lambda>b. pf_inv (portfolio b) \<and> snapshots_marked (data_handler b) (portfolio b)"])
    (auto dest: dispatch_pf_inv dispatch_marked)

section \<open>The drain always ends\<close>

text \<open>
  C4: draining the queue always ends, either with the
  exception a handler raised or with an empty queue; no entry is left behind
  and the loop never runs forever, whatever the strategy and the execution
  handler enqueue.
\<close>

theorem drain_terminates:
  "(\<exists>e. drain H bt = Inl e) \<or> (\<exists>bt'. drain H bt = Inr bt' \<and> events bt' = [])"
  by (cases "drain H bt") (auto dest: drain_empties_queue)

end
