(* ===== verification/Backtest.thy ===== *)
theory Backtest
  imports Event_Loop
begin

text \<open>
  The heartbeat loop of \<open>Backtest._run_backtest\<close> (lines 146--180): while
  the data handler reports more data, advance it by one bar (which enqueues one
  market event) and drain the queue. The loop ends when the data handler is
  exhausted; its measure is the number of ticks left plus the flag. The sleep of
  \<open>heartbeat\<close> seconds and the printed counter do not change the state and are
  not modelled.
\<close>

section \<open>The heartbeat loop\<close>

function run_backtest :: "('s, 'x) collaborators \<Rightarrow> ('s, 'x) backtest \<Rightarrow> ('s, 'x) backtest result" where
  "run_backtest H bt =
     (if continue_backtest (data_handler bt) then
        (let (bars, new) = update_bars (data_handler bt)
         in rbind (drain H (bt\<lparr>data_handler := bars, events := events bt @ new\<rparr>)) (run_backtest H))
      else Inr bt)"
  by pat_completeness auto
termination
  by (relation "measure (\<lambda>(H, bt). dh_measure (data_handler bt))")
    (auto dest!: drain_data_handler intro: update_bars_decreases_pair)

section \<open>Example run\<close>

text \<open>
  A strategy that signals LONG on X at every market event and an execution
  handler that fills every order in full with commission 1, on a data handler
  with one tick (X at 10) and a portfolio of 100000.
\<close>

abbreviation ex_collab :: "(unit, unit) collaborators" where
  "ex_collab \<equiv> \<lparr>calculate_signals = (\<lambda>st bars ev. (st, [\<lparr>sig_symbol = ''X'', sig_datetime = 1, signal_type = ''LONG'', strength = 1\<rparr>])),
     execute_order = (\<lambda>x bars ev. (case ev of
        OrderEvent ord \<Rightarrow> (x, [\<lparr>timeindex = 1, fill_symbol = ord_symbol ord, exchange = ''ARCA'',
           fill_quantity = ord_quantity ord, fill_direction = ord_direction ord, fill_cost = None, commission = 1\<rparr>])
      | _ \<Rightarrow> (x, [])))\<rparr>"

abbreviation ex_backtest :: "(unit, unit) backtest" where
  "ex_backtest \<equiv> generate_trading_instances
     (init_data_handler [''X''] [[''X'' \<mapsto> \<lparr>bar_datetime = 1, bar_values = [''adj_close'' \<mapsto> 10]\<rparr>]]) () () 0 100000"

section \<open>Lemmas on the heartbeat loop\<close>

declare run_backtest.simps [simp del]

lemma run_backtest_stop: "\<not> continue_backtest (data_handler bt) \<Longrightarrow> run_backtest H bt = Inr bt"
  by (simp add: run_backtest.simps)

lemma run_backtest_step:
  "continue_backtest (data_handler bt) \<Longrightarrow>
   run_backtest H bt = rbind (drain H (bt\<lparr>data_handler := fst (update_bars (data_handler bt)),
                                        events := events bt @ snd (update_bars (data_handler bt))\<rparr>))
                            (run_backtest H)"
  by (simp add: run_backtest.simps split: prod.splits)

lemma run_backtest_preserves:
  assumes "run_backtest H bt = Inr bt'" and "P bt"
    and "\<And>b b'. P b \<Longrightarrow> continue_backtest (data_handler b) \<Longrightarrow>
           drain H (b\<lparr>data_handler := fst (update_bars (data_handler b)),
                      events := events b @ snd (update_bars (data_handler b))\<rparr>) = Inr b' \<Longrightarrow> P b'"
  shows "P bt'"
  using assms
proof (induction H bt rule: run_backtest.induct)
  case (1 H bt)
  show ?case
  proof (cases "continue_backtest (data_handler bt)")
    case False
    with "1.prems"(1,2) show ?thesis by (simp add: run_backtest_stop)
  next
    case True
    let ?b = "bt\<lparr>data_handler := fst (update_bars (data_handler bt)),
                 events := events bt @ snd (update_bars (data_handler bt))\<rparr>"
    from "1.prems"(1) True obtain b1 where b1: "drain H ?b = Inr b1" and rest: "run_backtest H b1 = Inr bt'"
      by (auto simp: run_backtest_step rbind_eq_Inr)
    have "P b1" using "1.prems"(3) [OF "1.prems"(2) True b1] .
    then show ?thesis
      using "1.IH" [OF True _ _ b1 rest] "1.prems"(3) by (metis prod.collapse)
  qed
qed

text \<open>
  C5: a run that starts with an empty queue and
  ends without an exception has drained the queue, stops only once the data
  handler is exhausted, and has appended exactly one positions snapshot per
  tick, that is, processed exactly one market event per bar.
\<close>

theorem run_backtest_market_events:
  assumes "run_backtest H bt = Inr bt'" and "events bt = []"
  shows "events bt' = [] \<and> \<not> continue_backtest (data_handler bt') \<and>
    (continue_backtest (data_handler bt) \<longrightarrow> pending (data_handler bt') = []) \<and>
    length (all_positions (portfolio bt')) = length (all_positions (portfolio bt)) +
      (if continue_backtest (data_handler bt) then length (pending (data_handler bt)) else 0)"
  using assms
proof (induction H bt rule: run_backtest.induct)
  case (1 H bt)
  show ?case
  proof (cases "continue_backtest (data_handler bt)")
    case False
    with "1.prems" show ?thesis
      by (simp add: run_backtest_stop)
  next
    case True
    let ?u = "update_bars (data_handler bt)"
    let ?b = "bt\<lparr>data_handler := fst ?u, events := events bt @ snd ?u\<rparr>"
    from "1.prems"(1) True obtain b1 where b1: "drain H ?b = Inr b1" and rest: "run_backtest H b1 = Inr bt'"
      by (auto simp: run_backtest_step rbind_eq_Inr)
    have e1: "events b1 = []" using drain_empties_queue [OF b1] .
    have d1: "data_handler b1 = fst ?u" using drain_data_handler [OF b1] by simp
    have l1: "length (all_positions (portfolio b1)) = length (all_positions (portfolio bt)) +
        (if pending (data_handler bt) = [] then 0 else 1)"
      using drain_market_count [OF b1] "1.prems"(2) by (simp add: update_bars_events)
    have IH: "events bt' = [] \<and> \<not> continue_backtest (data_handler bt') \<and>
      (continue_backtest (data_handler b1) \<longrightarrow> pending (data_handler bt') = []) \<and>
      length (all_positions (portfolio bt')) = length (all_positions (portfolio b1)) +
        (if continue_backtest (data_handler b1) then length (pending (data_handler b1)) else 0)"
      using "1.IH" [OF True _ _ b1 rest e1] by (metis prod.collapse)
    show ?thesis
    proof (cases "pending (data_handler bt)")
      case Nil
      with d1 have "\<not> continue_backtest (data_handler b1)" by (simp add: update_bars_continue)
      with rest have "bt' = b1" by (simp add: run_backtest_stop)
      with Nil d1 IH l1 True show ?thesis by (simp add: update_bars_continue update_bars_pending)
    next
      case (Cons t ts)
      with d1 IH l1 True show ?thesis by (simp add: update_bars_continue update_bars_pending)
    qed
  qed
qed

text \<open>
  C2: every run that ends without an exception keeps the portfolio invariant
  (current total equal to cash; cash, commission and cost bases adding up to the
  initial capital; every holdings snapshot's total equal to its cash plus its
  symbol entries) and the marking of the snapshots: positions and holdings
  snapshots come in pairs with one datetime, and every symbol entry of a holdings
  snapshot is the position of its positions snapshot times the adjusted close of
  a bar the data handler has delivered for the symbol (0 for a flat position).
\<close>

theorem run_backtest_pf_inv:
  "run_backtest H bt = Inr bt' \<Longrightarrow> pf_inv (portfolio bt) \<Longrightarrow> snapshots_marked (data_handler bt) (portfolio bt) \<Longrightarrow>
   pf_inv (portfolio bt') \<and> snapshots_marked (data_handler bt') (portfolio bt')"
proof -
  assume r: "run_backtest H bt = Inr bt'" and i: "pf_inv (portfolio bt)"
    and m: "snapshots_marked (data_handler bt) (portfolio bt)"
  show ?thesis
  proof (rule run_backtest_preserves [where P = "\<lambda>b. pf_inv (portfolio b) \<and> snapshots_marked (data_handler b) (portfolio b)", OF r])
    show "pf_inv (portfolio bt) \<and> snapshots_marked (data_handler bt) (portfolio bt)" using i m ..
  next
    fix b b'
    assume P: "pf_inv (portfolio b) \<and> snapshots_marked (data_handler b) (portfolio b)"
      and d: "drain H (b\<lparr>data_handler := fst (update_bars (data_handler b)),
                     events := events b @ snd (update_bars (data_handler b))\<rparr>) = Inr b'"
    have "snapshots_marked (fst (update_bars (data_handler b))) (portfolio b)"
      using P update_bars_extends snapshots_marked_mono by blast
    then show "pf_inv (portfolio b') \<and> snapshots_marked (data_handler b') (portfolio b')"
      using drain_marked [OF d] P by simp
  qed
qed

text \<open>
  C16: the \<open>fills\<close> counter never changes during
  a run, however many fill events are processed, because line 177 reads
  \<open>self.fills ++ 1\<close>.
\<close>

theorem run_backtest_fills_counter:
  "run_backtest H bt = Inr bt' \<Longrightarrow> fills bt' = fills bt"
  by (erule run_backtest_preserves [where P = "\<lambda>b. fills b = fills bt"]) (auto dest: drain_fills)

section \<open>Scenario and witnesses\<close>

lemmas backtest_eval_simps = run_backtest.simps drain.simps generate_trading_instances_def
  init_data_handler_def update_bars_def push_bar_def init_portfolio_def construct_all_positions_def
  construct_all_holdings_def construct_current_holdings_def update_timeindex_def copy_position_def
  mark_symbol_def get_latest_bar_value_def get_latest_bar_datetime_def get_latest_bar_def
  update_signal_def generate_naive_order_def update_fill_def update_positions_from_fill_def
  update_holdings_from_fill_def fill_cost_of_def fill_dir_def Let_def

text \<open>
  One bar of X at 10 and a LONG signal run the
  whole pipeline Market, Signal, Order, Fill: one signal and one order are
  counted, the fill counter stays 0, the portfolio holds 100 X and 98999 in
  cash (specification scenarios 1, 2 and 5), and one snapshot is added to the
  initial one.
\<close>

lemma backtest_pipeline_scenario:
  "\<exists>bt'. run_backtest ex_collab ex_backtest = Inr bt' \<and> signals bt' = 1 \<and> orders bt' = 1 \<and> fills bt' = 0 \<and>
     current_positions (portfolio bt') ''X'' = Some 100 \<and> current_holdings (portfolio bt') ''cash'' = Some 98999 \<and>
     length (all_positions (portfolio bt')) = 2"
  by (simp add: backtest_eval_simps)

lemma ex_backtest_runs: "\<exists>bt'. run_backtest ex_collab ex_backtest = Inr bt'"
  by (simp add: backtest_eval_simps)

lemma ex_backtest_events: "events ex_backtest = []"
  by (simp add: generate_trading_instances_def)

theorem run_backtest_market_events_witness:
  "\<exists>bt'. run_backtest ex_collab ex_backtest = Inr bt' \<and> events bt' = [] \<and>
     length (all_positions (portfolio bt')) = 2"
proof -
  obtain bt' where r: "run_backtest ex_collab ex_backtest = Inr bt'" using ex_backtest_runs by blast
  from run_backtest_market_events [OF r ex_backtest_events] r show ?thesis
    by (simp add: generate_trading_instances_def init_data_handler_def init_portfolio_def
        construct_all_positions_def Let_def)
qed

theorem run_backtest_pf_inv_witness:
  "\<exists>bt'. run_backtest ex_collab ex_backtest = Inr bt' \<and> pf_inv (portfolio bt') \<and>
     snapshots_marked (data_handler bt') (portfolio bt')"
proof -
  obtain bt' where r: "run_backtest ex_collab ex_backtest = Inr bt'" using ex_backtest_runs by blast
  have "pf_inv (portfolio ex_backtest)"
    unfolding generate_trading_instances_def
    by (simp, rule init_portfolio_inv) (simp_all add: init_data_handler_def reserved_def)
  moreover have "snapshots_marked (data_handler ex_backtest) (portfolio ex_backtest)"
    unfolding generate_trading_instances_def
    by (simp, rule init_portfolio_marked) (simp add: init_data_handler_def reserved_def)
  ultimately show ?thesis using run_backtest_pf_inv [OF r] r by blast
qed

theorem run_backtest_fills_counter_witness:
  "\<exists>bt'. run_backtest ex_collab ex_backtest = Inr bt' \<and> fills bt' = 0"
proof -
  obtain bt' where r: "run_backtest ex_collab ex_backtest = Inr bt'" using ex_backtest_runs by blast
  from run_backtest_fills_counter [OF r] r show ?thesis by (simp add: generate_trading_instances_def)
qed

end
