(* ===== verification/Performance.thy ===== *)
theory Performance
  imports Prelude
begin

text \<open>
  \<open>performance.py\<close>: the annualised Sharpe ratio and the drawdown statistics
  of an equity curve. A pandas series of floats is a list of \<open>real option\<close>:
  \<open>None\<close> is a missing value (NaN). The reductions skip NaN as pandas does
  (\<open>np.mean\<close> and \<open>np.std\<close> of a Series dispatch to the Series methods,
  \<open>np.std\<close> with \<open>ddof = 0\<close>), and a result that numpy would make NaN or
  infinite (an empty series, a zero standard deviation) is \<open>None\<close>.
\<close>

section \<open>Reductions over a series\<close>

text \<open>The values of a series that are not NaN.\<close>

definition valid :: "'a option list \<Rightarrow> 'a list" where
  "valid xs = [x. Some x \<leftarrow> xs]"

definition mean :: "real list \<Rightarrow> real" where
  "mean xs = sum_list xs / real (length xs)"

text \<open>Population standard deviation (\<open>ddof = 0\<close>).\<close>

definition pstd :: "real list \<Rightarrow> real" where
  "pstd xs = sqrt (sum_list (map (\<lambda>x. (x - mean xs)\<^sup>2) xs) / real (length xs))"

text \<open>\<open>Series.max()\<close>: the largest value that is not NaN, NaN if there is none.\<close>

definition series_max :: "'a::linorder option list \<Rightarrow> 'a option" where
  "series_max xs = (if valid xs = [] then None else Some (Max (set (valid xs))))"

section \<open>Sharpe ratio\<close>

text \<open>\<open>np.sqrt(periods) * (np.mean(returns) / np.std(returns))\<close> (line 34). The test
  for a zero standard deviation is exact over the reals; in floating point the
  standard deviation of equal non-zero returns may be a tiny positive number.\<close>

definition create_sharpe_ratio :: "real option list \<Rightarrow> nat \<Rightarrow> real option" where
  "create_sharpe_ratio returns periods =
     (let xs = valid returns in
      if xs = [] \<or> pstd xs = 0 then None
      else Some (sqrt (real periods) * (mean xs / pstd xs)))"

section \<open>Drawdowns\<close>

text \<open>
  Python's \<open>max(hwm, x)\<close>: the first argument unless the second is larger,
  so a NaN second argument leaves the high-water mark unchanged.
\<close>

fun py_max :: "real \<Rightarrow> real option \<Rightarrow> real" where
  "py_max h None = h"
| "py_max h (Some x) = max h x"

text \<open>
  The body of the loop \<open>for t in range(1, len(idx))\<close>, run over
  \<open>pnl[1:]\<close> with the previous high-water mark and the previous duration;
  it returns the pairs (drawdown, duration) it writes at indices \<open>1, 2, \<dots>\<close>.
  \<open>drawdown[t] == 0\<close> is false for NaN, and \<open>NaN + 1\<close> is NaN.
\<close>

fun dd_loop :: "real \<Rightarrow> nat option \<Rightarrow> real option list \<Rightarrow> (real option \<times> nat option) list" where
  "dd_loop hwm dur [] = []"
| "dd_loop hwm dur (p # ps) =
     (let hwm' = py_max hwm p;
          dd = map_option (\<lambda>x. hwm' - x) p;
          dur' = (if dd = Some 0 then Some 0 else map_option Suc dur)
      in (dd, dur') # dd_loop hwm' dur' ps)"

text \<open>
  \<open>create_drawdowns(pnl)\<close>: \<open>hwm = [0]\<close>; the series start as NaN and
  index 0 is never written. The result is the drawdown series, its maximum and
  the maximum duration.
\<close>

definition create_drawdowns :: "real option list \<Rightarrow> real option list \<times> real option \<times> nat option" where
  "create_drawdowns pnl =
     (case pnl of
        [] \<Rightarrow> ([], None, None)
      | _ # ps \<Rightarrow>
          (let rows = dd_loop 0 None ps;
               drawdown = None # map fst rows;
               duration = None # map snd rows
           in (drawdown, series_max drawdown, series_max duration)))"

text \<open>Reference definition of the high-water mark after a prefix of the series.\<close>

definition hwm_after :: "real \<Rightarrow> real option list \<Rightarrow> real" where
  "hwm_after h ps = Max (insert h (set (valid ps)))"

section \<open>Lemmas on series and on the drawdown loop\<close>

lemma valid_simps [simp]:
  "valid [] = []" "valid (None # xs) = valid xs" "valid (Some x # xs) = x # valid xs"
  by (simp_all add: valid_def)

lemma valid_map_option [simp]: "valid (map (map_option f) xs) = map f (valid xs)"
  by (induction xs) (auto simp: valid_def split: option.splits)

lemma set_valid: "set (valid xs) = {x. Some x \<in> set xs}"
  by (induction xs) (auto simp: valid_def split: option.splits)

lemma dd_loop_length [simp]: "length (dd_loop h d ps) = length ps"
  by (induction h d ps rule: dd_loop.induct) (simp_all add: Let_def)

lemma dd_loop_nonneg: "\<forall>(dd, dur) \<in> set (dd_loop h d ps). \<forall>v. dd = Some v \<longrightarrow> 0 \<le> v"
proof (induction h d ps rule: dd_loop.induct)
  case (1 hwm dur)
  then show ?case by simp
next
  case (2 hwm dur p ps)
  have "\<forall>v. map_option (\<lambda>x. py_max hwm p - x) p = Some v \<longrightarrow> 0 \<le> v"
    by (cases p) auto
  with 2 show ?case by (simp add: Let_def)
qed

lemma dd_loop_zero_duration: "\<forall>(dd, dur) \<in> set (dd_loop h d ps). dd = Some 0 \<longrightarrow> dur = Some 0"
  by (induction h d ps rule: dd_loop.induct) (simp_all add: Let_def)

lemma hwm_after_Cons: "hwm_after (py_max h p) qs = hwm_after h (p # qs)"
proof (cases p)
  case None
  then show ?thesis by (simp add: hwm_after_def)
next
  case (Some x)
  then show ?thesis
    by (cases "set (valid qs) = {}")
      (simp_all add: hwm_after_def max.assoc max.left_commute max.commute)
qed

lemma hwm_after_Nil [simp]: "hwm_after h [] = h"
  by (simp add: hwm_after_def)

lemma dd_loop_closed_form:
  "i < length ps \<Longrightarrow>
   fst (dd_loop h d ps ! i) = map_option (\<lambda>x. hwm_after h (take (Suc i) ps) - x) (ps ! i)"
proof (induction ps arbitrary: h d i)
  case Nil
  then show ?case by simp
next
  case (Cons p ps)
  show ?case
  proof (cases i)
    case 0
    then show ?thesis
      by (cases p) (simp_all add: Let_def hwm_after_def)
  next
    case (Suc j)
    with Cons.prems have j: "j < length ps" by simp
    let ?h' = "py_max h p"
    let ?d' = "(if map_option (\<lambda>x. ?h' - x) p = Some 0 then Some 0 else map_option Suc d)"
    have "fst (dd_loop h d (p # ps) ! i) = fst (dd_loop ?h' ?d' ps ! j)"
      using Suc by (simp add: Let_def)
    also have "\<dots> = map_option (\<lambda>x. hwm_after ?h' (take (Suc j) ps) - x) (ps ! j)"
      by (rule Cons.IH [OF j])
    finally show ?thesis using Suc by (simp add: hwm_after_Cons)
  qed
qed

section \<open>Sharpe ratio and drawdown properties\<close>

lemma mean_scale: "mean (map ((*) c) xs) = c * mean xs"
  by (simp add: mean_def sum_list_const_mult)

lemma sq_dev_scale:
  "(\<Sum>x\<leftarrow>xs. (c * x - mean (map ((*) c) xs))\<^sup>2) = c\<^sup>2 * (\<Sum>x\<leftarrow>xs. (x - mean xs)\<^sup>2)"
  by (simp add: mean_scale sum_list_const_mult power_mult_distrib right_diff_distrib [symmetric] o_def)

lemma sqrt_scaled_div: "sqrt (c\<^sup>2 * S / d) = \<bar>c\<bar> * sqrt (S / d)"
  by (simp add: real_sqrt_mult real_sqrt_abs times_divide_eq_right [symmetric] del: times_divide_eq_right)

lemma pstd_scale: "pstd (map ((*) c) xs) = \<bar>c\<bar> * pstd xs"
  by (simp add: pstd_def o_def sq_dev_scale sqrt_scaled_div del: mean_scale)

lemma pstd_eq_0_iff:
  assumes "xs \<noteq> []"
  shows "pstd xs = 0 \<longleftrightarrow> (\<forall>x\<in>set xs. x = mean xs)"
proof -
  have "pstd xs = 0 \<longleftrightarrow> (\<Sum>x\<leftarrow>xs. (x - mean xs)\<^sup>2) = 0"
    using assms by (simp add: pstd_def)
  also have "\<dots> \<longleftrightarrow> (\<forall>x\<in>set xs. (x - mean xs)\<^sup>2 = 0)"
    by (subst sum_list_nonneg_eq_0_iff) auto
  finally show ?thesis by simp
qed

lemma mean_const:
  assumes "xs \<noteq> []" and "\<forall>x\<in>set xs. x = v"
  shows "mean xs = v"
proof -
  have "map (\<lambda>_. v) xs = xs" using assms(2) by (simp add: map_idI)
  then have "sum_list xs = real (length xs) * v" by (metis sum_list_triv)
  with assms(1) show ?thesis by (simp add: mean_def)
qed

text \<open>
  The Sharpe ratio does not change when every
  return is multiplied by the same positive factor (NaN entries stay NaN).
\<close>

theorem sharpe_scale_invariant:
  assumes "0 < c"
  shows "create_sharpe_ratio (map (map_option ((*) c)) returns) periods = create_sharpe_ratio returns periods"
  using assms by (simp add: create_sharpe_ratio_def Let_def mean_scale pstd_scale)

text \<open>
  Over the reals the Sharpe ratio is undefined exactly when the non-NaN returns are
  all equal, the empty series included. In floating point this holds only in part:
  the mean of equal non-zero returns such as 0.1 is rounded, their standard
  deviation comes out near 1e-17 rather than 0, and numpy returns a huge finite
  ratio.
\<close>

lemma sharpe_undefined_iff_constant:
  "create_sharpe_ratio returns periods = None \<longleftrightarrow>
     (\<forall>x\<in>set (valid returns). \<forall>y\<in>set (valid returns). x = y)"
proof (cases "valid returns = []")
  case True
  then show ?thesis by (simp add: create_sharpe_ratio_def)
next
  case False
  have "pstd (valid returns) = 0 \<longleftrightarrow> (\<forall>x\<in>set (valid returns). \<forall>y\<in>set (valid returns). x = y)"
  proof
    assume "pstd (valid returns) = 0"
    then have "\<forall>x\<in>set (valid returns). x = mean (valid returns)"
      using pstd_eq_0_iff [OF False] by simp
    then show "\<forall>x\<in>set (valid returns). \<forall>y\<in>set (valid returns). x = y"
      by (metis (no_types))
  next
    assume all: "\<forall>x\<in>set (valid returns). \<forall>y\<in>set (valid returns). x = y"
    obtain v where v: "v \<in> set (valid returns)" using False by (cases "valid returns") auto
    with all have "\<forall>x\<in>set (valid returns). x = v" by blast
    with False have "\<forall>x\<in>set (valid returns). x = mean (valid returns)" using mean_const by metis
    then show "pstd (valid returns) = 0" using pstd_eq_0_iff [OF False] by simp
  qed
  with False show ?thesis by (simp add: create_sharpe_ratio_def Let_def)
qed

lemma all_equal_le1: "length xs \<le> 1 \<Longrightarrow> \<forall>x\<in>set xs. \<forall>y\<in>set xs. x = y"
  by (cases xs) auto

text \<open>
  C21: the Sharpe ratio is undefined (NaN or infinite in numpy) when at most one
  return is not NaN, or when all the non-NaN returns are 0. These are the cases in
  which numpy's standard deviation is exactly 0 in floating point as well: the mean
  of one value is that value, and the mean of zeros is 0.
\<close>

theorem sharpe_degenerate_undefined:
  "length (valid returns) \<le> 1 \<or> (\<forall>x\<in>set (valid returns). x = 0) \<Longrightarrow>
   create_sharpe_ratio returns periods = None"
  using sharpe_undefined_iff_constant all_equal_le1 by metis

text \<open>
  Specification scenario 4. Returns 0.011 and -0.009
  (mean 0.001, population standard deviation 0.01) after the leading NaN give
  \<open>sqrt 252 * 0.1\<close>.
\<close>

theorem sharpe_scenario: "create_sharpe_ratio [None, Some 0.011, Some (-0.009)] 252 = Some (sqrt 252 / 10)"
proof -
  have h: "pstd [11 / 1000, - (9 / 1000)] = 1/100"
    by (simp add: pstd_def mean_def power2_eq_square real_sqrt_divide)
  show ?thesis by (simp add: create_sharpe_ratio_def Let_def mean_def h)
qed

text \<open>
  C18: every drawdown the loop writes, and the maximum
  drawdown, is non-negative, and a drawdown of zero has a duration of zero.
\<close>

theorem drawdown_invariant:
  assumes "create_drawdowns pnl = (drawdown, max_dd, dd_duration)"
  shows "(\<forall>t v. t < length drawdown \<longrightarrow> drawdown ! t = Some v \<longrightarrow> 0 \<le> v) \<and>
    (\<forall>v. max_dd = Some v \<longrightarrow> 0 \<le> v) \<and>
    (\<forall>(dd, dur) \<in> set (dd_loop 0 None (tl pnl)). dd = Some 0 \<longrightarrow> dur = Some 0)"
proof (cases pnl)
  case Nil
  with assms show ?thesis by (simp add: create_drawdowns_def)
next
  case (Cons p0 ps)
  let ?rows = "dd_loop 0 None ps"
  have nn: "\<forall>x\<in>set (None # map fst ?rows). \<forall>v. x = Some v \<longrightarrow> 0 \<le> v"
    using dd_loop_nonneg [of 0 None ps] by auto
  have dd: "drawdown = None # map fst ?rows"
    using assms Cons by (simp add: create_drawdowns_def Let_def)
  have mx: "max_dd = series_max (None # map fst ?rows)"
    using assms Cons by (auto simp add: create_drawdowns_def Let_def)
  have "\<forall>v. max_dd = Some v \<longrightarrow> 0 \<le> v"
  proof (intro allI impI)
    fix v assume "max_dd = Some v"
    then have "v \<in> set (valid (None # map fst ?rows))" and "valid (None # map fst ?rows) \<noteq> []"
      using mx by (auto simp: series_max_def split: if_splits)
    then show "0 \<le> v" using nn by (auto simp: set_valid)
  qed
  moreover have "\<forall>t v. t < length drawdown \<longrightarrow> drawdown ! t = Some v \<longrightarrow> 0 \<le> v"
    using nn unfolding dd by (metis nth_mem)
  ultimately show ?thesis using Cons dd_loop_zero_duration by simp
qed

text \<open>
  C19: the drawdown at index \<open>t \<ge> 1\<close> is the
  high-water mark of \<open>pnl[1..t]\<close> (the largest non-NaN value there, and at
  least the seed 0) minus \<open>pnl[t]\<close>; the loop's running maximum refines this
  reference definition.
\<close>

theorem drawdown_closed_form:
  assumes "0 < t" "t < length pnl"
  shows "fst (create_drawdowns pnl) ! t = map_option (\<lambda>x. hwm_after 0 (take t (tl pnl)) - x) (pnl ! t)"
proof (cases pnl)
  case Nil
  with assms show ?thesis by simp
next
  case (Cons p0 ps)
  then obtain j where t: "t = Suc j" and j: "j < length ps" using assms by (cases t) auto
  have "fst (create_drawdowns pnl) ! t = fst (dd_loop 0 None ps ! j)"
    using Cons t j by (simp add: create_drawdowns_def Let_def)
  also have "\<dots> = map_option (\<lambda>x. hwm_after 0 (take (Suc j) ps) - x) (ps ! j)"
    by (rule dd_loop_closed_form [OF j])
  finally show ?thesis using Cons t by simp
qed

text \<open>
  Specification scenario 3 (maximum drawdown 0.3,
  duration 1 at the trough); and, because index 0 is never read, the series
  [2, 1] reports a maximum drawdown of 0 although it falls from 2 to 1.
\<close>

theorem drawdown_scenarios:
  "create_drawdowns [Some 1.0, Some 1.1, Some 1.05, Some 1.2, Some 0.9] =
     ([None, Some 0, Some 0.05, Some 0, Some 0.3], Some 0.3, Some 1) \<and>
   fst (snd (create_drawdowns [Some 2, Some 1])) = Some 0"
  by (simp add: create_drawdowns_def series_max_def valid_def Let_def)

section \<open>Witnesses\<close>

theorem drawdown_invariant_witness:
  "create_drawdowns [Some 1, Some 2, Some 1.5] = ([None, Some 0, Some 0.5], Some 0.5, Some 1) \<and>
   (0::real) \<le> 0.5"
proof -
  have h: "create_drawdowns [Some 1, Some 2, Some 1.5] = ([None, Some 0, Some 0.5], Some 0.5, Some 1)"
    by (simp add: create_drawdowns_def series_max_def valid_def Let_def)
  from drawdown_invariant [OF h] h show ?thesis by simp
qed

theorem drawdown_closed_form_witness:
  "fst (create_drawdowns [Some 1.0, Some 1.1, Some 1.05]) ! 2 = Some (hwm_after 0 [Some 1.1, Some 1.05] - 1.05)"
  using drawdown_closed_form [of 2 "[Some 1.0, Some 1.1, Some 1.05]"] by simp

theorem sharpe_scale_invariant_witness:
  "create_sharpe_ratio (map (map_option ((*) 2)) [Some 1, Some 3]) 252 = create_sharpe_ratio [Some 1, Some 3] 252"
  using sharpe_scale_invariant [of 2 "[Some 1, Some 3]" 252] by simp

theorem sharpe_degenerate_undefined_witness:
  "create_sharpe_ratio [None, Some 0.01] 252 = None"
  using sharpe_degenerate_undefined [of "[None, Some 0.01]" 252] by (simp add: valid_def)

end
