(* ===== verification/Portfolio_Stats.thy ===== *)
theory Portfolio_Stats
  imports Portfolio Performance
begin

text \<open>
  \<open>Portfolio.create_equity_curve_dataframe\<close> and
  \<open>Portfolio.output_summary_stats\<close>. The DataFrame built from
  \<open>all_holdings\<close> is kept as the columns the statistics read: the time index,
  \<open>total\<close>, \<open>returns\<close> (\<open>pct_change\<close>) and \<open>equity_curve\<close>
  (\<open>(1 + returns).cumprod()\<close>). pandas' \<open>pct_change\<close> pads missing values
  forward first (its default \<open>fill_method = 'pad'\<close>); a ratio to a zero total
  is not finite and is \<open>None\<close>; \<open>cumprod\<close> skips NaN. The statistics'
  string formatting is not modelled except where it raises: \<open>"%d"\<close> of a NaN
  drawdown duration raises \<open>ValueError\<close>. Writing \<open>equity.csv\<close> is I/O and
  not modelled.
\<close>

section \<open>Series operations\<close>

fun ffill :: "'a option \<Rightarrow> 'a option list \<Rightarrow> 'a option list" where
  "ffill prev [] = []"
| "ffill prev (None # xs) = prev # ffill prev xs"
| "ffill prev (Some x # xs) = Some x # ffill (Some x) xs"

text \<open>\<open>ys[i] / ys[i-1] - 1\<close> for consecutive entries, NaN for the first.\<close>

fun pct_pairs :: "real option \<Rightarrow> real option list \<Rightarrow> real option list" where
  "pct_pairs prev [] = []"
| "pct_pairs prev (y # ys) =
     (case (prev, y) of
        (Some a, Some b) \<Rightarrow> (if a = 0 then None else Some (b / a - 1))
      | _ \<Rightarrow> None) # pct_pairs y ys"

definition pct_change :: "real option list \<Rightarrow> real option list" where
  "pct_change xs = pct_pairs None (ffill None xs)"

fun cumprod_from :: "real \<Rightarrow> real option list \<Rightarrow> real option list" where
  "cumprod_from acc [] = []"
| "cumprod_from acc (None # xs) = None # cumprod_from acc xs"
| "cumprod_from acc (Some x # xs) = Some (acc * x) # cumprod_from (acc * x) xs"

definition cumprod :: "real option list \<Rightarrow> real option list" where
  "cumprod xs = cumprod_from 1 xs"

section \<open>Equity curve\<close>

record equity_curve =
  ec_datetime :: "timestamp list"
  ec_total :: "real option list"
  ec_returns :: "real option list"
  ec_equity :: "real option list"

definition create_equity_curve_dataframe :: "portfolio \<Rightarrow> equity_curve" where
  "create_equity_curve_dataframe p =
     (let total = map (\<lambda>(t, h). h ''total'') (all_holdings p);
          returns = pct_change total
      in \<lparr>ec_datetime = map fst (all_holdings p), ec_total = total, ec_returns = returns,
          ec_equity = cumprod (map (map_option (\<lambda>r. 1 + r)) returns)\<rparr>)"

section \<open>Summary statistics\<close>

record summary_stats =
  total_return_pct :: "real option"
  sharpe_ratio :: "real option"
  max_drawdown_pct :: "real option"
  drawdown_duration :: nat

text \<open>
  \<open>equity_curve[-1]\<close> raises \<open>IndexError\<close> on an empty curve; the
  drawdown duration is printed with \<open>"%d"\<close>, which raises
  \<open>ValueError\<close> on NaN.
\<close>

definition output_summary_stats :: "equity_curve \<Rightarrow> summary_stats result" where
  "output_summary_stats ec =
     (if ec_equity ec = [] then Inl IndexError
      else
        (let total_return = last (ec_equity ec);
             sharpe = create_sharpe_ratio (ec_returns ec) 252;
             (drawdown, max_dd, dd_duration) = create_drawdowns (ec_equity ec)
         in case dd_duration of
              None \<Rightarrow> Inl ValueError
            | Some d \<Rightarrow> Inr \<lparr>total_return_pct = map_option (\<lambda>r. (r - 1) * 100) total_return,
                              sharpe_ratio = sharpe, max_drawdown_pct = map_option (\<lambda>m. m * 100) max_dd,
                              drawdown_duration = d\<rparr>))"

section \<open>Examples\<close>

abbreviation ex_curve_portfolio :: portfolio where
  "ex_curve_portfolio \<equiv> ex_portfolio\<lparr>all_holdings :=
     [(0, [''total'' \<mapsto> 100]), (1, [''total'' \<mapsto> 110]), (2, [''total'' \<mapsto> 99])]\<rparr>"

section \<open>Equity curve and summary lemmas\<close>

lemma ffill_Some [simp]: "ffill prev (map Some xs) = map Some xs"
  by (induction xs arbitrary: prev) simp_all

lemma cumprod_ratios:
  assumes "a \<noteq> 0" "\<forall>t\<in>set ts. t \<noteq> 0"
  shows "cumprod_from c (map (map_option (\<lambda>r. 1 + r)) (pct_pairs (Some a) (map Some ts))) =
    map (\<lambda>t. Some (c * t / a)) ts"
  using assms
proof (induction ts arbitrary: a c)
  case Nil
  then show ?case by simp
next
  case (Cons t ts)
  have "c * (1 + (t / a - 1)) = c * t / a" by simp
  moreover have "map (\<lambda>u. Some (c * t / a * u / t)) ts = map (\<lambda>u. Some (c * u / a)) ts"
    using Cons.prems by simp
  ultimately show ?case using Cons by simp
qed

lemma equity_of_totals:
  assumes "\<forall>t\<in>set (T0 # Ts). t \<noteq> 0"
  shows "cumprod (map (map_option (\<lambda>r. 1 + r)) (pct_change (map Some (T0 # Ts)))) =
    None # map (\<lambda>T. Some (T / T0)) Ts"
  using assms cumprod_ratios [of T0 Ts 1] by (simp add: cumprod_def pct_change_def)

text \<open>C7: when every snapshot's \<open>total\<close> is
  present and nonzero, the \<open>equity_curve\<close> column is the ratio of each total to
  the first: the product of the \<open>1 + returns\<close> telescopes.\<close>

theorem equity_curve_telescopes:
  assumes "map (\<lambda>(t, h). h ''total'') (all_holdings p) = map Some (T0 # Ts)"
    and "\<forall>T\<in>set (T0 # Ts). T \<noteq> 0"
  shows "ec_equity (create_equity_curve_dataframe p) = None # map (\<lambda>T. Some (T / T0)) Ts"
  using assms equity_of_totals [OF assms(2)]
  by (simp add: create_equity_curve_dataframe_def Let_def)

lemma dd_loop_first_positive:
  "0 \<le> x \<Longrightarrow> snd (hd (dd_loop 0 None (Some x # ps))) = Some 0"
  by (simp add: Let_def)

text \<open>C8: with two or more snapshots of positive totals the
  summary statistics are computed without raising and the total return is
  \<open>(T_last / T_0 - 1) * 100\<close>.\<close>

theorem summary_total_return:
  assumes "map (\<lambda>(t, h). h ''total'') (all_holdings p) = map Some (T0 # T1 # Ts)"
    and "\<forall>T\<in>set (T0 # T1 # Ts). 0 < T"
  shows "\<exists>st. output_summary_stats (create_equity_curve_dataframe p) = Inr st \<and>
    total_return_pct st = Some ((last (T1 # Ts) / T0 - 1) * 100)"
proof -
  have nz: "\<forall>T\<in>set (T0 # T1 # Ts). T \<noteq> 0" using assms(2) by auto
  let ?ec = "create_equity_curve_dataframe p"
  have eq: "ec_equity ?ec = None # Some (T1 / T0) # map (\<lambda>T. Some (T / T0)) Ts"
    using equity_curve_telescopes [OF assms(1) nz] by simp
  have pos: "0 \<le> T1 / T0" using assms(2) by simp
  let ?rows = "dd_loop 0 None (Some (T1 / T0) # map (\<lambda>T. Some (T / T0)) Ts)"
  have "0 \<in> set (valid (None # map snd ?rows))"
    using pos by (simp add: Let_def)
  then have "valid (None # map snd ?rows) \<noteq> []" by auto
  then obtain d where d: "series_max (None # map snd ?rows) = Some d"
    by (simp add: series_max_def)
  have "last (ec_equity ?ec) = Some (last (T1 # Ts) / T0)"
    unfolding eq by (induction Ts rule: rev_induct) (simp_all add: last_map)
  then show ?thesis
    using eq d by (auto simp: output_summary_stats_def create_drawdowns_def Let_def split: prod.splits)
qed

lemma summary_stats_one_snapshot:
  "all_holdings p = [(t, h)] \<Longrightarrow> output_summary_stats (create_equity_curve_dataframe p) = Inl ValueError"
  by (cases "h ''total''") (simp_all add: output_summary_stats_def create_equity_curve_dataframe_def create_drawdowns_def
      series_max_def valid_def cumprod_def pct_change_def Let_def split: option.splits)


theorem equity_curve_telescopes_witness:
  "ec_equity (create_equity_curve_dataframe ex_curve_portfolio) = [None, Some (11 / 10), Some (99 / 100)]"
  using equity_curve_telescopes [of ex_curve_portfolio 100 "[110, 99]"] by simp

theorem summary_total_return_witness:
  "\<exists>st. output_summary_stats (create_equity_curve_dataframe ex_curve_portfolio) = Inr st \<and>
     total_return_pct st = Some (- 1)"
  using summary_total_return [of ex_curve_portfolio 100 110 "[99]"] by simp

end
