(* ===== verification/Simulation.thy ===== *)
theory Simulation
  imports Backtest Portfolio_Stats
begin

text \<open>
  \<open>Backtest._output_performance\<close> and \<open>Backtest.simulate_trading\<close>
  (backtest.py lines 183--220): run the heartbeat loop, build the equity curve
  from the portfolio's snapshots and compute the summary statistics. The
  printing of the curve's tail, the statistics and the counters has no effect
  on the state and is not modelled; the result is the final backtest, the
  equity curve stored in \<open>portfolio.equity_curve\<close> and the statistics.
\<close>

definition output_performance ::
  "('s, 'x) backtest \<Rightarrow> (equity_curve \<times> summary_stats) result" where
  "output_performance bt =
     (let ec = create_equity_curve_dataframe (portfolio bt)
      in rbind (output_summary_stats ec) (\<lambda>st. Inr (ec, st)))"

definition simulate_trading ::
  "('s, 'x) collaborators \<Rightarrow> ('s, 'x) backtest \<Rightarrow> (('s, 'x) backtest \<times> equity_curve \<times> summary_stats) result" where
  "simulate_trading H bt =
     rbind (run_backtest H bt) (\<lambda>bt'. rbind (output_performance bt') (\<lambda>r. Inr (bt', r)))"

abbreviation ex_backtest2 :: "(unit, unit) backtest" where
  "ex_backtest2 \<equiv> generate_trading_instances
     (init_data_handler [''X''] [[''X'' \<mapsto> \<lparr>bar_datetime = 1, bar_values = [''adj_close'' \<mapsto> 10]\<rparr>],
                                 [''X'' \<mapsto> \<lparr>bar_datetime = 2, bar_values = [''adj_close'' \<mapsto> 12]\<rparr>]]) () () 0 100000"

section \<open>Properties of a whole simulation\<close>

lemma run_backtest_empty_feed:
  "run_backtest H (generate_trading_instances (init_data_handler syms []) s x start cap) =
     Inr ((generate_trading_instances (init_data_handler syms []) s x start cap)
            \<lparr>data_handler := (init_data_handler syms [])\<lparr>continue_backtest := False\<rparr>\<rparr>)"
  by (simp add: run_backtest.simps drain.simps generate_trading_instances_def init_data_handler_def
      update_bars_def)

text \<open>C6: a backtest over a data feed with no bars
  runs without trading, leaving the single initial holdings snapshot; the
  equity curve then has no drawdown duration and \<open>"%d"\<close> of the NaN raises
  \<open>ValueError\<close> in \<open>output_summary_stats\<close>, so \<open>simulate_trading\<close> fails.\<close>

theorem simulate_empty_feed_raises:
  "simulate_trading H (generate_trading_instances (init_data_handler syms []) s x start cap) = Inl ValueError"
proof -
  let ?bt = "generate_trading_instances (init_data_handler syms []) s x start cap"
  have "all_holdings (portfolio ?bt) = [(start, construct_current_holdings syms cap)]"
    by (simp add: generate_trading_instances_def init_portfolio_def init_data_handler_def
        construct_all_holdings_def construct_current_holdings_def)
  then show ?thesis
    by (simp add: simulate_trading_def output_performance_def run_backtest_empty_feed Let_def
        summary_stats_one_snapshot)
qed

text \<open>Two bars of X at 10 and 12 with a LONG
  signal each: the first bar buys 100 X (commission 1), the second marks it at
  12; the totals are 100000, 100000, 100199, the total return 0.199 percent, and
  there is no drawdown.\<close>

theorem simulate_two_bars_scenario:
  "\<exists>bt' ec st. simulate_trading ex_collab ex_backtest2 = Inr (bt', ec, st) \<and>
     ec_total ec = [Some 100000, Some 100000, Some 100199] \<and>
     total_return_pct st = Some (199 / 1000) \<and> max_drawdown_pct st = Some 0 \<and> drawdown_duration st = 0"
  by (simp add: simulate_trading_def output_performance_def backtest_eval_simps
      create_equity_curve_dataframe_def output_summary_stats_def create_drawdowns_def pct_change_def
      cumprod_def series_max_def valid_def)

end
