(* ===== verification/IB_Execution.thy ===== *)
theory IB_Execution
  imports Backtest
begin

text \<open>
  The Interactive Brokers execution handler \<open>IBExecution\<close>
  (ib_execution.py). Its state is the record \<open>ib_execution\<close>: the
  handler's own event queue, the routing and currency strings, the
  \<open>fill_dict\<close> of server replies (order id to a dictionary of
  \<open>symbol\<close>, \<open>exchange\<close>, \<open>direction\<close>, \<open>filled\<close>), the next
  order id, and the orders sent over the TWS connection (\<open>placed\<close>, the
  observable effect of \<open>tws_conn.placeOrder\<close>). Opening the connection, the
  one-second sleep and the printing are not modelled.

  The module is modelled as written for Python 3, with each failing attribute
  or name lookup an error value: \<open>dict.has_key\<close> does not exist, the
  handler registers \<open>self._error_handler\<close> while the method is named
  \<open>error_handler\<close>, \<open>_reply_handler\<close> prints the undefined name
  \<open>masg\<close>, and \<open>create_fill\<close> reads the key \<open>"Symbol"\<close> and puts the
  undefined \<open>fill_event\<close>. Line 99 ends the call
  \<open>self.create_fill_dict_entry(msg)\<close> with a colon, a syntax error; the
  model takes the call that is meant.
\<close>

section \<open>Python objects the handler uses\<close>

text \<open>The values stored in a \<open>fill_dict\<close> entry: strings and the flag.\<close>

datatype pyval = PStr string | PBool bool

fun pv_str :: "pyval \<Rightarrow> string" where
  "pv_str (PStr s) = s"
| "pv_str (PBool b) = (if b then ''True'' else ''False'')"

text \<open>Attribute lookup on the handler and on a Python 3 \<open>dict\<close>, and name
  lookup in a function's scope: a missing name raises.\<close>

definition ib_methods :: "string list" where
  "ib_methods = [''__init__'', ''error_handler'', ''_reply_handler'', ''create_tws_connection'',
     ''create_initial_order_id'', ''register_handlers'', ''create_contract'', ''create_order'',
     ''create_fill_dict_entry'', ''create_fill'', ''execute_order'']"

definition dict_methods :: "string list" where
  "dict_methods = [''clear'', ''copy'', ''fromkeys'', ''get'', ''items'', ''keys'', ''pop'',
     ''popitem'', ''setdefault'', ''update'', ''values'']"

definition getattr_in :: "string list \<Rightarrow> string \<Rightarrow> unit result" where
  "getattr_in names a = (if a \<in> set names then Inr () else Inl AttributeError)"

definition lookup_name :: "string list \<Rightarrow> string \<Rightarrow> unit result" where
  "lookup_name scope x = (if x \<in> set scope then Inr () else Inl NameError)"

record ib_contract =
  m_symbol :: string
  m_secType :: string
  m_exchange :: string
  m_primaryExch :: string
  m_currency :: string

record ib_order =
  m_orderType :: string
  m_totalQuantity :: int
  m_action :: string

text \<open>A server message: \<open>openOrder\<close> messages carry the contract and the
  order, \<open>orderStatus\<close> messages the status, filled quantity and average
  price.\<close>

record ib_msg =
  typeName :: string
  msg_orderId :: nat
  msg_contract :: ib_contract
  msg_order :: ib_order
  msg_status :: string
  msg_filled :: int
  avgFillPrice :: real

section \<open>The handler\<close>

record ib_execution =
  ib_events :: "queue_entry list"
  order_routing :: string
  currency :: string
  fill_dict :: "nat \<rightharpoonup> (string \<rightharpoonup> pyval)"
  order_id :: nat
  placed :: "(nat \<times> ib_contract \<times> ib_order) list"

definition create_initial_order_id :: nat where
  "create_initial_order_id = 1"

definition register_handlers :: "ib_execution \<Rightarrow> ib_execution result" where
  "register_handlers st =
     rbind (getattr_in ib_methods ''_error_handler'')
       (\<lambda>_. rbind (getattr_in ib_methods ''_reply_handler'') (\<lambda>_. Inr st))"

definition IBExecution_init :: "queue_entry list \<Rightarrow> string \<Rightarrow> string \<Rightarrow> ib_execution result" where
  "IBExecution_init evs routing cur =
     register_handlers \<lparr>ib_events = evs, order_routing = routing, currency = cur,
       fill_dict = Map.empty, order_id = create_initial_order_id, placed = []\<rparr>"

definition create_contract :: "string \<Rightarrow> string \<Rightarrow> string \<Rightarrow> string \<Rightarrow> string \<Rightarrow> ib_contract" where
  "create_contract symbol sec_type exch prim_exch cur =
     \<lparr>m_symbol = symbol, m_secType = sec_type, m_exchange = exch, m_primaryExch = prim_exch,
      m_currency = cur\<rparr>"

definition create_order :: "string \<Rightarrow> int \<Rightarrow> string \<Rightarrow> ib_order" where
  "create_order otype quantity action =
     \<lparr>m_orderType = otype, m_totalQuantity = quantity, m_action = action\<rparr>"

definition create_fill_dict_entry :: "ib_execution \<Rightarrow> ib_msg \<Rightarrow> ib_execution" where
  "create_fill_dict_entry st msg =
     st\<lparr>fill_dict := (fill_dict st)(msg_orderId msg \<mapsto>
        [''symbol'' \<mapsto> PStr (m_symbol (msg_contract msg)),
         ''exchange'' \<mapsto> PStr (m_exchange (msg_contract msg)),
         ''direction'' \<mapsto> PStr (m_action (msg_order msg)),
         ''filled'' \<mapsto> PBool False])\<rparr>"

text \<open>\<open>create_fill\<close>: \<open>now\<close> is \<open>datetime.utcnow()\<close>; \<open>comm\<close> is the
  commission the \<open>FillEvent\<close> constructor computes when none is passed
  (event.py is not part of the sources). The entry is marked filled before
  the event is put on the queue.\<close>

definition create_fill :: "ib_execution \<Rightarrow> timestamp \<Rightarrow> (int \<Rightarrow> real) \<Rightarrow> ib_msg \<Rightarrow> ib_execution result" where
  "create_fill st now comm msg =
     rbind (getitem (fill_dict st) (msg_orderId msg)) (\<lambda>fd.
     rbind (getitem fd ''Symbol'') (\<lambda>symbol.
     rbind (getitem fd ''exchange'') (\<lambda>exchange.
     rbind (getitem fd ''direction'') (\<lambda>direction.
       (let fill = \<lparr>timeindex = now, fill_symbol = pv_str symbol, exchange = pv_str exchange,
                    fill_quantity = msg_filled msg, fill_direction = pv_str direction,
                    fill_cost = Some (avgFillPrice msg), commission = comm (msg_filled msg)\<rparr>;
            st1 = st\<lparr>fill_dict := (fill_dict st)(msg_orderId msg \<mapsto> fd(''filled'' \<mapsto> PBool True))\<rparr>
        in rbind (lookup_name [''self'', ''msg'', ''fd'', ''symbol'', ''exchange'', ''filled'',
                               ''direction'', ''fill_cost'', ''fill''] ''fill_event'')
             (\<lambda>_. Inr (st1\<lparr>ib_events := ib_events st1 @ [Some (FillEvent fill)]\<rparr>)))))))"

definition reply_handler :: "ib_execution \<Rightarrow> timestamp \<Rightarrow> (int \<Rightarrow> real) \<Rightarrow> ib_msg \<Rightarrow> ib_execution result" where
  "reply_handler st now comm msg =
     rbind
       (if typeName msg = ''openOrder'' \<and> msg_orderId msg = order_id st then
          rbind (getattr_in dict_methods ''has_key'')
            (\<lambda>_. if msg_orderId msg \<notin> dom (fill_dict st) then Inr (create_fill_dict_entry st msg) else Inr st)
        else Inr st)
       (\<lambda>st1. rbind
          (if typeName msg = ''orderStatus'' \<and> msg_status msg = ''Filled'' then
             rbind (getitem (fill_dict st1) (msg_orderId msg)) (\<lambda>fd.
             rbind (getitem fd ''filled'') (\<lambda>f.
               if f = PBool False then create_fill st1 now comm msg else Inr st1))
           else Inr st1)
          (\<lambda>st2. rbind (lookup_name [''self'', ''msg''] ''masg'') (\<lambda>_. Inr st2)))"

definition ib_execute_order :: "ib_execution \<Rightarrow> event \<Rightarrow> ib_execution" where
  "ib_execute_order st ev =
     (if event_type ev = ''ORDER'' then
        (case ev of
           OrderEvent ord \<Rightarrow>
             (let ib_contract = create_contract (ord_symbol ord) ''STK'' (order_routing st)
                                  (order_routing st) (currency st);
                  ib_ord = create_order (order_type ord) (ord_quantity ord) (ord_direction ord)
              in st\<lparr>placed := placed st @ [(order_id st, ib_contract, ib_ord)],
                    order_id := order_id st + 1\<rparr>)
         | _ \<Rightarrow> st)
      else st)"

text \<open>The handler as the backtest's execution handler: it places the order
  and returns no fill, since fills arrive later through the reply handler.\<close>

definition ib_collaborators ::
  "('s \<Rightarrow> data_handler \<Rightarrow> event \<Rightarrow> 's \<times> signal_event list) \<Rightarrow> ('s, ib_execution) collaborators" where
  "ib_collaborators strat =
     \<lparr>calculate_signals = strat, execute_order = (\<lambda>st bars ev. (ib_execute_order st ev, []))\<rparr>"

definition ib_inv :: "ib_execution \<Rightarrow> bool" where
  "ib_inv st = (create_initial_order_id \<le> order_id st \<and>
     map fst (placed st) = [create_initial_order_id..<order_id st])"

text \<open>The bookkeeping of a run with the IB handler: the invariant holds and
  every order counted since the start has been placed.\<close>

definition ib_count :: "nat \<Rightarrow> nat \<Rightarrow> ('s, ib_execution) backtest \<Rightarrow> bool" where
  "ib_count n0 o0 b = (ib_inv (execution_handler b) \<and>
     length (placed (execution_handler b)) + o0 = n0 + orders b)"

text \<open>The orders the backtest can hand to IB: an \<open>OrderEvent\<close> on the queue is a market
  order for a positive quantity, bought or sold; an order placed with IB is the same.\<close>

definition order_wf :: "order_event \<Rightarrow> bool" where
  "order_wf ord = (order_type ord = ''MKT'' \<and> 0 < ord_quantity ord \<and> ord_direction ord \<in> {''BUY'', ''SELL''})"

definition queue_wf :: "queue_entry list \<Rightarrow> bool" where
  "queue_wf q = (\<forall>ord. Some (OrderEvent ord) \<in> set q \<longrightarrow> order_wf ord)"

definition ib_order_wf :: "ib_order \<Rightarrow> bool" where
  "ib_order_wf io = (m_orderType io = ''MKT'' \<and> 0 < m_totalQuantity io \<and> m_action io \<in> {''BUY'', ''SELL''})"

definition ib_typed :: "('s, ib_execution) backtest \<Rightarrow> bool" where
  "ib_typed b = (queue_wf (events b) \<and> (\<forall>p \<in> set (placed (execution_handler b)). ib_order_wf (snd (snd p))))"

section \<open>Examples\<close>

text \<open>The state \<open>IBExecution.__init__\<close> builds before it registers the
  handlers, an \<open>openOrder\<close> reply and a \<open>Filled\<close> status for order 1,
  and a strategy that signals LONG on X at every bar.\<close>

abbreviation ex_ib :: ib_execution where
  "ex_ib \<equiv> \<lparr>ib_events = [], order_routing = ''SMART'', currency = ''USD'', fill_dict = Map.empty,
     order_id = create_initial_order_id, placed = []\<rparr>"

abbreviation ex_open_msg :: ib_msg where
  "ex_open_msg \<equiv> \<lparr>typeName = ''openOrder'', msg_orderId = 1,
     msg_contract = create_contract ''X'' ''STK'' ''SMART'' ''SMART'' ''USD'',
     msg_order = create_order ''MKT'' 100 ''BUY'', msg_status = [], msg_filled = 0, avgFillPrice = 0\<rparr>"

abbreviation ex_filled_msg :: ib_msg where
  "ex_filled_msg \<equiv> ex_open_msg\<lparr>typeName := ''orderStatus'', msg_status := ''Filled'', msg_filled := 100,
     avgFillPrice := 10\<rparr>"

abbreviation ex_ib_strategy :: "unit \<Rightarrow> data_handler \<Rightarrow> event \<Rightarrow> unit \<times> signal_event list" where
  "ex_ib_strategy \<equiv> (\<lambda>st bars ev. (st, [\<lparr>sig_symbol = ''X'', sig_datetime = 1, signal_type = ''LONG'', strength = 1\<rparr>]))"

abbreviation ex_ib_backtest :: "(unit, ib_execution) backtest" where
  "ex_ib_backtest \<equiv> generate_trading_instances
     (init_data_handler [''X''] [[''X'' \<mapsto> \<lparr>bar_datetime = 1, bar_values = [''adj_close'' \<mapsto> 10]\<rparr>]]) () ex_ib 0 100000"

section \<open>Lemmas on the handler\<close>

lemma lookup_name_missing [simp]: "x \<notin> set scope \<Longrightarrow> lookup_name scope x = Inl NameError"
  by (simp add: lookup_name_def)

lemma has_key_missing [simp]: "getattr_in dict_methods ''has_key'' = Inl AttributeError"
  by (simp add: getattr_in_def dict_methods_def)

lemma create_fill_raises: "\<exists>e. create_fill st now comm msg = Inl e"
  by (auto simp: create_fill_def Let_def rbind_def split: sum.splits option.splits)

text \<open>Constructing the handler always raises
  \<open>AttributeError\<close>: \<open>register_handlers\<close> reads
  \<open>self._error_handler\<close>, which the class does not define.\<close>

theorem IBExecution_init_raises: "IBExecution_init evs routing cur = Inl AttributeError"
  by (simp add: IBExecution_init_def register_handlers_def getattr_in_def ib_methods_def)

text \<open>C11: the reply handler raises on every server
  message, whatever the state: if nothing before it fails, printing the
  undefined \<open>masg\<close> does.\<close>

theorem reply_handler_always_raises: "\<exists>e. reply_handler st now comm msg = Inl e"
  using create_fill_raises [of _ now comm msg]
  by (auto simp: reply_handler_def rbind_def split: sum.splits option.splits if_splits)

text \<open>With an empty \<open>fill_dict\<close> (the only one
  the handler ever has) an \<open>openOrder\<close> reply for the current order raises
  \<open>AttributeError\<close> (\<open>dict.has_key\<close>), a \<open>Filled\<close> status raises
  \<open>KeyError\<close> (\<open>fill_dict[orderId]\<close>), and any other message raises
  \<open>NameError\<close>.\<close>

theorem reply_handler_fresh_errors:
  assumes "fill_dict st = Map.empty"
  shows "reply_handler st now comm msg =
     Inl (if typeName msg = ''openOrder'' \<and> msg_orderId msg = order_id st then AttributeError
          else if typeName msg = ''orderStatus'' \<and> msg_status msg = ''Filled'' then KeyError
          else NameError)"
  using assms by (simp add: reply_handler_def)

text \<open>C12: even from an entry that
  \<open>create_fill_dict_entry\<close> wrote for the order, \<open>create_fill\<close> raises
  \<open>KeyError\<close>: the entry's key is \<open>"symbol"\<close> and it reads
  \<open>"Symbol"\<close>. No fill is ever produced by the reply path.\<close>

theorem create_fill_symbol_key_error:
  "msg_orderId msg = msg_orderId m \<Longrightarrow>
   create_fill (create_fill_dict_entry st m) now comm msg = Inl KeyError"
  by (simp add: create_fill_def create_fill_dict_entry_def)

lemma ib_execute_order_order:
  "ib_execute_order st (OrderEvent ord) =
     st\<lparr>placed := placed st @ [(order_id st, create_contract (ord_symbol ord) ''STK'' (order_routing st)
                                  (order_routing st) (currency st),
                               create_order (order_type ord) (ord_quantity ord) (ord_direction ord))],
        order_id := order_id st + 1\<rparr>"
  by (simp add: ib_execute_order_def)

lemma ib_inv_step:
  "ib_inv st \<Longrightarrow> ib_inv (ib_execute_order st (OrderEvent ord)) \<and>
     length (placed (ib_execute_order st (OrderEvent ord))) = Suc (length (placed st))"
  by (simp add: ib_execute_order_order ib_inv_def)

lemma ib_inv_distinct: "ib_inv st \<Longrightarrow> distinct (map fst (placed st))"
  by (simp add: ib_inv_def)

lemma dispatch_ib:
  assumes "dispatch (ib_collaborators strat) b e = Inr b'"
  shows "(\<exists>ord. e = Some (OrderEvent ord) \<and>
            execution_handler b' = ib_execute_order (execution_handler b) (OrderEvent ord) \<and>
            orders b' = orders b + 1) \<or>
         (execution_handler b' = execution_handler b \<and> orders b' = orders b)"
proof (cases "(ib_collaborators strat, b, e)" rule: dispatch.cases)
qed (use assms in \<open>auto simp: Let_def rbind_eq_Inr ib_collaborators_def split: prod.splits\<close>)

lemma dispatch_ib_count:
  "ib_count n0 o0 b \<Longrightarrow> dispatch (ib_collaborators strat) b e = Inr b' \<Longrightarrow> ib_count n0 o0 b'"
proof (drule dispatch_ib, elim disjE exE conjE)
  fix ord
  assume "ib_count n0 o0 b" and "execution_handler b' = ib_execute_order (execution_handler b) (OrderEvent ord)"
    and "orders b' = orders b + 1"
  with ib_inv_step [of "execution_handler b" ord] show "ib_count n0 o0 b'"
    by (simp add: ib_count_def)
qed (simp add: ib_count_def)

lemma queue_wf_append [simp]: "queue_wf (xs @ ys) = (queue_wf xs \<and> queue_wf ys)"
  by (auto simp: queue_wf_def)

lemma queue_wf_Cons: "queue_wf (e # q) = (queue_wf [e] \<and> queue_wf q)"
  by (auto simp: queue_wf_def)

lemma naive_order_wf: "generate_naive_order p sg = Inr (Some ord) \<Longrightarrow> order_wf ord"
  by (auto simp: generate_naive_order_def order_wf_def Let_def rbind_eq_Inr split: if_splits)

lemma queue_wf_order [simp]: "queue_wf [Some (OrderEvent ord)] = order_wf ord"
  by (simp add: queue_wf_def)

lemma queue_wf_signals [simp]: "queue_wf (map (\<lambda>sg. Some (SignalEvent sg)) sigs)"
  by (auto simp: queue_wf_def)

lemma queue_wf_fills [simp]: "queue_wf (map (\<lambda>f. Some (FillEvent f)) fs)"
  by (auto simp: queue_wf_def)

lemma update_signal_wf: "update_signal p ev = Inr new \<Longrightarrow> queue_wf new"
proof (cases ev)
  case (SignalEvent sg)
  assume u: "update_signal p ev = Inr new"
  then obtain x where g: "generate_naive_order p sg = Inr x" and n: "new = [map_option OrderEvent x]"
    using SignalEvent by (auto simp: update_signal_def rbind_eq_Inr)
  show ?thesis
  proof (cases x)
    case None
    then show ?thesis using n by (simp add: queue_wf_def)
  next
    case (Some ord)
    then show ?thesis using n g naive_order_wf by simp
  qed
qed (auto simp: update_signal_def queue_wf_def)

lemma update_bars_wf: "queue_wf (snd (update_bars dh))"
  by (simp add: update_bars_def queue_wf_def split: list.split)

lemma ib_typed_placed_append:
  "ib_order_wf io \<Longrightarrow> \<forall>p \<in> set ps. ib_order_wf (snd (snd p)) \<Longrightarrow>
   \<forall>p \<in> set (ps @ [(i, c, io)]). ib_order_wf (snd (snd p))"
  by simp

lemma dispatch_ib_typed:
  assumes "dispatch (ib_collaborators strat) b e = Inr b'" and "ib_typed b" and "queue_wf [e]"
  shows "ib_typed b'"
proof (cases "(ib_collaborators strat, b, e)" rule: dispatch.cases)
  case (3 H bt sg)
  then obtain new where "update_signal (portfolio b) (SignalEvent sg) = Inr new"
    and "b' = b\<lparr>signals := Suc (signals b), events := events b @ new\<rparr>"
    using assms(1) by (auto simp: Let_def rbind_eq_Inr)
  then show ?thesis using assms(2) update_signal_wf by (auto simp: ib_typed_def)
next
  case (4 H bt ord)
  then have w: "order_wf ord" using assms(3) by simp
  have "b' = b\<lparr>orders := Suc (orders b),
      execution_handler := ib_execute_order (execution_handler b) (OrderEvent ord), events := events b @ []\<rparr>"
    using 4 assms(1) by (auto simp: Let_def ib_collaborators_def)
  then show ?thesis using w assms(2)
    by (simp add: ib_typed_def ib_execute_order_order order_wf_def ib_order_wf_def create_order_def)
qed (use assms in \<open>auto simp: Let_def rbind_eq_Inr ib_collaborators_def ib_typed_def split: prod.splits\<close>)

text \<open>C10: in a backtest run with the IB handler, started from a queue
  whose order events are well formed, every order placed with IB is a \<open>MKT\<close> order for
  a positive quantity whose action is \<open>BUY\<close> or \<open>SELL\<close>: the naive sizing policy is
  the only producer of order events and only ever builds such orders.\<close>

theorem ib_orders_well_typed:
  assumes "run_backtest (ib_collaborators strat) bt = Inr bt'" and "ib_typed bt"
  shows "\<forall>(i, c, io) \<in> set (placed (execution_handler bt')).
    m_orderType io = ''MKT'' \<and> 0 < m_totalQuantity io \<and> m_action io \<in> {''BUY'', ''SELL''}"
proof -
  have "ib_typed bt'"
  proof (rule run_backtest_preserves [where P = ib_typed, OF assms])
    fix b b'
    assume t: "ib_typed b" and d: "drain (ib_collaborators strat) (b\<lparr>data_handler := fst (update_bars (data_handler b)),
             events := events b @ snd (update_bars (data_handler b))\<rparr>) = Inr b'"
    have "ib_typed (b\<lparr>data_handler := fst (update_bars (data_handler b)),
             events := events b @ snd (update_bars (data_handler b))\<rparr>)"
      using t update_bars_wf by (simp add: ib_typed_def)
    from d this show "ib_typed b'"
    proof (rule drain_preserves_queue)
      fix b1 e rest b2
      assume t1: "ib_typed b1" and ev: "events b1 = e # rest"
        and d1: "dispatch (ib_collaborators strat) (b1\<lparr>events := rest\<rparr>) e = Inr b2"
      have "queue_wf [e] \<and> queue_wf rest" using t1 ev queue_wf_Cons [of e rest] by (simp add: ib_typed_def)
      moreover have "ib_typed (b1\<lparr>events := rest\<rparr>)" using t1 calculation by (simp add: ib_typed_def)
      ultimately show "ib_typed b2" using dispatch_ib_typed [OF d1] by blast
    qed
  qed
  then show ?thesis by (auto simp: ib_typed_def ib_order_wf_def)
qed

text \<open>C9: a backtest run with the IB handler as its
  execution handler places every order it counts with IB exactly once, under
  consecutive order ids from 1, so no two placed orders share an id.\<close>

theorem backtest_ib_fresh_order_ids:
  assumes "run_backtest (ib_collaborators strat) bt = Inr bt'"
    and "ib_inv (execution_handler bt)"
  shows "ib_inv (execution_handler bt') \<and> distinct (map fst (placed (execution_handler bt'))) \<and>
    length (placed (execution_handler bt')) + orders bt = length (placed (execution_handler bt)) + orders bt'"
proof -
  have "ib_count (length (placed (execution_handler bt))) (orders bt) bt'"
  proof (rule run_backtest_preserves [OF assms(1)])
    show "ib_count (length (placed (execution_handler bt))) (orders bt) bt"
      using assms(2) by (simp add: ib_count_def)
  next
    fix b b'
    assume c: "ib_count (length (placed (execution_handler bt))) (orders bt) b"
      and d: "drain (ib_collaborators strat) (b\<lparr>data_handler := fst (update_bars (data_handler b)),
             events := events b @ snd (update_bars (data_handler b))\<rparr>) = Inr b'"
    from c have c': "ib_count (length (placed (execution_handler bt))) (orders bt)
        (b\<lparr>data_handler := fst (update_bars (data_handler b)),
           events := events b @ snd (update_bars (data_handler b))\<rparr>)"
      by (simp add: ib_count_def)
    from d c' show "ib_count (length (placed (execution_handler bt))) (orders bt) b'"
      by (rule drain_preserves [where P = "ib_count (length (placed (execution_handler bt))) (orders bt)"])
        (erule dispatch_ib_count, assumption, simp add: ib_count_def)
  qed
  then show ?thesis by (simp add: ib_count_def ib_inv_distinct)
qed

text \<open>One bar of X at 10 and a LONG signal, executed
  through the IB handler: one order is counted and placed as order 1, a MKT
  BUY of 100 X routed SMART in USD; no fill comes back into the queue, so the
  portfolio still holds no X and all its cash.\<close>

theorem backtest_ib_scenario:
  "\<exists>bt'. run_backtest (ib_collaborators ex_ib_strategy) ex_ib_backtest = Inr bt' \<and> orders bt' = 1 \<and>
     placed (execution_handler bt') =
       [(1, create_contract ''X'' ''STK'' ''SMART'' ''SMART'' ''USD'', create_order ''MKT'' 100 ''BUY'')] \<and>
     current_positions (portfolio bt') ''X'' = Some 0 \<and> current_holdings (portfolio bt') ''cash'' = Some 100000"
  by (simp add: backtest_eval_simps ib_collaborators_def ib_execute_order_def create_initial_order_id_def)

lemma ex_ib_backtest_runs: "\<exists>bt'. run_backtest (ib_collaborators ex_ib_strategy) ex_ib_backtest = Inr bt'"
  by (simp add: backtest_eval_simps ib_collaborators_def ib_execute_order_def)

theorem backtest_ib_fresh_order_ids_witness:
  "\<exists>bt'. run_backtest (ib_collaborators ex_ib_strategy) ex_ib_backtest = Inr bt' \<and>
     distinct (map fst (placed (execution_handler bt'))) \<and> length (placed (execution_handler bt')) = orders bt'"
proof -
  obtain bt' where r: "run_backtest (ib_collaborators ex_ib_strategy) ex_ib_backtest = Inr bt'"
    using ex_ib_backtest_runs by blast
  have "ib_inv (execution_handler ex_ib_backtest)"
    by (simp add: generate_trading_instances_def ib_inv_def)
  from backtest_ib_fresh_order_ids [OF r this] r show ?thesis
    by (simp add: generate_trading_instances_def)
qed

theorem reply_handler_fresh_errors_witness:
  "reply_handler ex_ib 0 (\<lambda>q. 0) ex_filled_msg = Inl KeyError \<and>
   reply_handler ex_ib 0 (\<lambda>q. 0) ex_open_msg = Inl AttributeError"
  using reply_handler_fresh_errors [of ex_ib 0 "\<lambda>q. 0" ex_filled_msg]
    reply_handler_fresh_errors [of ex_ib 0 "\<lambda>q. 0" ex_open_msg]
  by (simp_all add: create_initial_order_id_def)

theorem create_fill_symbol_key_error_witness:
  "create_fill (create_fill_dict_entry ex_ib ex_open_msg) 0 (\<lambda>q. 0) ex_filled_msg = Inl KeyError"
  using create_fill_symbol_key_error [of ex_filled_msg ex_open_msg ex_ib 0 "\<lambda>q. 0"] by simp


theorem ib_orders_well_typed_witness:
  "\<exists>bt'. run_backtest (ib_collaborators ex_ib_strategy) ex_ib_backtest = Inr bt' \<and>
     (\<forall>(i, c, io) \<in> set (placed (execution_handler bt')).
        m_orderType io = ''MKT'' \<and> 0 < m_totalQuantity io \<and> m_action io \<in> {''BUY'', ''SELL''})"
proof -
  obtain bt' where r: "run_backtest (ib_collaborators ex_ib_strategy) ex_ib_backtest = Inr bt'"
    using ex_ib_backtest_runs by blast
  have "ib_typed ex_ib_backtest"
    by (simp add: generate_trading_instances_def ib_typed_def queue_wf_def)
  from ib_orders_well_typed [OF r this] r show ?thesis by blast
qed

end
