(* ===== verification/Options_Call.thy ===== *)
theory Options_Call
  imports Prelude
begin

text \<open>
  The single-option calculators of the Options directory: the class
  \<open>Call\<close> (Call_Class.py, repeated verbatim in Call_Spread.py),
  \<open>Short_Call\<close> (Short_Call.py) and \<open>Options\<close> (Options_Class.py). A
  DataFrame is a list of rows, one record per row with a field per column;
  a NaN cell is \<open>None\<close>. Comparisons with NaN inside \<open>np.where\<close> are
  false, arithmetic with NaN is NaN, and a division by zero gives a
  non-finite value, also \<open>None\<close>. Dates are day numbers. \<open>round(x, 2)\<close>
  is numpy's round half to even at two decimals, on the exact real (float
  rounding is not modelled). Plotting is not modelled.
\<close>

section \<open>Series arithmetic\<close>

fun lift2 :: "(real \<Rightarrow> real \<Rightarrow> real) \<Rightarrow> real option \<Rightarrow> real option \<Rightarrow> real option" where
  "lift2 f (Some x) (Some y) = Some (f x y)"
| "lift2 f _ _ = None"

definition nan_div :: "real option \<Rightarrow> real option \<Rightarrow> real option" where
  "nan_div x y = (case (x, y) of (Some a, Some b) \<Rightarrow> if b = 0 then None else Some (a / b) | _ \<Rightarrow> None)"

fun nan_cmp :: "(real \<Rightarrow> real \<Rightarrow> bool) \<Rightarrow> real option \<Rightarrow> real option \<Rightarrow> bool" where
  "nan_cmp r (Some x) (Some y) = r x y"
| "nan_cmp r _ _ = False"

definition round_half_even :: "real \<Rightarrow> int" where
  "round_half_even y =
     (let f = \<lfloor>y\<rfloor>; d = y - of_int f
      in if d < 1 / 2 then f else if 1 / 2 < d then f + 1 else if even f then f else f + 1)"

definition round2 :: "real option \<Rightarrow> real option" where
  "round2 x = map_option (\<lambda>y. of_int (round_half_even (y * 100)) / 100) x"

section \<open>The class Call\<close>

text \<open>The nested quote dictionary: expiration date to the series of
  premiums and strike prices. \<open>pd.concat(..., axis=1)\<close> aligns the two
  series on their index and pads the shorter one with NaN.\<close>

record call_quotes =
  q_premiums :: "real list"
  q_strikes :: "real list"

fun zip_pad :: "real list \<Rightarrow> real list \<Rightarrow> (real option \<times> real option) list" where
  "zip_pad [] [] = []"
| "zip_pad (x # xs) [] = (Some x, None) # zip_pad xs []"
| "zip_pad [] (y # ys) = (None, Some y) # zip_pad [] ys"
| "zip_pad (x # xs) (y # ys) = (Some x, Some y) # zip_pad xs ys"

record temp_row =
  t_expiration :: date
  t_premium :: "real option"
  t_strike :: "real option"

definition get_temp_df :: "(date \<times> call_quotes) list \<Rightarrow> temp_row list result" where
  "get_temp_df ext =
     (if ext = [] then Inl ValueError
      else Inr (concat (map (\<lambda>(k, q). map (\<lambda>(p, s). \<lparr>t_expiration = k, t_premium = p, t_strike = s\<rparr>)
                                           (zip_pad (q_premiums q) (q_strikes q))) ext)))"

record call_row =
  cr_strike :: "real option"
  cr_original :: real
  cr_start :: date
  cr_expiration :: date
  cr_ticker :: string
  cr_type :: string
  cr_premium :: "real option"
  cr_intrinsic :: "real option"
  cr_time_value :: "real option"
  cr_interval :: int
  cr_capital :: "real option"
  cr_breakeven :: "real option"
  cr_be_change :: "real option"
  cr_be_pct :: "real option"

record call =
  c_ticker :: string
  c_original_price :: real
  c_start_date :: date
  c_is_long :: bool
  call_info_df :: "call_row list"

text \<open>\<open>get_type\<close>: ATM when the strike lies within one percent of the
  original price, otherwise OOTM above and ITM below.\<close>

definition get_type :: "bool \<Rightarrow> real \<Rightarrow> real option \<Rightarrow> string" where
  "get_type is_long orig strike =
     (let action_type = (if is_long then ''Long'' else ''Short'');
          delta_price = map_option (\<lambda>s. \<bar>orig - s\<bar>) strike
      in if nan_cmp (<) (map_option (\<lambda>r. r * 100) (nan_div delta_price (Some orig))) (Some 1)
         then action_type @ '' ATM''
         else if nan_cmp (<) (Some orig) strike then action_type @ '' OOTM''
         else action_type @ '' ITM'')"

definition create_breakeven_information :: "call_row \<Rightarrow> call_row" where
  "create_breakeven_information r =
     (let be = lift2 (+) (cr_strike r) (cr_premium r);
          ch = lift2 (-) be (Some (cr_original r))
      in r\<lparr>cr_breakeven := be, cr_be_change := ch,
           cr_be_pct := round2 (map_option (\<lambda>x. x * 100) (nan_div ch (Some (cr_original r))))\<rparr>)"

definition call_row_of :: "call \<Rightarrow> temp_row \<Rightarrow> call_row" where
  "call_row_of c t =
     (let orig = c_original_price c; strike = t_strike t; prem = t_premium t;
          intrinsic = (if nan_cmp (>) (Some orig) strike then lift2 (-) (Some orig) strike else Some 0)
      in \<lparr>cr_strike = strike, cr_original = orig, cr_start = c_start_date c,
          cr_expiration = t_expiration t, cr_ticker = c_ticker c,
          cr_type = get_type (c_is_long c) orig strike, cr_premium = prem,
          cr_intrinsic = intrinsic, cr_time_value = lift2 (-) prem intrinsic,
          cr_interval = t_expiration t - c_start_date c,
          cr_capital = (if c_is_long c then map_option (\<lambda>p. p * 100) prem else Some 0),
          cr_breakeven = None, cr_be_change = None, cr_be_pct = None\<rparr>)"

text \<open>\<open>build_call_info_df\<close>; the row-wise \<open>apply\<close> of the time interval
  on a frame with no rows returns a DataFrame, which cannot be stored in
  one column (\<open>ValueError\<close>).\<close>

definition build_call_info_df :: "call \<Rightarrow> (date \<times> call_quotes) list \<Rightarrow> call result" where
  "build_call_info_df c ext =
     rbind (get_temp_df ext) (\<lambda>df.
       if df = [] then Inl ValueError
       else Inr (c\<lparr>call_info_df := map (create_breakeven_information \<circ> call_row_of c) df\<rparr>))"

definition Call_init :: "string \<Rightarrow> real \<Rightarrow> date \<Rightarrow> (date \<times> call_quotes) list \<Rightarrow> bool \<Rightarrow> call result" where
  "Call_init ticker original_price start_date ext is_long =
     build_call_info_df \<lparr>c_ticker = ticker, c_original_price = original_price, c_start_date = start_date,
       c_is_long = is_long, call_info_df = []\<rparr> ext"

record return_row =
  rr_row :: call_row
  rr_current :: real
  rr_return :: "real option"
  rr_total :: "real option"

definition call_return :: "bool \<Rightarrow> call_row \<Rightarrow> real \<Rightarrow> real option" where
  "call_return is_long r cur =
     (if is_long then
        (if nan_cmp (\<le>) (cr_strike r) (Some cur)
         then lift2 (-) (lift2 (-) (Some cur) (cr_strike r)) (cr_premium r)
         else map_option uminus (cr_premium r))
      else
        (if nan_cmp (\<ge>) (cr_strike r) (Some cur) then cr_premium r
         else lift2 (-) (cr_premium r) (lift2 (-) (Some cur) (cr_strike r))))"

definition get_return_info_df :: "call \<Rightarrow> real \<Rightarrow> return_row list" where
  "get_return_info_df c cur =
     map (\<lambda>r. let ret = call_return (c_is_long c) r cur
              in \<lparr>rr_row = r, rr_current = cur, rr_return = ret, rr_total = map_option (\<lambda>x. x * 100) ret\<rparr>)
         (call_info_df c)"

section \<open>Column assignment on a DataFrame built column by column\<close>

text \<open>\<open>df[col] = values\<close> with a list: on a frame with no rows the list
  sets the index and the columns already there are reindexed to NaN;
  otherwise the list must have one value per row (\<open>ValueError\<close>).
  \<open>set_list n v\<close> returns the new number of rows and the column;
  \<open>reindex n col\<close> is an existing column after the assignment.\<close>

definition set_list :: "nat \<Rightarrow> 'a list \<Rightarrow> (nat \<times> 'a option list) result" where
  "set_list n v =
     (if n = 0 \<and> v \<noteq> [] then Inr (length v, map Some v)
      else if length v = n then Inr (n, map Some v) else Inl ValueError)"

definition reindex :: "nat \<Rightarrow> 'a option list \<Rightarrow> 'a option list" where
  "reindex n col = (if length col = n then col else replicate n None)"

section \<open>The class Short_Call\<close>

record sc_row =
  sc_ticker_col :: "string option"
  sc_strike :: "real option"
  sc_premium :: "real option"
  sc_original :: "real option"

record short_call =
  sc_ticker :: string
  sc_original_price :: real
  sc_strike_prices :: "real list"
  sc_premiums :: "real list"
  sc_options_df :: "sc_row list"

text \<open>\<open>make_options_df\<close> stores the ticker first, while the frame has no
  rows: the scalar makes an empty column, which the strike list then
  reindexes to NaN.\<close>

definition sc_make_options_df :: "short_call \<Rightarrow> short_call result" where
  "sc_make_options_df sc =
     (let ticker_col = ([] :: string option list) in
      rbind (set_list 0 (sc_strike_prices sc)) (\<lambda>(n1, strike_col).
      rbind (set_list n1 (sc_premiums sc)) (\<lambda>(n2, prem_col).
        (let ticker_col = reindex n2 (reindex n1 ticker_col); strike_col = reindex n2 strike_col;
             orig_col = replicate n2 (Some (sc_original_price sc))
         in Inr (sc\<lparr>sc_options_df := map (\<lambda>(((t, s), p), og). \<lparr>sc_ticker_col = t, sc_strike = s,
                        sc_premium = p, sc_original = og\<rparr>)
                      (zip (zip (zip ticker_col strike_col) prem_col) orig_col)\<rparr>)))))"

definition Short_Call_init :: "string \<Rightarrow> real \<Rightarrow> real list \<Rightarrow> real list \<Rightarrow> short_call result" where
  "Short_Call_init ticker original_price strike_prices premiums =
     sc_make_options_df \<lparr>sc_ticker = ticker, sc_original_price = original_price,
       sc_strike_prices = strike_prices, sc_premiums = premiums, sc_options_df = []\<rparr>"

record sc_breakeven =
  sb_breakeven :: "real option"
  sb_be_change :: "real option"
  sb_be_pct :: "real option"

definition sc_get_breakeven_information :: "short_call \<Rightarrow> sc_breakeven list" where
  "sc_get_breakeven_information sc =
     map (\<lambda>r. let be = lift2 (+) (sc_strike r) (sc_premium r); ch = lift2 (-) be (sc_original r)
              in \<lparr>sb_breakeven = be, sb_be_change = ch,
                  sb_be_pct = round2 (map_option (\<lambda>x. x * 100) (nan_div ch (sc_original r)))\<rparr>)
         (sc_options_df sc)"

record roi_row =
  roi_original :: "real option"
  roi_current :: real
  roi_pct_change :: "real option"
  roi_total :: "real option"

definition get_ROI_info :: "short_call \<Rightarrow> real \<Rightarrow> roi_row list" where
  "get_ROI_info sc cur =
     map (\<lambda>r. \<lparr>roi_original = sc_original r, roi_current = cur,
              roi_pct_change = round2 (map_option (\<lambda>x. x * 100) (nan_div (lift2 (-) (Some cur) (sc_original r)) (sc_original r))),
              roi_total = (if nan_cmp (<) (Some cur) (sc_strike r) then map_option (\<lambda>p. p * 100) (sc_premium r)
                           else map_option (\<lambda>x. x * 100) (lift2 (-) (sc_premium r) (lift2 (-) (Some cur) (sc_strike r))))\<rparr>)
         (sc_options_df sc)"

section \<open>The class Options\<close>

record opt_row =
  o_strike :: "real option"
  o_call :: "real option"
  o_put :: "real option"
  o_ticker :: "string option"
  o_current :: "real option"
  o_call_be :: "real option"
  o_put_be :: "real option"
  o_call_change :: "real option"
  o_put_change :: "real option"
  o_call_pct :: "real option"
  o_put_pct :: "real option"

record options =
  op_ticker :: string
  op_current_price :: real
  op_strike_prices :: "real list"
  op_call_prices :: "real list"
  op_put_prices :: "real list"
  options_df :: "opt_row list"

text \<open>\<open>__init__\<close> leaves \<open>options_df\<close> empty: \<open>make_options_df\<close> is
  only called by the script.\<close>

definition Options_init :: "string \<Rightarrow> real \<Rightarrow> real list \<Rightarrow> real list \<Rightarrow> real list \<Rightarrow> options" where
  "Options_init ticker current_price strike_prices call_prices put_prices =
     \<lparr>op_ticker = ticker, op_current_price = current_price, op_strike_prices = strike_prices,
      op_call_prices = call_prices, op_put_prices = put_prices, options_df = []\<rparr>"

definition options_df_get_percent_change_profit :: "opt_row \<Rightarrow> opt_row" where
  "options_df_get_percent_change_profit r =
     (let call_be = lift2 (+) (o_strike r) (o_call r);
          put_be = lift2 (-) (o_strike r) (o_put r);
          call_change = map_option abs (lift2 (-) call_be (o_current r));
          put_change = map_option (\<lambda>x. - \<bar>x\<bar>) (lift2 (-) put_be (o_current r))
      in r\<lparr>o_call_be := call_be, o_put_be := put_be, o_call_change := call_change,
           o_put_change := put_change,
           o_call_pct := round2 (map_option (\<lambda>x. x * 100) (nan_div call_change (o_current r))),
           o_put_pct := round2 (map_option (\<lambda>x. x * 100) (nan_div put_change (o_current r)))\<rparr>)"

definition make_options_df :: "options \<Rightarrow> options result" where
  "make_options_df op =
     rbind (set_list 0 (op_strike_prices op)) (\<lambda>(n1, strike_col).
     rbind (set_list n1 (op_call_prices op)) (\<lambda>(n2, call_col).
     rbind (set_list n2 (op_put_prices op)) (\<lambda>(n3, put_col).
       (let strike_col = reindex n3 (reindex n2 strike_col); call_col = reindex n3 call_col;
            rows = map (\<lambda>((s, c), p). options_df_get_percent_change_profit
                     \<lparr>o_strike = s, o_call = c, o_put = p, o_ticker = Some (op_ticker op),
                      o_current = Some (op_current_price op), o_call_be = None, o_put_be = None,
                      o_call_change = None, o_put_change = None, o_call_pct = None, o_put_pct = None\<rparr>)
                    (zip (zip strike_col call_col) put_col)
        in Inr (op\<lparr>options_df := rows\<rparr>)))))"

section \<open>The payoff of a call at expiry\<close>

text \<open>The reference the return computations are checked against: a call
  with strike \<open>K\<close> pays \<open>max(S - K, 0)\<close> per share at price \<open>S\<close>.\<close>

definition call_payoff :: "real \<Rightarrow> real \<Rightarrow> real" where
  "call_payoff K s = max (s - K) 0"

section \<open>Examples\<close>

abbreviation ex_quotes :: "(date \<times> call_quotes) list" where
  "ex_quotes \<equiv> [(30, \<lparr>q_premiums = [5], q_strikes = [100]\<rparr>)]"

lemmas call_eval_simps = Call_init_def build_call_info_df_def get_temp_df_def call_row_of_def
  create_breakeven_information_def get_return_info_df_def call_return_def Let_def

section \<open>Lemmas on the calculators\<close>

lemma call_return_payoff:
  "cr_strike r = Some K \<Longrightarrow> cr_premium r = Some p \<Longrightarrow>
   call_return is_long r cur = Some (if is_long then call_payoff K cur - p else p - call_payoff K cur)"
  by (auto simp: call_return_def call_payoff_def)

lemma get_temp_df_Inr:
  "get_temp_df ext = Inr df \<Longrightarrow>
   df = concat (map (\<lambda>(k, q). map (\<lambda>(p, s). \<lparr>t_expiration = k, t_premium = p, t_strike = s\<rparr>)
                                 (zip_pad (q_premiums q) (q_strikes q))) ext)"
  by (simp add: get_temp_df_def split: if_splits)

lemma Call_init_Inr:
  "Call_init t op d ext b = Inr c \<Longrightarrow>
   \<exists>df. get_temp_df ext = Inr df \<and> df \<noteq> [] \<and> c_is_long c = b \<and> c_original_price c = op \<and>
     call_info_df c = map (create_breakeven_information \<circ> call_row_of
        \<lparr>c_ticker = t, c_original_price = op, c_start_date = d, c_is_long = b, call_info_df = []\<rparr>) df"
  by (auto simp: Call_init_def build_call_info_df_def rbind_eq_Inr split: if_splits)

lemma call_row_of_fields [simp]:
  "cr_strike (call_row_of c t) = t_strike t"
  "cr_premium (call_row_of c t) = t_premium t"
  "cr_original (call_row_of c t) = c_original_price c"
  by (simp_all add: call_row_of_def Let_def)

lemma breakeven_keeps [simp]:
  "cr_strike (create_breakeven_information r) = cr_strike r"
  "cr_premium (create_breakeven_information r) = cr_premium r"
  "cr_original (create_breakeven_information r) = cr_original r"
  "cr_intrinsic (create_breakeven_information r) = cr_intrinsic r"
  "cr_time_value (create_breakeven_information r) = cr_time_value r"
  "cr_interval (create_breakeven_information r) = cr_interval r"
  "cr_expiration (create_breakeven_information r) = cr_expiration r"
  by (simp_all add: create_breakeven_information_def Let_def)

text \<open>C26: every row of a call's return frame with a strike
  and a premium is the expiry payoff less the premium for a long call and the
  premium less the payoff for a short one, per share and per contract of 100.\<close>

theorem built_call_payoff:
  assumes "Call_init t op d ext b = Inr c" and "r \<in> set (get_return_info_df c cur)"
    and "cr_strike (rr_row r) = Some K" and "cr_premium (rr_row r) = Some p"
  shows "rr_return r = Some (if b then call_payoff K cur - p else p - call_payoff K cur) \<and>
         rr_total r = Some (100 * (if b then call_payoff K cur - p else p - call_payoff K cur))"
  using assms Call_init_Inr [OF assms(1)]
  by (auto simp: get_return_info_df_def call_return_payoff Let_def)

text \<open>C28: a long and a short call built from the same
  quotes have returns that add up to zero at every price, row by row.\<close>

theorem call_long_short_zero_sum:
  assumes "Call_init t op d ext True = Inr cl" and "Call_init t op d ext False = Inr cs"
    and "i < length (call_info_df cl)"
    and "cr_strike (call_info_df cl ! i) = Some K" and "cr_premium (call_info_df cl ! i) = Some p"
  shows "length (call_info_df cs) = length (call_info_df cl) \<and>
    lift2 (+) (rr_return (get_return_info_df cl cur ! i)) (rr_return (get_return_info_df cs cur ! i)) = Some 0"
proof -
  obtain df where df: "get_temp_df ext = Inr df" and l: "call_info_df cl = map (create_breakeven_information \<circ> call_row_of
        \<lparr>c_ticker = t, c_original_price = op, c_start_date = d, c_is_long = True, call_info_df = []\<rparr>) df"
    and lt: "c_is_long cl"
    using Call_init_Inr [OF assms(1)] by auto
  obtain df' where df': "get_temp_df ext = Inr df'" and s: "call_info_df cs = map (create_breakeven_information \<circ> call_row_of
        \<lparr>c_ticker = t, c_original_price = op, c_start_date = d, c_is_long = False, call_info_df = []\<rparr>) df'"
    and sf: "\<not> c_is_long cs"
    using Call_init_Inr [OF assms(2)] by auto
  from df df' have "df' = df" by simp
  with assms(3-5) l s lt sf show ?thesis
    by (simp add: get_return_info_df_def call_return_payoff)
qed

text \<open>A long call loses at most its premium and gains
  more as the price rises; a short call gains at most its premium.\<close>

theorem call_return_bounds:
  assumes "cr_strike r = Some K" and "cr_premium r = Some p"
  shows "\<exists>x y. call_return True r cur = Some x \<and> call_return False r cur = Some y \<and> - p \<le> x \<and> y \<le> p \<and>
     (\<forall>cur'. cur \<le> cur' \<longrightarrow> (\<exists>x'. call_return True r cur' = Some x' \<and> x \<le> x'))"
  using assms by (auto simp: call_return_payoff call_payoff_def)


lemma built_call_rows:
  "Call_init t op d ext b = Inr c \<Longrightarrow> r \<in> set (call_info_df c) \<Longrightarrow>
   \<exists>tr. r = create_breakeven_information (call_row_of
        \<lparr>c_ticker = t, c_original_price = op, c_start_date = d, c_is_long = b, call_info_df = []\<rparr> tr)"
  by (auto dest!: Call_init_Inr)

lemma breakeven_of_row [simp]:
  "cr_breakeven (create_breakeven_information r) = lift2 (+) (cr_strike r) (cr_premium r)"
  by (simp add: create_breakeven_information_def Let_def)

text \<open>C30: feeding the breakeven price a long call reports
  back into its return computation gives a return of exactly zero.\<close>

theorem breakeven_zero_return:
  assumes "Call_init t op d ext True = Inr c" and "r \<in> set (call_info_df c)"
    and "cr_breakeven r = Some be" and "cr_premium r = Some p" and "0 \<le> p"
  shows "call_return True r be = Some 0"
proof -
  from built_call_rows [OF assms(1,2)] obtain tr where
    r: "r = create_breakeven_information (call_row_of
        \<lparr>c_ticker = t, c_original_price = op, c_start_date = d, c_is_long = True, call_info_df = []\<rparr> tr)" ..
  then obtain K where K: "cr_strike r = Some K" and "be = K + p"
    using assms(3,4) by (cases "t_strike tr") auto
  with assms(4,5) show ?thesis by (simp add: call_return_payoff call_payoff_def)
qed

theorem call_value_split:
  assumes "Call_init t op d ext b = Inr c" and "r \<in> set (call_info_df c)"
    and "cr_strike r = Some K" and "cr_premium r = Some p"
  shows "cr_intrinsic r = Some (max (op - K) 0) \<and> cr_time_value r = Some (p - max (op - K) 0) \<and>
    cr_interval r = cr_expiration r - d"
proof -
  from built_call_rows [OF assms(1,2)] obtain tr where
    r: "r = create_breakeven_information (call_row_of
        \<lparr>c_ticker = t, c_original_price = op, c_start_date = d, c_is_long = b, call_info_df = []\<rparr> tr)" ..
  with assms(3,4) show ?thesis
    by (auto simp: call_row_of_def Let_def)
qed

lemma zip_pad_Nil_iff: "zip_pad xs ys = [] \<longleftrightarrow> xs = [] \<and> ys = []"
  by (cases xs; cases ys) simp_all

lemma length_zip_pad: "length (zip_pad xs ys) = max (length xs) (length ys)"
  by (induction xs ys rule: zip_pad.induct) simp_all

text \<open>C31: constructing a \<open>Call\<close> raises exactly when the
  quote dictionary holds no quote at all (no expiry, or only empty series).\<close>

theorem Call_init_error_iff:
  "(\<exists>e. Call_init t op d ext b = Inl e) \<longleftrightarrow> (\<forall>(k, q) \<in> set ext. q_premiums q = [] \<and> q_strikes q = [])"
  by (auto simp: Call_init_def build_call_info_df_def get_temp_df_def rbind_def zip_pad_Nil_iff split: prod.splits)

lemma zip_pad_Nil2: "zip_pad xs [] = map (\<lambda>x. (Some x, None)) xs"
  by (induction xs) simp_all

lemma zip_pad_eq_length: "length xs = length ys \<Longrightarrow> zip_pad xs ys = zip (map Some xs) (map Some ys)"
  by (induction xs ys rule: zip_pad.induct) simp_all

lemma set_list_0: "set_list 0 v = Inr (length v, map Some v)"
  by (simp add: set_list_def)

lemma sc_rows:
  assumes "Short_Call_init t op ks ps = Inr sc"
  shows "sc_options_df sc = map (\<lambda>(p, s). \<lparr>sc_ticker_col = None, sc_strike = s, sc_premium = p,
            sc_original = Some op\<rparr>) (zip_pad ps ks)"
proof -
  from assms obtain n2 pcol where s2: "set_list (length ks) ps = Inr (n2, pcol)"
    and sc: "sc_options_df sc = map (\<lambda>(((t, s), p), og). \<lparr>sc_ticker_col = t, sc_strike = s, sc_premium = p, sc_original = og\<rparr>)
        (zip (zip (zip (reindex n2 (reindex (length ks) [])) (reindex n2 (map Some ks))) pcol) (replicate n2 (Some op)))"
    by (auto simp: Short_Call_init_def sc_make_options_df_def set_list_0 rbind_eq_Inr Let_def)
  from s2 have n2: "n2 = length ps" "pcol = map Some ps" and ks: "ks = [] \<or> length ks = length ps"
    by (auto simp: set_list_def split: if_splits)
  from ks show ?thesis
  proof
    assume "ks = []"
    moreover have "reindex (length ps) ([] :: real option list) = replicate (length ps) None"
      "reindex (length ps) ([] :: string option list) = replicate (length ps) None"
      "reindex 0 ([] :: string option list) = []"
      by (simp_all add: reindex_def)
    ultimately show ?thesis using sc n2 by (simp add: zip_pad_Nil2 zip_replicate1 zip_replicate2 zip_map1 zip_map2)
  next
    assume l: "length ks = length ps"
    then show ?thesis using sc n2 by (auto simp: reindex_def zip_pad_eq_length intro!: nth_equalityI)
  qed
qed

text \<open>The \<open>Ticker\<close> column of a \<open>Short_Call\<close> frame
  is NaN in every row: it is stored while the frame has no rows, and the
  strike list then reindexes it.\<close>

theorem short_call_ticker_nan:
  "Short_Call_init t op ks ps = Inr sc \<Longrightarrow>
   map sc_ticker_col (sc_options_df sc) = replicate (length (sc_options_df sc)) None"
  by (simp add: sc_rows map_replicate_const case_prod_beta comp_def)

lemma make_options_df_length_error:
  "op_strike_prices op \<noteq> [] \<Longrightarrow> length (op_call_prices op) \<noteq> length (op_strike_prices op) \<Longrightarrow>
   make_options_df op = Inl ValueError"
  by (simp add: make_options_df_def set_list_def)

lemma call_rows:
  assumes "Call_init t op d [(e, \<lparr>q_premiums = ps, q_strikes = ks\<rparr>)] b = Inr c"
  shows "map (\<lambda>r. (cr_premium r, cr_strike r)) (call_info_df c) = zip_pad ps ks"
proof -
  from Call_init_Inr [OF assms] obtain df c0 where
    df: "get_temp_df [(e, \<lparr>q_premiums = ps, q_strikes = ks\<rparr>)] = Inr df"
    and c: "call_info_df c = map (create_breakeven_information \<circ> call_row_of c0) df" by blast
  from df have "df = map (\<lambda>(p, s). \<lparr>t_expiration = e, t_premium = p, t_strike = s\<rparr>) (zip_pad ps ks)"
    by (simp add: get_temp_df_def)
  with c show ?thesis by (simp add: comp_def case_prod_beta)
qed

lemma short_total_eq:
  "map_option (\<lambda>x. x * 100) (call_return False r cur) =
     (if nan_cmp (<) (Some cur) (cr_strike r) then map_option (\<lambda>p. p * 100) (cr_premium r)
      else map_option (\<lambda>x. x * 100) (lift2 (-) (cr_premium r) (lift2 (-) (Some cur) (cr_strike r))))"
  by (cases "cr_premium r"; cases "cr_strike r") (auto simp: call_return_def)

text \<open>C27: the profit and loss of \<open>Short_Call.get_ROI_info\<close>
  equals the total return of a short \<open>Call\<close> on the same strikes and premiums,
  although the two compare the price with the strike the other way round.\<close>

theorem short_call_equivalence:
  assumes "Short_Call_init t op ks ps = Inr sc"
    and "Call_init t op d [(e, \<lparr>q_premiums = ps, q_strikes = ks\<rparr>)] False = Inr c"
  shows "map roi_total (get_ROI_info sc cur) = map rr_total (get_return_info_df c cur)"
proof -
  define f where "f = (\<lambda>(p, s). if nan_cmp (<) (Some cur) s then map_option (\<lambda>p. p * 100) p
                           else map_option (\<lambda>x. x * 100) (lift2 (-) p (lift2 (-) (Some cur) s)))"
  have "map roi_total (get_ROI_info sc cur) = map f (zip_pad ps ks)"
    by (simp add: get_ROI_info_def f_def sc_rows [OF assms(1)] comp_def case_prod_beta)
  moreover have "map rr_total (get_return_info_df c cur) = map f (map (\<lambda>r. (cr_premium r, cr_strike r)) (call_info_df c))"
    using short_total_eq Call_init_Inr [OF assms(2)]
    by (auto simp: get_return_info_df_def Let_def f_def)
  ultimately show ?thesis using call_rows [OF assms(2)] by simp
qed


theorem built_call_payoff_witness:
  "\<exists>c. Call_init ''X'' 100 0 ex_quotes True = Inr c \<and> rr_return (hd (get_return_info_df c 110)) = Some 5"
proof -
  have "\<exists>c. Call_init ''X'' 100 0 ex_quotes True = Inr c \<and>
      hd (get_return_info_df c 110) \<in> set (get_return_info_df c 110) \<and>
      cr_strike (rr_row (hd (get_return_info_df c 110))) = Some 100 \<and>
      cr_premium (rr_row (hd (get_return_info_df c 110))) = Some 5"
    by (simp add: call_eval_simps)
  then obtain c where c: "Call_init ''X'' 100 0 ex_quotes True = Inr c"
    and r: "hd (get_return_info_df c 110) \<in> set (get_return_info_df c 110)"
    and k: "cr_strike (rr_row (hd (get_return_info_df c 110))) = Some 100"
    and p: "cr_premium (rr_row (hd (get_return_info_df c 110))) = Some 5" by blast
  from built_call_payoff [OF c r k p] c show ?thesis by (simp add: call_payoff_def)
qed

theorem call_long_short_zero_sum_witness:
  "\<exists>cl cs. Call_init ''X'' 100 0 ex_quotes True = Inr cl \<and> Call_init ''X'' 100 0 ex_quotes False = Inr cs \<and>
     lift2 (+) (rr_return (get_return_info_df cl 110 ! 0)) (rr_return (get_return_info_df cs 110 ! 0)) = Some 0"
proof -
  have "\<exists>cl. Call_init ''X'' 100 0 ex_quotes True = Inr cl \<and> 0 < length (call_info_df cl) \<and>
      cr_strike (call_info_df cl ! 0) = Some 100 \<and> cr_premium (call_info_df cl ! 0) = Some 5"
    by (simp add: call_eval_simps)
  then obtain cl where cl: "Call_init ''X'' 100 0 ex_quotes True = Inr cl" and i: "0 < length (call_info_df cl)"
    and k: "cr_strike (call_info_df cl ! 0) = Some 100" and p: "cr_premium (call_info_df cl ! 0) = Some 5" by blast
  obtain cs where cs: "Call_init ''X'' 100 0 ex_quotes False = Inr cs" by (simp add: call_eval_simps)
  from call_long_short_zero_sum [OF cl cs i k p] cl cs show ?thesis by blast
qed

theorem call_return_bounds_witness:
  "\<exists>x y. call_return True \<lparr>cr_strike = Some 100, cr_original = 100, cr_start = 0, cr_expiration = 30,
     cr_ticker = ''X'', cr_type = ''Long ATM'', cr_premium = Some 5, cr_intrinsic = Some 0, cr_time_value = Some 5,
     cr_interval = 30, cr_capital = Some 500, cr_breakeven = Some 105, cr_be_change = Some 5, cr_be_pct = Some 5\<rparr> 90 = Some x \<and>
     call_return False \<lparr>cr_strike = Some 100, cr_original = 100, cr_start = 0, cr_expiration = 30,
     cr_ticker = ''X'', cr_type = ''Long ATM'', cr_premium = Some 5, cr_intrinsic = Some 0, cr_time_value = Some 5,
     cr_interval = 30, cr_capital = Some 500, cr_breakeven = Some 105, cr_be_change = Some 5, cr_be_pct = Some 5\<rparr> 90 = Some y \<and>
     - 5 \<le> x \<and> y \<le> 5"
  using call_return_bounds [of "\<lparr>cr_strike = Some 100, cr_original = 100, cr_start = 0, cr_expiration = 30,
     cr_ticker = ''X'', cr_type = ''Long ATM'', cr_premium = Some 5, cr_intrinsic = Some 0, cr_time_value = Some 5,
     cr_interval = 30, cr_capital = Some 500, cr_breakeven = Some 105, cr_be_change = Some 5, cr_be_pct = Some 5\<rparr>"
     100 5 90]
  by auto

theorem breakeven_zero_return_witness:
  "\<exists>c. Call_init ''X'' 100 0 ex_quotes True = Inr c \<and> call_return True (hd (call_info_df c)) 105 = Some 0"
proof -
  have "\<exists>c. Call_init ''X'' 100 0 ex_quotes True = Inr c \<and> hd (call_info_df c) \<in> set (call_info_df c) \<and>
      cr_breakeven (hd (call_info_df c)) = Some 105 \<and> cr_premium (hd (call_info_df c)) = Some 5"
    by (simp add: call_eval_simps)
  then obtain c where c: "Call_init ''X'' 100 0 ex_quotes True = Inr c" and r: "hd (call_info_df c) \<in> set (call_info_df c)"
    and b: "cr_breakeven (hd (call_info_df c)) = Some 105" and p: "cr_premium (hd (call_info_df c)) = Some 5" by blast
  from breakeven_zero_return [OF c r b p] c show ?thesis by simp
qed

theorem Call_init_error_iff_witness:
  "(\<exists>e. Call_init ''X'' 100 0 [(30, \<lparr>q_premiums = [], q_strikes = []\<rparr>)] True = Inl e) \<and>
   \<not> (\<exists>e. Call_init ''X'' 100 0 ex_quotes True = Inl e)"
  using Call_init_error_iff [of "''X''" 100 0 "[(30, \<lparr>q_premiums = [], q_strikes = []\<rparr>)]" True]
    Call_init_error_iff [of "''X''" 100 0 ex_quotes True]
  by simp

theorem short_call_equivalence_witness:
  "\<exists>sc c. Short_Call_init ''X'' 100 [100] [5] = Inr sc \<and> Call_init ''X'' 100 0 ex_quotes False = Inr c \<and>
     map roi_total (get_ROI_info sc 110) = map rr_total (get_return_info_df c 110)"
proof -
  obtain sc where sc: "Short_Call_init ''X'' 100 [100] [5] = Inr sc"
    by (simp add: Short_Call_init_def sc_make_options_df_def set_list_def reindex_def)
  obtain c where c: "Call_init ''X'' 100 0 ex_quotes False = Inr c" by (simp add: call_eval_simps)
  from short_call_equivalence [OF sc c] sc c show ?thesis by blast
qed

theorem short_call_ticker_nan_witness:
  "\<exists>sc. Short_Call_init ''AAPL'' (25429 / 100) [245, 2475 / 10] [1735 / 100, 1565 / 100] = Inr sc \<and>
     map sc_ticker_col (sc_options_df sc) = [None, None]"
proof -
  have "\<exists>sc. Short_Call_init ''AAPL'' (25429 / 100) [245, 2475 / 10] [1735 / 100, 1565 / 100] = Inr sc \<and>
      length (sc_options_df sc) = 2"
    by (simp add: Short_Call_init_def sc_make_options_df_def set_list_def reindex_def)
  then obtain sc where sc: "Short_Call_init ''AAPL'' (25429 / 100) [245, 2475 / 10] [1735 / 100, 1565 / 100] = Inr sc"
    and l: "length (sc_options_df sc) = 2" by blast
  from short_call_ticker_nan [OF sc] l sc show ?thesis by (simp add: numeral_2_eq_2)
qed

end
