(* ===== verification/Options_Spread.thy ===== *)
theory Options_Spread
  imports Options_Call
begin

text \<open>
  The class \<open>Call_Spread\<close> (Call_Spread_Class.py, repeated verbatim in
  Call_Spread.py): every pair of a row of the first call and a row of the
  second, with the spread's capital, the returns of both legs at a new
  price and the return on capital. \<open>iloc\<close> takes Python's negative
  indices and raises \<open>IndexError\<close> out of range. The graph method is
  modelled up to the data it plots (the x and y values); the plotting calls
  are not. The script at the end of Call_Spread.py (a poor man's covered
  call on BA) is modelled with the date of the day as a parameter.
\<close>

definition iloc :: "'a list \<Rightarrow> int \<Rightarrow> 'a result" where
  "iloc xs i =
     (if 0 \<le> i \<and> i < int (length xs) then Inr (xs ! nat i)
      else if i < 0 \<and> - int (length xs) \<le> i then Inr (xs ! nat (int (length xs) + i))
      else Inl IndexError)"

record general_info =
  gi_ticker :: string
  gi_start :: date
  gi_original :: real
  gi_capital :: "real option"

record leg_info =
  li_expiration :: date
  li_interval :: int
  li_intrinsic :: "real option"
  li_time_value :: "real option"
  li_premium :: "real option"
  li_strike :: "real option"
  li_type :: string

record spread_return =
  sr_ticker :: string
  sr_current :: real
  sr_strike_1 :: "real option"
  sr_strike_2 :: "real option"
  sr_type_1 :: string
  sr_type_2 :: string
  sr_capital :: "real option"
  sr_return_1 :: "real option"
  sr_return_2 :: "real option"
  sr_net_per_call :: "real option"
  sr_total_1 :: "real option"
  sr_total_2 :: "real option"
  sr_net :: "real option"
  sr_roi :: "real option"

record risk_info =
  ri_new_price :: real
  ri_total_1 :: "real option"
  ri_total_2 :: "real option"
  ri_net :: "real option"
  ri_roi :: "real option"

record spread_info =
  si_general :: general_info
  si_call_1 :: leg_info
  si_call_2 :: leg_info
  si_flat :: risk_info
  si_up10 :: risk_info
  si_down10 :: risk_info

record call_spread =
  cs_call_1 :: call
  cs_call_2 :: call
  cs_call_1_info_df :: "call_row list"
  cs_call_2_info_df :: "call_row list"
  cs_ticker :: string
  cs_original_price :: real
  call_spread_info_df :: "spread_info list"

definition get_general_spread_info_series :: "call_spread \<Rightarrow> int \<Rightarrow> int \<Rightarrow> general_info result" where
  "get_general_spread_info_series cs i j =
     rbind (iloc (cs_call_1_info_df cs) i) (\<lambda>row1.
     rbind (iloc (cs_call_2_info_df cs) j) (\<lambda>row2.
       Inr \<lparr>gi_ticker = cr_ticker row2, gi_start = cr_start row2, gi_original = cr_original row2,
            gi_capital = lift2 (+) (cr_capital row1) (cr_capital row2)\<rparr>))"

definition leg_info_of :: "call_row \<Rightarrow> leg_info" where
  "leg_info_of r =
     \<lparr>li_expiration = cr_expiration r, li_interval = cr_interval r, li_intrinsic = cr_intrinsic r,
      li_time_value = cr_time_value r, li_premium = cr_premium r, li_strike = cr_strike r,
      li_type = cr_type r\<rparr>"

definition get_call_1_info_series :: "call_spread \<Rightarrow> int \<Rightarrow> leg_info result" where
  "get_call_1_info_series cs i = rbind (iloc (cs_call_1_info_df cs) i) (\<lambda>row1. Inr (leg_info_of row1))"

definition get_call_2_info_series :: "call_spread \<Rightarrow> int \<Rightarrow> leg_info result" where
  "get_call_2_info_series cs j = rbind (iloc (cs_call_2_info_df cs) j) (\<lambda>row2. Inr (leg_info_of row2))"

definition get_return_info_series :: "call_spread \<Rightarrow> int \<Rightarrow> int \<Rightarrow> real \<Rightarrow> spread_return result" where
  "get_return_info_series cs i j new_price =
     rbind (iloc (get_return_info_df (cs_call_1 cs) new_price) i) (\<lambda>row1.
     rbind (iloc (get_return_info_df (cs_call_2 cs) new_price) j) (\<lambda>row2.
       (let r1 = rr_return row1; r2 = rr_return row2;
            t1 = map_option (\<lambda>x. x * 100) r1; t2 = map_option (\<lambda>x. x * 100) r2;
            capital = lift2 (+) (cr_capital (rr_row row1)) (cr_capital (rr_row row2));
            net = lift2 (+) t1 t2
        in Inr \<lparr>sr_ticker = cs_ticker cs, sr_current = new_price,
                sr_strike_1 = cr_strike (rr_row row1), sr_strike_2 = cr_strike (rr_row row2),
                sr_type_1 = cr_type (rr_row row1), sr_type_2 = cr_type (rr_row row2),
                sr_capital = capital, sr_return_1 = r1, sr_return_2 = r2,
                sr_net_per_call = lift2 (+) r1 r2, sr_total_1 = t1, sr_total_2 = t2, sr_net = net,
                sr_roi = round2 (map_option (\<lambda>x. x * 100) (nan_div net capital))\<rparr>)))"

definition get_n_percent_change_call_spread_risk_series ::
  "call_spread \<Rightarrow> int \<Rightarrow> int \<Rightarrow> real \<Rightarrow> risk_info result" where
  "get_n_percent_change_call_spread_risk_series cs i j n_percent =
     rbind (iloc (map cr_original (cs_call_2_info_df cs)) j) (\<lambda>orig.
       (let new_price = orig * (1 + n_percent / 100)
        in rbind (get_return_info_series cs i j new_price) (\<lambda>r.
             Inr \<lparr>ri_new_price = new_price, ri_total_1 = sr_total_1 r, ri_total_2 = sr_total_2 r,
                  ri_net = sr_net r, ri_roi = sr_roi r\<rparr>)))"

definition spread_info_at :: "call_spread \<Rightarrow> int \<Rightarrow> int \<Rightarrow> spread_info result" where
  "spread_info_at cs i j =
     rbind (get_general_spread_info_series cs i j) (\<lambda>g.
     rbind (get_call_1_info_series cs i) (\<lambda>l1.
     rbind (get_call_2_info_series cs j) (\<lambda>l2.
     rbind (get_n_percent_change_call_spread_risk_series cs i j 0) (\<lambda>r0.
     rbind (get_n_percent_change_call_spread_risk_series cs i j 10) (\<lambda>r10.
     rbind (get_n_percent_change_call_spread_risk_series cs i j (- 10)) (\<lambda>rm10.
       Inr \<lparr>si_general = g, si_call_1 = l1, si_call_2 = l2, si_flat = r0, si_up10 = r10, si_down10 = rm10\<rparr>))))))"

text \<open>The pairs \<open>(i, j)\<close> of the two nested \<open>range\<close> loops, in loop order;
  \<open>pd.concat\<close> of an empty list raises \<open>ValueError\<close>.\<close>

definition index_pairs :: "call_spread \<Rightarrow> (int \<times> int) list" where
  "index_pairs cs = [(int i, int j). i \<leftarrow> [0..<length (cs_call_1_info_df cs)], j \<leftarrow> [0..<length (cs_call_2_info_df cs)]]"

fun collect :: "('a \<Rightarrow> 'b result) \<Rightarrow> 'a list \<Rightarrow> 'b list result" where
  "collect f [] = Inr []"
| "collect f (x # xs) = rbind (f x) (\<lambda>y. rbind (collect f xs) (\<lambda>ys. Inr (y # ys)))"

definition pd_concat :: "'a list \<Rightarrow> 'a list result" where
  "pd_concat xs = (if xs = [] then Inl ValueError else Inr xs)"

definition build_call_spread_info_df :: "call_spread \<Rightarrow> call_spread result" where
  "build_call_spread_info_df cs =
     rbind (collect (\<lambda>(i, j). spread_info_at cs i j) (index_pairs cs)) (\<lambda>l.
     rbind (pd_concat l) (\<lambda>df. Inr (cs\<lparr>call_spread_info_df := df\<rparr>)))"

definition Call_Spread_init :: "call \<Rightarrow> call \<Rightarrow> call_spread result" where
  "Call_Spread_init call_1 call_2 =
     build_call_spread_info_df \<lparr>cs_call_1 = call_1, cs_call_2 = call_2,
       cs_call_1_info_df = call_info_df call_1, cs_call_2_info_df = call_info_df call_2,
       cs_ticker = c_ticker call_1, cs_original_price = c_original_price call_1, call_spread_info_df = []\<rparr>"

definition get_call_spread_return_info_df :: "call_spread \<Rightarrow> real \<Rightarrow> spread_return list result" where
  "get_call_spread_return_info_df cs new_price =
     rbind (collect (\<lambda>(i, j). get_return_info_series cs i j new_price) (index_pairs cs)) pd_concat"

text \<open>The x and y values of \<open>display_return_vs_asset_price_change_graph\<close>
  (lines 288--306): the net return of spread \<open>index\<close> (a column label of
  the transposed frame, \<open>KeyError\<close> if absent) at each price of the range;
  the print after the loop reads \<open>new_price\<close>, unbound when the range is
  empty.\<close>

definition net_return_at :: "call_spread \<Rightarrow> real \<Rightarrow> int \<Rightarrow> real option result" where
  "net_return_at cs new_price index =
     rbind (get_call_spread_return_info_df cs new_price) (\<lambda>df.
       if 0 \<le> index \<and> index < int (length df) then Inr (sr_net (df ! nat index)) else Inl KeyError)"

definition return_curve :: "call_spread \<Rightarrow> int \<Rightarrow> int \<Rightarrow> bool \<Rightarrow> (real \<times> real option) list result" where
  "return_curve cs price_range index is_percent =
     (let original_price = cs_original_price cs;
          pts = map (\<lambda>i. if is_percent then (original_price * (1 + of_int i / 100), of_int i)
                          else (original_price + of_int i, original_price + of_int i))
                    [- price_range..price_range - 1]
      in rbind (collect (\<lambda>(new_price, x). rbind (net_return_at cs new_price index) (\<lambda>y. Inr (x, y))) pts)
           (\<lambda>xy. if pts = [] then Inl NameError
                 else rbind (net_return_at cs (fst (last pts)) index) (\<lambda>_. Inr xy)))"

section \<open>The script of Call_Spread.py\<close>

text \<open>The quotes the script uses (the other quote sets are commented out):
  a short call expiring 2020-05-01 at strike 280 for 10, and long calls
  expiring 2022-01-21 at strikes 250, 240, 230 for 17, 30, 45; dates are
  days since 1970-01-01. The start date is \<open>dt.date.today()\<close>.\<close>

definition ba_short_call_info :: "(date \<times> call_quotes) list" where
  "ba_short_call_info = [(18383, \<lparr>q_premiums = [10], q_strikes = [280]\<rparr>)]"

definition ba_long_call_info :: "(date \<times> call_quotes) list" where
  "ba_long_call_info = [(19013, \<lparr>q_premiums = [17, 30, 45], q_strikes = [250, 240, 230]\<rparr>)]"

definition BA_PMCC :: "date \<Rightarrow> call_spread result" where
  "BA_PMCC today =
     rbind (Call_init ''BA'' (26799 / 100) today ba_short_call_info False) (\<lambda>short_call.
     rbind (Call_init ''BA'' (26799 / 100) today ba_long_call_info True) (\<lambda>long_call.
       Call_Spread_init short_call long_call))"

definition ba_df_return_info :: "date \<Rightarrow> spread_return list result" where
  "ba_df_return_info today = rbind (BA_PMCC today) (\<lambda>cs. get_call_spread_return_info_df cs 300)"

section \<open>Lemmas on the spread\<close>

lemma iloc_map: "iloc (map f xs) i = rbind (iloc xs i) (\<lambda>x. Inr (f x))"
  by (auto simp: iloc_def nat_less_iff)

lemma iloc_nat [simp]: "i < length xs \<Longrightarrow> iloc xs (int i) = Inr (xs ! i)"
  by (auto simp: iloc_def nat_less_iff)

lemma collect_Inr:
  "\<forall>x\<in>set xs. \<exists>y. f x = Inr y \<Longrightarrow> \<exists>ys. collect f xs = Inr ys \<and> length ys = length xs"
  by (induction xs) auto

lemma index_pairs_bounds:
  "(i, j) \<in> set (index_pairs cs) \<Longrightarrow>
   \<exists>a b. i = int a \<and> j = int b \<and> a < length (cs_call_1_info_df cs) \<and> b < length (cs_call_2_info_df cs)"
  by (auto simp: index_pairs_def)

lemma length_index_pairs: "length (index_pairs cs) = length (cs_call_1_info_df cs) * length (cs_call_2_info_df cs)"
  by (simp add: index_pairs_def length_concat sum_list_triv comp_def)

lemma spread_info_at_Inr:
  assumes "cs_call_1_info_df cs = call_info_df (cs_call_1 cs)" "cs_call_2_info_df cs = call_info_df (cs_call_2 cs)"
    and "a < length (cs_call_1_info_df cs)" "b < length (cs_call_2_info_df cs)"
  shows "\<exists>s. spread_info_at cs (int a) (int b) = Inr s"
  using assms
  by (simp add: spread_info_at_def get_general_spread_info_series_def get_call_1_info_series_def
      get_call_2_info_series_def get_n_percent_change_call_spread_risk_series_def get_return_info_series_def
      get_return_info_df_def Let_def)

lemma call_spread_builds:
  assumes "Call_init t op d ext1 b1 = Inr c1" and "Call_init t' op' d' ext2 b2 = Inr c2"
  shows "\<exists>cs. Call_Spread_init c1 c2 = Inr cs \<and>
    length (call_spread_info_df cs) = length (call_info_df c1) * length (call_info_df c2)"
proof -
  let ?cs = "\<lparr>cs_call_1 = c1, cs_call_2 = c2, cs_call_1_info_df = call_info_df c1,
       cs_call_2_info_df = call_info_df c2, cs_ticker = c_ticker c1, cs_original_price = c_original_price c1,
       call_spread_info_df = []\<rparr> :: call_spread"
  have ne: "call_info_df c1 \<noteq> []" "call_info_df c2 \<noteq> []"
    using Call_init_Inr [OF assms(1)] Call_init_Inr [OF assms(2)] by auto
  have "\<forall>x\<in>set (index_pairs ?cs). \<exists>y. (\<lambda>(i, j). spread_info_at ?cs i j) x = Inr y"
    by (auto dest!: index_pairs_bounds intro: spread_info_at_Inr)
  from collect_Inr [OF this] obtain ys where
    ys: "collect (\<lambda>(i, j). spread_info_at ?cs i j) (index_pairs ?cs) = Inr ys"
    and l: "length ys = length (call_info_df c1) * length (call_info_df c2)"
    by (auto simp: length_index_pairs)
  with ne have "ys \<noteq> []" by auto
  with ys l show ?thesis
    by (simp add: Call_Spread_init_def build_call_spread_info_df_def pd_concat_def)
qed


lemma iloc_return_info:
  "iloc (get_return_info_df c cur) i = Inr row \<Longrightarrow>
   \<exists>r. iloc (call_info_df c) i = Inr r \<and> rr_row row = r \<and> rr_return row = call_return (c_is_long c) r cur"
  by (auto simp: get_return_info_df_def iloc_map rbind_eq_Inr Let_def)

lemma get_return_info_series_Inr:
  "get_return_info_series cs i j cur = Inr sr \<Longrightarrow>
   \<exists>r1 r2. iloc (call_info_df (cs_call_1 cs)) i = Inr r1 \<and> iloc (call_info_df (cs_call_2 cs)) j = Inr r2 \<and>
     sr_strike_1 sr = cr_strike r1 \<and> sr_strike_2 sr = cr_strike r2 \<and>
     sr_net_per_call sr = lift2 (+) (call_return (c_is_long (cs_call_1 cs)) r1 cur)
                                    (call_return (c_is_long (cs_call_2 cs)) r2 cur)"
  by (auto simp: get_return_info_series_def rbind_eq_Inr Let_def dest!: iloc_return_info)

lemma call_return_Some_premium:
  "call_return b r cur = Some x \<Longrightarrow> \<exists>p. cr_premium r = Some p"
  by (cases "cr_premium r"; cases "cr_strike r") (auto simp: call_return_def split: if_splits)

lemma spread_gain_range:
  "K2 \<le> K1 \<Longrightarrow> 0 \<le> call_payoff K2 c - call_payoff K1 c \<and> call_payoff K2 c - call_payoff K1 c \<le> K1 - K2"
  unfolding call_payoff_def by (auto simp: max_def)

text \<open>C29: for a spread that is short the first call and
  long the second at a lower or equal strike (the script's poor man's covered
  call), the net return per share at two prices differs by at most the strike
  width: the premiums cancel and the payoffs differ by at most \<open>K1 - K2\<close>.\<close>

theorem spread_pnl_within_width:
  assumes "get_return_info_series cs i j cur = Inr sr" and "get_return_info_series cs i j cur' = Inr sr'"
    and "\<not> c_is_long (cs_call_1 cs)" and "c_is_long (cs_call_2 cs)"
    and "sr_strike_1 sr = Some K1" and "sr_strike_2 sr = Some K2" and "K2 \<le> K1"
    and "sr_net_per_call sr = Some n" and "sr_net_per_call sr' = Some n'"
  shows "\<bar>n - n'\<bar> \<le> K1 - K2"
proof -
  from get_return_info_series_Inr [OF assms(1)] obtain r1 r2 where
    i1: "iloc (call_info_df (cs_call_1 cs)) i = Inr r1" and i2: "iloc (call_info_df (cs_call_2 cs)) j = Inr r2"
    and s1: "sr_strike_1 sr = cr_strike r1" and s2: "sr_strike_2 sr = cr_strike r2"
    and sn: "sr_net_per_call sr = lift2 (+) (call_return (c_is_long (cs_call_1 cs)) r1 cur)
                                    (call_return (c_is_long (cs_call_2 cs)) r2 cur)" by blast
  have k: "cr_strike r1 = Some K1" "cr_strike r2 = Some K2" using s1 s2 assms(5,6) by simp_all
  have n: "lift2 (+) (call_return False r1 cur) (call_return True r2 cur) = Some n"
    using sn assms(3,4,8) by simp
  have n': "lift2 (+) (call_return False r1 cur') (call_return True r2 cur') = Some n'"
    using get_return_info_series_Inr [OF assms(2)] assms(3,4,9) i1 i2 by auto
  obtain p1 p2 where p: "cr_premium r1 = Some p1" "cr_premium r2 = Some p2"
    using n by (auto elim!: lift2.elims dest!: call_return_Some_premium)
  have "n = p1 - p2 + (call_payoff K2 cur - call_payoff K1 cur)"
    using n k p by (simp add: call_return_payoff)
  moreover have "n' = p1 - p2 + (call_payoff K2 cur' - call_payoff K1 cur')"
    using n' k p by (simp add: call_return_payoff)
  ultimately show ?thesis
    using spread_gain_range [OF assms(7), of cur] spread_gain_range [OF assms(7), of cur'] by linarith
qed

lemma return_curve_empty_range:
  "price_range \<le> 0 \<Longrightarrow> return_curve cs price_range index is_percent = Inl NameError"
  by (simp add: return_curve_def Let_def)


lemma round_half_even_down: "of_int n \<le> y \<Longrightarrow> y < of_int n + 1 / 2 \<Longrightarrow> round_half_even y = n"
proof -
  assume a: "of_int n \<le> y" "y < of_int n + 1 / 2"
  then have "\<lfloor>y\<rfloor> = n" by (simp add: floor_eq_iff)
  with a show ?thesis by (simp add: round_half_even_def Let_def)
qed

lemma round_half_even_up: "of_int n - 1 / 2 < y \<Longrightarrow> y < of_int n \<Longrightarrow> round_half_even y = n"
proof -
  assume a: "of_int n - 1 / 2 < y" "y < of_int n"
  then have "\<lfloor>y\<rfloor> = n - 1" by (simp add: floor_eq_iff)
  with a show ?thesis by (simp add: round_half_even_def Let_def)
qed

text \<open>The script of Call_Spread.py at a new price of 300:
  the short 280 call with each long call (250, 240, 230) nets 2300, 2000 and
  1500 on capital 1700, 3000 and 4500, returns on capital of 135.29, 66.67 and
  33.33 percent.\<close>

theorem ba_pmcc_scenario:
  "\<exists>rs. ba_df_return_info today = Inr rs \<and> map sr_net rs = [Some 2300, Some 2000, Some 1500] \<and>
     map sr_capital rs = [Some 1700, Some 3000, Some 4500] \<and>
     map sr_roi rs = [Some (13529 / 100), Some (6667 / 100), Some (3333 / 100)]"
proof -
  have "round_half_even (2300 / 1700 * 100 * 100) = 13529"
    by (rule round_half_even_down) simp_all
  moreover have "round_half_even (2000 / 3000 * 100 * 100) = 6667"
    by (rule round_half_even_up) simp_all
  moreover have "round_half_even (1500 / 4500 * 100 * 100) = 3333"
    by (rule round_half_even_down) simp_all
  ultimately show ?thesis
    by (simp add: ba_df_return_info_def BA_PMCC_def ba_short_call_info_def ba_long_call_info_def
        Call_init_def build_call_info_df_def get_temp_df_def call_row_of_def create_breakeven_information_def
        Call_Spread_init_def build_call_spread_info_df_def index_pairs_def spread_info_at_def
        get_general_spread_info_series_def get_call_1_info_series_def get_call_2_info_series_def
        get_n_percent_change_call_spread_risk_series_def get_return_info_series_def get_return_info_df_def
        call_return_def get_call_spread_return_info_df_def pd_concat_def round2_def nan_div_def Let_def iloc_def)
qed


theorem spread_pnl_within_width_witness:
  "\<exists>cs sr sr'. BA_PMCC 0 = Inr cs \<and> get_return_info_series cs 0 0 300 = Inr sr \<and>
     get_return_info_series cs 0 0 250 = Inr sr' \<and>
     \<bar>the (sr_net_per_call sr) - the (sr_net_per_call sr')\<bar> \<le> 30"
proof -
  have "\<exists>cs sr sr'. BA_PMCC 0 = Inr cs \<and> get_return_info_series cs 0 0 300 = Inr sr \<and>
      get_return_info_series cs 0 0 250 = Inr sr' \<and> \<not> c_is_long (cs_call_1 cs) \<and> c_is_long (cs_call_2 cs) \<and>
      sr_strike_1 sr = Some 280 \<and> sr_strike_2 sr = Some 250 \<and>
      sr_net_per_call sr = Some 23 \<and> sr_net_per_call sr' = Some (- 7)"
    by (simp add: BA_PMCC_def ba_short_call_info_def ba_long_call_info_def call_eval_simps
        Call_Spread_init_def build_call_spread_info_df_def index_pairs_def spread_info_at_def
        get_general_spread_info_series_def get_call_1_info_series_def get_call_2_info_series_def
        get_n_percent_change_call_spread_risk_series_def get_return_info_series_def pd_concat_def iloc_def)
  then obtain cs sr sr' where b: "BA_PMCC 0 = Inr cs" and r: "get_return_info_series cs 0 0 300 = Inr sr"
    and r': "get_return_info_series cs 0 0 250 = Inr sr'" and l: "\<not> c_is_long (cs_call_1 cs)" "c_is_long (cs_call_2 cs)"
    and k: "sr_strike_1 sr = Some 280" "sr_strike_2 sr = Some 250"
    and n: "sr_net_per_call sr = Some 23" "sr_net_per_call sr' = Some (- 7)" by blast
  from spread_pnl_within_width [OF r r' l k _ n] b r r' n show ?thesis by simp
qed

end
