(* ===== verification/Sharpe_Scripts.thy ===== *)
theory Sharpe_Scripts
  imports Portfolio_Stats Options_Call
begin

text \<open>
  The Sharpe ratios of the standalone script Sharpe.py: \<open>annualised_sharpe\<close>
  over a return series, \<open>equity_sharpe\<close> over the close prices of one
  ticker (daily excess return over a 5 percent risk-free rate) and
  \<open>market_neutral_sharpe\<close> of long the ticker and short the benchmark.
  pandas' \<open>mean\<close> and \<open>std\<close> skip NaN, and \<open>std\<close> is the sample
  standard deviation (\<open>ddof = 1\<close>), NaN for fewer than two values; a
  non-finite ratio is \<open>None\<close>. A price frame is its dates with their closes;
  the benchmark's returns are aligned on the ticker's dates. The download
  from AlphaVantage and the columns the functions add to the caller's frames
  are not modelled.
\<close>

definition sstd :: "real list \<Rightarrow> real" where
  "sstd xs = sqrt (sum_list (map (\<lambda>x. (x - mean xs)\<^sup>2) xs) / (real (length xs) - 1))"

definition annualised_sharpe :: "real option list \<Rightarrow> nat \<Rightarrow> real option" where
  "annualised_sharpe returns N =
     (let xs = valid returns in
      if length xs < 2 \<or> sstd xs = 0 then None
      else Some (sqrt (real N) * mean xs / sstd xs))"

type_synonym price_frame = "(date \<times> real) list"

definition daily_ret :: "price_frame \<Rightarrow> real option list" where
  "daily_ret t = pct_change (map (Some \<circ> snd) t)"

definition equity_sharpe :: "price_frame \<Rightarrow> real option" where
  "equity_sharpe ticker =
     (let excess_daily_ret = map (map_option (\<lambda>r. r - 0.05 / 252)) (daily_ret ticker)
      in annualised_sharpe excess_daily_ret 252)"

definition market_neutral_sharpe :: "price_frame \<Rightarrow> price_frame \<Rightarrow> real option" where
  "market_neutral_sharpe ticker benchmark =
     (let bench = map_of (zip (map fst benchmark) (daily_ret benchmark));
          net_ret = map (\<lambda>(d, r). case (r, bench d) of
                                    (Some x, Some (Some y)) \<Rightarrow> Some ((x - y) / 2)
                                  | _ \<Rightarrow> None)
                        (zip (map fst ticker) (daily_ret ticker))
      in annualised_sharpe net_ret 252)"

section \<open>Lemmas\<close>

lemma sstd_pstd:
  assumes "2 \<le> length xs"
  shows "sstd xs = pstd xs * sqrt (real (length xs) / (real (length xs) - 1))"
proof -
  let ?S = "sum_list (map (\<lambda>x. (x - mean xs)\<^sup>2) xs)" and ?n = "real (length xs)"
  have n: "1 < ?n" using assms by simp
  have "?n \<noteq> 0" "?n - 1 \<noteq> 0" using n by linarith+
  then have "?S / (?n - 1) = ?S / ?n * (?n / (?n - 1))" by (simp add: divide_simps)
  then have "sqrt (?S / (?n - 1)) = sqrt (?S / ?n) * sqrt (?n / (?n - 1))"
    by (simp only: real_sqrt_mult)
  then show ?thesis by (simp only: sstd_def pstd_def)
qed

text \<open>C20: the two Sharpe ratios of the repository
  disagree: on the same series of at least two returns, Sharpe.py's
  \<open>annualised_sharpe\<close> (sample standard deviation) is performance.py's
  \<open>create_sharpe_ratio\<close> (population standard deviation) times
  \<open>sqrt((n - 1) / n)\<close>; both are undefined together.\<close>

theorem annualised_vs_create_sharpe:
  assumes "2 \<le> length (valid returns)"
  shows "annualised_sharpe returns N =
    map_option (\<lambda>s. s * sqrt ((real (length (valid returns)) - 1) / real (length (valid returns))))
      (create_sharpe_ratio returns N)"
proof -
  let ?xs = "valid returns" let ?n = "real (length (valid returns))"
  have n: "1 < ?n" using assms by simp
  have "0 < ?n / (?n - 1)" using n by (intro divide_pos_pos; linarith)
  then have k: "0 < sqrt (?n / (?n - 1))" by (rule real_sqrt_gt_zero)
  have inv: "sqrt ((?n - 1) / ?n) = 1 / sqrt (?n / (?n - 1))"
    using n by (simp add: real_sqrt_divide)
  have ne: "?xs \<noteq> []" using assms by (cases ?xs) auto
  show ?thesis
    using assms k ne
    by (simp add: annualised_sharpe_def create_sharpe_ratio_def Let_def sstd_pstd inv)
qed

lemma sstd_scale: "sstd (map ((*) c) xs) = \<bar>c\<bar> * sstd xs"
  by (simp add: sstd_def o_def sq_dev_scale sqrt_scaled_div del: mean_scale)

lemma annualised_sharpe_scale:
  "0 < c \<Longrightarrow> annualised_sharpe (map (map_option ((*) c)) rs) N = annualised_sharpe rs N"
  by (simp add: annualised_sharpe_def Let_def valid_map_option mean_scale sstd_scale)


text \<open>The halving of the long/short return cannot change the ratio.\<close>

lemma market_neutral_halving:
  "market_neutral_sharpe ticker benchmark =
     annualised_sharpe
       (map (\<lambda>(d, r). case (r, map_of (zip (map fst benchmark) (daily_ret benchmark)) d) of
                        (Some x, Some (Some y)) \<Rightarrow> Some (x - y)
                      | _ \<Rightarrow> None)
          (zip (map fst ticker) (daily_ret ticker))) 252"
proof -
  have eq: "map (\<lambda>(d, r). case (r, map_of (zip (map fst benchmark) (daily_ret benchmark)) d) of
                        (Some x, Some (Some y)) \<Rightarrow> Some ((x - y) / 2) | _ \<Rightarrow> None)
          (zip (map fst ticker) (daily_ret ticker)) =
        map (map_option ((*) (1 / 2)))
          (map (\<lambda>(d, r). case (r, map_of (zip (map fst benchmark) (daily_ret benchmark)) d) of
                        (Some x, Some (Some y)) \<Rightarrow> Some (x - y) | _ \<Rightarrow> None)
          (zip (map fst ticker) (daily_ret ticker)))"
    by (auto split: option.splits)
  show ?thesis
    unfolding market_neutral_sharpe_def Let_def eq by (rule annualised_sharpe_scale) simp
qed

theorem annualised_vs_create_sharpe_witness:
  "annualised_sharpe [None, Some 1, Some 3] 252 =
     map_option (\<lambda>s. s * sqrt (1 / 2)) (create_sharpe_ratio [None, Some 1, Some 3] 252)"
  using annualised_vs_create_sharpe [of "[None, Some 1, Some 3]" 252] by (simp add: valid_def)

end
