(* ===== verification/Cont_Futures.thy ===== *)
theory Cont_Futures
  imports Prelude
begin

text \<open>
  \<open>futures_rollover_weights\<close> of Cont_Futures.py and the continuous
  contract its script builds. Dates are days since 1970-01-01 (a Thursday), so
  the weekday with Monday 0 is \<open>(d + 3) mod 7\<close> and the business days of
  \<open>freq='B'\<close> are weekdays 0 to 4 (no holiday calendar, as in pandas).
  \<open>ex_date - BDay()\<close> is the last business day before \<open>ex_date\<close>.
  The weight DataFrame is its index, its columns and its cells
  (\<open>None\<close> a NaN); \<open>.loc\<close> with a label slice selects the index dates
  between the bounds, \<open>.loc\<close> with a list of labels raises \<open>KeyError\<close>
  when one is missing, and assigning to a column that does not exist adds it,
  NaN elsewhere. \<open>expiry_dates.iteritems()\<close> is taken as in pandas 1.x,
  where it exists. The Quandl download is not modelled.
\<close>

section \<open>Business days\<close>

definition is_bday :: "date \<Rightarrow> bool" where
  "is_bday d = ((d + 3) mod 7 < 5)"

definition bdate_range :: "date \<Rightarrow> date \<Rightarrow> date list" where
  "bdate_range a b = filter is_bday [a..b]"

definition prev_bday :: "date \<Rightarrow> date" where
  "prev_bday d = (if is_bday (d - 1) then d - 1 else if is_bday (d - 2) then d - 2 else d - 3)"

text \<open>\<open>pd.date_range(end=e, periods=n, freq='B')\<close> for a business day \<open>e\<close>.\<close>

fun bdays_back :: "date \<Rightarrow> nat \<Rightarrow> date list" where
  "bdays_back e 0 = []"
| "bdays_back e (Suc n) = bdays_back (prev_bday e) n @ [e]"

definition linspace :: "nat \<Rightarrow> real list" where
  "linspace k = (if k = 0 then [0] else map (\<lambda>j. real j / real k) [0..<k + 1])"

section \<open>The weight DataFrame\<close>

record roll_weights =
  rw_index :: "date list"
  rw_columns :: "string list"
  rw_val :: "date \<Rightarrow> string \<Rightarrow> real option"

definition rw_zeros :: "date list \<Rightarrow> string list \<Rightarrow> roll_weights" where
  "rw_zeros dates contracts = \<lparr>rw_index = dates, rw_columns = contracts, rw_val = (\<lambda>d c. Some 0)\<rparr>"

definition enlarge :: "roll_weights \<Rightarrow> string \<Rightarrow> roll_weights" where
  "enlarge rw c =
     (if c \<in> set (rw_columns rw) then rw
      else rw\<lparr>rw_columns := rw_columns rw @ [c], rw_val := (\<lambda>d c'. if c' = c then None else rw_val rw d c')\<rparr>)"

definition set_rows :: "roll_weights \<Rightarrow> date list \<Rightarrow> string \<Rightarrow> real list \<Rightarrow> roll_weights" where
  "set_rows rw rows c vals =
     (let rw' = enlarge rw c
      in rw'\<lparr>rw_val := (\<lambda>d c'. if c' = c then (case map_of (zip rows vals) d of Some v \<Rightarrow> Some v | None \<Rightarrow> rw_val rw' d c')
                               else rw_val rw' d c')\<rparr>)"

definition loc_slice :: "roll_weights \<Rightarrow> date \<Rightarrow> date option \<Rightarrow> string \<Rightarrow> real \<Rightarrow> roll_weights" where
  "loc_slice rw lo hi c v =
     (let rows = filter (\<lambda>d. lo \<le> d \<and> (case hi of None \<Rightarrow> True | Some h \<Rightarrow> d \<le> h)) (rw_index rw)
      in set_rows rw rows c (replicate (length rows) v))"

definition loc_list :: "roll_weights \<Rightarrow> date list \<Rightarrow> string \<Rightarrow> real list \<Rightarrow> roll_weights result" where
  "loc_list rw rows c vals =
     (if set rows \<subseteq> set (rw_index rw) then Inr (set_rows rw rows c vals) else Inl KeyError)"

section \<open>The rollover weights\<close>

text \<open>The loop over the contracts in expiry order; \<open>prev\<close> is
  \<open>prev_date\<close>, and the contract after the current one is
  \<open>expiry_dates.index[i + 1]\<close>.\<close>

fun roll_loop :: "nat \<Rightarrow> roll_weights \<Rightarrow> date \<Rightarrow> (string \<times> date) list \<Rightarrow> roll_weights result" where
  "roll_loop k rw prev [] = Inr rw"
| "roll_loop k rw prev [(item, ex)] = Inr (loc_slice rw prev None item 1)"
| "roll_loop k rw prev ((item, ex) # (nxt, ex2) # rest) =
     (let e' = prev_bday ex;
          rw1 = loc_slice rw prev (Some e') item 1;
          roll_rng = bdays_back e' (k + 1);
          decay_weights = linspace k
      in rbind (loc_list rw1 roll_rng item (map (\<lambda>w. 1 - w) decay_weights)) (\<lambda>rw2.
         rbind (loc_list rw2 roll_rng nxt decay_weights) (\<lambda>rw3.
           roll_loop k rw3 ex ((nxt, ex2) # rest))))"

definition futures_rollover_weights ::
  "date \<Rightarrow> (string \<times> date) list \<Rightarrow> string list \<Rightarrow> nat \<Rightarrow> roll_weights result" where
  "futures_rollover_weights start_date expiry_dates contracts rollover_days =
     (if expiry_dates = [] then Inl IndexError
      else
        (let dates = bdate_range start_date (snd (last expiry_dates))
         in if dates = [] then Inl IndexError
            else roll_loop rollover_days (rw_zeros dates contracts) (hd dates) expiry_dates))"

section \<open>The continuous contract\<close>

text \<open>\<open>(cme * weights).sum(axis=1).dropna()\<close>: the product aligns both
  frames on the union of their dates and columns (NaN where either is
  missing) and the row sum skips NaN, so a row of NaN sums to 0 and
  \<open>dropna\<close> drops nothing. A price frame is its dates with the settle price
  of each contract.\<close>

type_synonym settle_frame = "(date \<times> (string \<rightharpoonup> real)) list"

definition weight_at :: "roll_weights \<Rightarrow> date \<Rightarrow> string \<Rightarrow> real option" where
  "weight_at rw d c = (if d \<in> set (rw_index rw) \<and> c \<in> set (rw_columns rw) then rw_val rw d c else None)"

definition cell_product :: "settle_frame \<Rightarrow> roll_weights \<Rightarrow> date \<Rightarrow> string \<Rightarrow> real option" where
  "cell_product cme rw d c =
     (case (case map_of cme d of Some row \<Rightarrow> row c | None \<Rightarrow> None, weight_at rw d c) of
        (Some p, Some w) \<Rightarrow> Some (p * w)
      | _ \<Rightarrow> None)"

definition sum_skipna :: "real option list \<Rightarrow> real" where
  "sum_skipna xs = sum_list [x. Some x \<leftarrow> xs]"

definition continuous_series :: "settle_frame \<Rightarrow> string list \<Rightarrow> roll_weights \<Rightarrow> (date \<times> real) list" where
  "continuous_series cme cols rw =
     map (\<lambda>d. (d, sum_skipna (map (cell_product cme rw d) (remdups (cols @ rw_columns rw)))))
         (sort (remdups (map fst cme @ rw_index rw)))"

definition weights_in_unit :: "roll_weights \<Rightarrow> bool" where
  "weights_in_unit rw = (\<forall>d c w. rw_val rw d c = Some w \<longrightarrow> 0 \<le> w \<and> w \<le> 1)"

section \<open>Lemmas\<close>

lemma map_of_zip_val: "map_of (zip xs ys) k = Some v \<Longrightarrow> v \<in> set ys"
  by (metis map_of_SomeD set_zip_rightD)

lemma weights_in_unit_set_rows:
  "weights_in_unit rw \<Longrightarrow> \<forall>v\<in>set vals. 0 \<le> v \<and> v \<le> 1 \<Longrightarrow> weights_in_unit (set_rows rw rows c vals)"
  by (auto simp: weights_in_unit_def set_rows_def enlarge_def Let_def dest!: map_of_zip_val
      split: option.splits if_splits)

lemma linspace_unit: "v \<in> set (linspace k) \<Longrightarrow> 0 \<le> v \<and> v \<le> 1"
  by (auto simp: linspace_def split: if_splits)

lemma weights_in_unit_loc_slice: "weights_in_unit rw \<Longrightarrow> weights_in_unit (loc_slice rw lo hi c 1)"
  by (simp add: loc_slice_def Let_def weights_in_unit_set_rows)

lemma weights_in_unit_loc_list:
  "loc_list rw rows c vals = Inr rw' \<Longrightarrow> weights_in_unit rw \<Longrightarrow> \<forall>v\<in>set vals. 0 \<le> v \<and> v \<le> 1 \<Longrightarrow>
   weights_in_unit rw'"
  by (auto simp: loc_list_def weights_in_unit_set_rows split: if_splits)

lemma roll_loop_unit:
  "roll_loop k rw prev ex = Inr rw' \<Longrightarrow> weights_in_unit rw \<Longrightarrow> weights_in_unit rw'"
proof (induction k rw prev ex arbitrary: rw' rule: roll_loop.induct)
  case (3 k rw prev item ex nxt ex2 rest)
  from "3.prems"(1) obtain rw2 rw3 where
    l2: "loc_list (loc_slice rw prev (Some (prev_bday ex)) item 1) (bdays_back (prev_bday ex) (k + 1)) item
           (map (\<lambda>w. 1 - w) (linspace k)) = Inr rw2"
    and l3: "loc_list rw2 (bdays_back (prev_bday ex) (k + 1)) nxt (linspace k) = Inr rw3"
    and r: "roll_loop k rw3 ex ((nxt, ex2) # rest) = Inr rw'"
    by (auto simp: Let_def rbind_eq_Inr)
  have "weights_in_unit rw2"
    using weights_in_unit_loc_list [OF l2 weights_in_unit_loc_slice [OF "3.prems"(2)]] linspace_unit
    by fastforce
  then have "weights_in_unit rw3"
    using weights_in_unit_loc_list [OF l3] linspace_unit by blast
  then show ?case using "3.IH" [OF refl refl refl refl l2 l3 r] by blast
qed (auto simp: weights_in_unit_loc_slice)

text \<open>C23: every weight the function returns lies
  between 0 and 1, whatever the expiries and the rollover length.\<close>

theorem rollover_weights_in_unit:
  "futures_rollover_weights start_date expiry_dates contracts k = Inr rw \<Longrightarrow> rw_val rw d c = Some w \<Longrightarrow>
   0 \<le> w \<and> w \<le> 1"
  using roll_loop_unit [of k "rw_zeros _ contracts"]
  by (auto simp: futures_rollover_weights_def Let_def weights_in_unit_def rw_zeros_def split: if_splits)


lemma rw_index_set_rows [simp]: "rw_index (set_rows rw rows c vals) = rw_index rw"
  by (simp add: set_rows_def enlarge_def Let_def)

lemma rw_index_loc_slice [simp]: "rw_index (loc_slice rw lo hi c v) = rw_index rw"
  by (simp add: loc_slice_def Let_def)

lemma bdate_range_ge: "d \<in> set (bdate_range a b) \<Longrightarrow> a \<le> d"
  by (simp add: bdate_range_def)

text \<open>C24: when the roll window of the first
  contract (the \<open>rollover_days + 1\<close> business days before its expiry)
  reaches before the start date, \<open>.loc\<close> with those dates raises
  \<open>KeyError\<close>: the code cannot roll a contract that expires within the
  rollover period of the start.\<close>

theorem rollover_window_before_start:
  assumes "bdate_range start_date (snd (last ((item, ex) # (nxt, ex2) # rest))) \<noteq> []"
    and "d \<in> set (bdays_back (prev_bday ex) (Suc k))" and "d < start_date"
  shows "futures_rollover_weights start_date ((item, ex) # (nxt, ex2) # rest) contracts k = Inl KeyError"
proof -
  let ?dates = "bdate_range start_date (snd (last ((item, ex) # (nxt, ex2) # rest)))"
  let ?rng = "bdays_back (prev_bday ex) (Suc k)"
  have "d \<notin> set ?dates" using assms(3) bdate_range_ge by fastforce
  then have ns: "\<not> set ?rng \<subseteq> set ?dates" using assms(2) by blast
  have "loc_list (loc_slice (rw_zeros ?dates contracts) (hd ?dates) (Some (prev_bday ex)) item 1) ?rng item
          (map (\<lambda>w. 1 - w) (linspace k)) = Inl KeyError"
    using ns by (simp add: loc_list_def rw_zeros_def del: bdays_back.simps)
  with assms(1) show ?thesis
    by (simp add: futures_rollover_weights_def Let_def del: bdays_back.simps)
qed

lemma sum_skipna_None: "\<forall>x\<in>set xs. x = None \<Longrightarrow> sum_skipna xs = 0"
  by (induction xs) (auto simp: sum_skipna_def)

text \<open>C25: a business day of the weight
  index with no settle prices (an exchange holiday, or a date outside the
  downloaded data) gets the value 0 in the continuous contract instead of
  being dropped: the row sum skips NaN and \<open>dropna\<close> finds none.\<close>

theorem continuous_series_missing_price_zero:
  assumes "d \<in> set (rw_index rw)" and "map_of cme d = None"
  shows "(d, 0) \<in> set (continuous_series cme cols rw)"
proof -
  have "d \<in> set (sort (remdups (map fst cme @ rw_index rw)))" using assms(1) by simp
  moreover have "sum_skipna (map (cell_product cme rw d) (remdups (cols @ rw_columns rw))) = 0"
    using assms(2) by (intro sum_skipna_None) (simp add: cell_product_def)
  ultimately show ?thesis unfolding continuous_series_def by force
qed


lemma cl_weights_eval:
  "case futures_rollover_weights 18323 [(''CL1'', 18342), (''CL2'', 18363)] [''CL1'', ''CL2''] 5 of
     Inl e \<Rightarrow> False | Inr rw \<Rightarrow> rw_val rw 18337 ''CL2'' = Some (1 / 5)"
  by code_simp

lemma cl_index_eval:
  "case futures_rollover_weights 18323 [(''CL1'', 18342), (''CL2'', 18363)] [''CL1'', ''CL2''] 5 of
     Inl e \<Rightarrow> False | Inr rw \<Rightarrow> 18337 \<in> set (rw_index rw)"
  by code_simp

text \<open>The script's WTI contracts CL1 and CL2 expiring
  on Saturday 2020-03-21 and 2020-04-11, from Monday 2020-03-02 with a 5-day
  rollover: on Monday 2020-03-16 the weights are 0.8 and 0.2, and on every
  date of the index the two weights add up to 1.\<close>

theorem cl_rollover_scenario:
  "(case futures_rollover_weights 18323 [(''CL1'', 18342), (''CL2'', 18363)] [''CL1'', ''CL2''] 5 of
      Inl e \<Rightarrow> False
    | Inr rw \<Rightarrow> rw_val rw 18337 ''CL1'' = Some (4 / 5) \<and> rw_val rw 18337 ''CL2'' = Some (1 / 5) \<and>
        list_all (\<lambda>d. case (rw_val rw d ''CL1'', rw_val rw d ''CL2'') of
                     (Some a, Some b) \<Rightarrow> a + b = 1 | _ \<Rightarrow> False) (rw_index rw))"
  by code_simp

theorem rollover_weights_in_unit_witness:
  "\<exists>rw. futures_rollover_weights 18323 [(''CL1'', 18342), (''CL2'', 18363)] [''CL1'', ''CL2''] 5 = Inr rw \<and>
     0 \<le> the (rw_val rw 18337 ''CL2'') \<and> the (rw_val rw 18337 ''CL2'') \<le> 1"
proof -
  obtain rw where r: "futures_rollover_weights 18323 [(''CL1'', 18342), (''CL2'', 18363)] [''CL1'', ''CL2''] 5 = Inr rw"
    and v: "rw_val rw 18337 ''CL2'' = Some (1 / 5)"
    using cl_weights_eval by (auto split: sum.splits)
  from rollover_weights_in_unit [OF r v] r v show ?thesis by auto
qed

theorem rollover_window_before_start_witness:
  "futures_rollover_weights 18340 [(''CL1'', 18342), (''CL2'', 18363)] [''CL1'', ''CL2''] 5 = Inl KeyError"
  using rollover_window_before_start [of 18340 "''CL1''" 18342 "''CL2''" 18363 "[]" 18334 5 "[''CL1'', ''CL2'']"]
  by (simp add: bdate_range_def is_bday_def upto.simps prev_bday_def numeral_eq_Suc)

theorem continuous_series_missing_price_zero_witness:
  "\<exists>rw. futures_rollover_weights 18323 [(''CL1'', 18342), (''CL2'', 18363)] [''CL1'', ''CL2''] 5 = Inr rw \<and>
     (18337, 0) \<in> set (continuous_series [(18336, [''CL1'' \<mapsto> 30, ''CL2'' \<mapsto> 31])] [''CL1'', ''CL2''] rw)"
proof -
  obtain rw where r: "futures_rollover_weights 18323 [(''CL1'', 18342), (''CL2'', 18363)] [''CL1'', ''CL2''] 5 = Inr rw"
    and i: "18337 \<in> set (rw_index rw)"
    using cl_index_eval by (auto split: sum.splits)
  have "map_of [(18336 :: date, [''CL1'' \<mapsto> 30, ''CL2'' \<mapsto> (31 :: real)])] 18337 = None" by simp
  from continuous_series_missing_price_zero [OF i this] r show ?thesis by blast
qed

end
