(* ===== verification/Pandas_Window.thy ===== *)
theory Pandas_Window
  imports Performance
begin

text \<open>
  The pandas window operations the technical indicators of
  \<open>Options/Technical_Indicators _Class.py\<close> call: \<open>Series.ewm(span, min_periods).mean()\<close>
  (with pandas' defaults \<open>adjust=True\<close>, \<open>ignore_na=False\<close>), \<open>Series.rolling(n)\<close>
  followed by \<open>mean()\<close> or \<open>std(ddof=0)\<close>, and \<open>shift(1)\<close>. The exponentially
  weighted mean is the recursion pandas runs (\<open>ewm_step\<close>: the running average, the
  accumulated weight \<open>old_wt\<close> and the count of observations); \<open>ewm_ref\<close> is the
  weighted average the pandas documentation gives, with weight \<open>(1 - alpha)^(t - i)\<close>
  on every observation \<open>i \<le> t\<close>. The lemmas show the recursion computes it, where a
  row is defined, and that it stays within the range of the observations.
\<close>

record ewm_state =
  weighted :: "real option"
  old_wt :: real
  nobs :: nat

definition ewm_init :: ewm_state where
  "ewm_init = \<lparr>weighted = None, old_wt = 1, nobs = 0\<rparr>"

definition ewm_step :: "real \<Rightarrow> ewm_state \<Rightarrow> real option \<Rightarrow> ewm_state" where
  "ewm_step alpha st cur =
     (let nobs' = nobs st + (case cur of None \<Rightarrow> 0 | Some _ \<Rightarrow> 1) in
      case weighted st of
        Some w \<Rightarrow>
          (let ow = old_wt st * (1 - alpha) in
           case cur of
             None \<Rightarrow> st\<lparr>old_wt := ow, nobs := nobs'\<rparr>
           | Some c \<Rightarrow> st\<lparr>weighted := Some (if w \<noteq> c then (ow * w + c) / (ow + 1) else w),
                           old_wt := ow + 1, nobs := nobs'\<rparr>)
      | None \<Rightarrow> (case cur of None \<Rightarrow> st | Some c \<Rightarrow> st\<lparr>weighted := Some c, nobs := nobs'\<rparr>))"

definition ewm_out :: "nat \<Rightarrow> ewm_state \<Rightarrow> real option" where
  "ewm_out minp st = (if minp \<le> nobs st then weighted st else None)"

fun ewm_scan :: "real \<Rightarrow> nat \<Rightarrow> ewm_state \<Rightarrow> real option list \<Rightarrow> real option list" where
  "ewm_scan alpha minp st [] = []"
| "ewm_scan alpha minp st (c # cs) =
     (let st' = ewm_step alpha st c in ewm_out minp st' # ewm_scan alpha minp st' cs)"

definition ewm_alpha :: "nat \<Rightarrow> real" where
  "ewm_alpha sp = 2 / (real sp + 1)"

definition ewm_mean :: "nat \<Rightarrow> nat \<Rightarrow> real option list \<Rightarrow> real option list" where
  "ewm_mean sp min_periods xs = ewm_scan (ewm_alpha sp) (max min_periods 1) ewm_init xs"

definition ewm_num :: "real \<Rightarrow> real option list \<Rightarrow> real" where
  "ewm_num f xs = (\<Sum>i\<leftarrow>[0..<length xs]. case xs ! i of None \<Rightarrow> 0 | Some x \<Rightarrow> f ^ (length xs - 1 - i) * x)"

definition ewm_den :: "real \<Rightarrow> real option list \<Rightarrow> real" where
  "ewm_den f xs = (\<Sum>i\<leftarrow>[0..<length xs]. case xs ! i of None \<Rightarrow> 0 | Some x \<Rightarrow> f ^ (length xs - 1 - i))"

definition ewm_ref :: "real \<Rightarrow> real option list \<Rightarrow> real option" where
  "ewm_ref alpha xs =
     (if valid xs = [] then None else Some (ewm_num (1 - alpha) xs / ewm_den (1 - alpha) xs))"

definition in_band :: "real \<Rightarrow> real \<Rightarrow> real option \<Rightarrow> bool" where
  "in_band lo hi v = (case v of None \<Rightarrow> True | Some x \<Rightarrow> lo \<le> x \<and> x \<le> hi)"

text \<open>\<open>Series.rolling(n)\<close> with its default \<open>min_periods = n\<close>: the window of a
  row is the row and the \<open>n - 1\<close> rows before it; the aggregate is NaN when the window
  holds fewer than \<open>n\<close> values that are not NaN (also for the first \<open>n - 1\<close> rows).\<close>

definition rolling_window :: "nat \<Rightarrow> 'a list \<Rightarrow> nat \<Rightarrow> 'a list" where
  "rolling_window n xs i = drop (Suc i - n) (take (Suc i) xs)"

definition rolling_agg :: "(real list \<Rightarrow> real) \<Rightarrow> nat \<Rightarrow> real option list \<Rightarrow> real option list" where
  "rolling_agg g n xs =
     map (\<lambda>i. let w = valid (rolling_window n xs i) in if length w < n then None else Some (g w))
       [0..<length xs]"

definition rolling_mean :: "nat \<Rightarrow> real option list \<Rightarrow> real option list" where
  "rolling_mean n xs = rolling_agg mean n xs"

text \<open>\<open>rolling(m).std(ddof=0)\<close>: the population standard deviation of the window.\<close>

definition rolling_std :: "nat \<Rightarrow> real option list \<Rightarrow> real option list" where
  "rolling_std n xs = rolling_agg pstd n xs"

text \<open>\<open>Series.shift(1)\<close>: every value moves one row down, the first row becomes NaN.\<close>

definition shift1 :: "'a option list \<Rightarrow> 'a option list" where
  "shift1 xs = take (length xs) (None # xs)"

text \<open>The closed form of \<open>ewm(span=sp, min_periods=sp).mean()\<close>: at each row the
  weighted average of the observations up to the row, NaN while fewer than \<open>sp\<close>
  of them are not NaN.\<close>

definition ewm_ref_series :: "nat \<Rightarrow> real option list \<Rightarrow> real option list" where
  "ewm_ref_series sp xs =
     map (\<lambda>i. if sp \<le> length (valid (take (Suc i) xs)) then ewm_ref (ewm_alpha sp) (take (Suc i) xs) else None)
       [0..<length xs]"

section \<open>The recursion computes the weighted average\<close>

lemma sum_snoc_shift:
  fixes g :: "real option \<Rightarrow> nat \<Rightarrow> real"
  assumes "\<And>v k. g v (Suc k) = f * g v k"
  shows "(\<Sum>i\<leftarrow>[0..<length (xs @ [c])]. g ((xs @ [c]) ! i) (length (xs @ [c]) - 1 - i)) =
         f * (\<Sum>i\<leftarrow>[0..<length xs]. g (xs ! i) (length xs - 1 - i)) + g c 0"
proof -
  let ?n = "length xs"
  have "(\<Sum>i\<leftarrow>[0..<length (xs @ [c])]. g ((xs @ [c]) ! i) (length (xs @ [c]) - 1 - i)) =
        (\<Sum>i\<leftarrow>[0..<?n]. g ((xs @ [c]) ! i) (?n - i)) + g c 0"
    by simp
  also have "map (\<lambda>i. g ((xs @ [c]) ! i) (?n - i)) [0..<?n] =
        map (\<lambda>i. f * g (xs ! i) (?n - 1 - i)) [0..<?n]"
  proof (rule map_cong [OF refl])
    fix i assume "i \<in> set [0..<?n]"
    then have "i < ?n" by simp
    then have "?n - i = Suc (?n - 1 - i)" by simp
    then show "g ((xs @ [c]) ! i) (?n - i) = f * g (xs ! i) (?n - 1 - i)"
      using \<open>i < ?n\<close> by (simp add: nth_append assms)
  qed
  finally show ?thesis by (simp add: sum_list_const_mult)
qed

lemma ewm_num_snoc:
  "ewm_num f (xs @ [c]) = f * ewm_num f xs + (case c of None \<Rightarrow> 0 | Some x \<Rightarrow> x)"
proof -
  have "\<And>v k. (case v of None \<Rightarrow> 0 | Some x \<Rightarrow> f ^ Suc k * x) =
      f * (case v of None \<Rightarrow> 0 | Some x \<Rightarrow> f ^ k * (x::real))"
    by (simp split: option.split)
  from sum_snoc_shift [of "\<lambda>v k. case v of None \<Rightarrow> 0 | Some x \<Rightarrow> f ^ k * x", OF this]
  show ?thesis by (simp add: ewm_num_def split: option.split)
qed

lemma ewm_den_snoc:
  "ewm_den f (xs @ [c]) = f * ewm_den f xs + (case c of None \<Rightarrow> 0 | Some x \<Rightarrow> 1)"
proof -
  have "\<And>v k. (case v of None \<Rightarrow> 0 | Some (x::real) \<Rightarrow> f ^ Suc k) =
      f * (case v of None \<Rightarrow> 0 | Some x \<Rightarrow> f ^ k)"
    by (simp split: option.split)
  from sum_snoc_shift [of "\<lambda>v k. case v of None \<Rightarrow> 0 | Some x \<Rightarrow> f ^ k", OF this]
  show ?thesis by (simp add: ewm_den_def split: option.split)
qed

lemma valid_snoc: "valid (xs @ [c]) = valid xs @ (case c of None \<Rightarrow> [] | Some x \<Rightarrow> [x])"
  by (simp add: valid_def split: option.split)

lemma ewm_no_obs:
  "valid xs = [] \<Longrightarrow> ewm_num f xs = 0 \<and> ewm_den f xs = 0"
proof (induction xs rule: rev_induct)
  case (snoc c xs)
  then show ?case by (cases c) (simp_all add: valid_snoc ewm_num_snoc ewm_den_snoc)
qed (simp add: ewm_num_def ewm_den_def)

lemma ewm_fold:
  assumes "alpha < 1"
  shows "nobs (foldl (ewm_step alpha) ewm_init xs) = length (valid xs) \<and>
         weighted (foldl (ewm_step alpha) ewm_init xs) = ewm_ref alpha xs \<and>
         (valid xs = [] \<longrightarrow> foldl (ewm_step alpha) ewm_init xs = ewm_init) \<and>
         (valid xs \<noteq> [] \<longrightarrow> old_wt (foldl (ewm_step alpha) ewm_init xs) = ewm_den (1 - alpha) xs \<and>
                          0 < ewm_den (1 - alpha) xs)"
proof (induction xs rule: rev_induct)
  case Nil
  then show ?case by (simp add: ewm_init_def ewm_ref_def valid_def)
next
  case (snoc c xs)
  obtain st where st: "foldl (ewm_step alpha) ewm_init xs = st" by simp
  have eq: "foldl (ewm_step alpha) ewm_init (xs @ [c]) = ewm_step alpha st c" using st by simp
  let ?f = "1 - alpha"
  have f: "0 < ?f" using assms by simp
  show ?case
  proof (cases "valid xs = []")
    case True
    then have "st = ewm_init" using snoc.IH st by simp
    then show ?thesis unfolding eq using True ewm_no_obs [OF True]
      by (auto simp: ewm_init_def ewm_step_def ewm_ref_def valid_snoc ewm_num_snoc ewm_den_snoc
          split: option.split)
  next
    case False
    then have w: "weighted st = Some (ewm_num ?f xs / ewm_den ?f xs)" and n: "nobs st = length (valid xs)"
      and o: "old_wt st = ewm_den ?f xs" and d: "0 < ewm_den ?f xs"
      using snoc.IH st by (simp_all add: ewm_ref_def)
    have d': "0 < ?f * ewm_den ?f xs" using f d by simp
    show ?thesis
    proof (cases c)
      case None
      then show ?thesis unfolding eq using False w n o d' f
        by (simp add: ewm_step_def ewm_ref_def valid_snoc ewm_num_snoc ewm_den_snoc)
    next
      case (Some x)
      have e: "(?f * ewm_den ?f xs * (ewm_num ?f xs / ewm_den ?f xs) + x) / (?f * ewm_den ?f xs + 1) =
               (?f * ewm_num ?f xs + x) / (?f * ewm_den ?f xs + 1)"
        using d by simp
      have e2: "(?f * ewm_num ?f xs + x) / (?f * ewm_den ?f xs + 1) = x"
        if "ewm_num ?f xs / ewm_den ?f xs = x"
      proof -
        have "?f * ewm_num ?f xs + x = x * (?f * ewm_den ?f xs + 1)"
          using that d by (simp add: field_simps)
        then show ?thesis using d' by simp
      qed
      show ?thesis unfolding eq using Some False w n o d' e e2
        by (auto simp: ewm_step_def ewm_ref_def valid_snoc ewm_num_snoc ewm_den_snoc Let_def)
    qed
  qed
qed

lemma ewm_scan_length [simp]: "length (ewm_scan alpha minp st xs) = length xs"
  by (induction xs arbitrary: st) (simp_all add: Let_def)

lemma ewm_scan_nth:
  "i < length xs \<Longrightarrow>
   ewm_scan alpha minp st xs ! i = ewm_out minp (foldl (ewm_step alpha) st (take (Suc i) xs))"
proof (induction xs arbitrary: st i)
  case (Cons c cs)
  then show ?case by (cases i) (simp_all add: Let_def)
qed simp

lemma ewm_alpha_lt1: "1 < sp \<Longrightarrow> ewm_alpha sp < 1"
  by (simp add: ewm_alpha_def)

text \<open>For every span above 1, the recursion pandas runs for
  \<open>ewm(span, min_periods).mean()\<close> computes at each row the weighted average of the
  documentation, with weight \<open>(1 - alpha)^(t - i)\<close> on every observation \<open>i\<close> up to
  the row, and NaN while fewer than \<open>min_periods\<close> observations have been seen.\<close>

lemma ewm_mean_equiv:
  assumes "1 < sp" and "i < length xs"
  shows "ewm_mean sp minp xs ! i =
    (if minp \<le> length (valid (take (Suc i) xs)) then ewm_ref (ewm_alpha sp) (take (Suc i) xs) else None)"
proof -
  let ?p = "take (Suc i) xs"
  have inv: "nobs (foldl (ewm_step (ewm_alpha sp)) ewm_init ?p) = length (valid ?p) \<and>
         weighted (foldl (ewm_step (ewm_alpha sp)) ewm_init ?p) = ewm_ref (ewm_alpha sp) ?p"
    using ewm_fold [OF ewm_alpha_lt1 [OF assms(1)], of ?p] by blast
  have "\<not> Suc 0 \<le> length (valid ?p) \<Longrightarrow> ewm_ref (ewm_alpha sp) ?p = None"
    by (cases "valid ?p") (simp_all add: ewm_ref_def)
  then show ?thesis using assms(2) inv
    by (auto simp: ewm_mean_def ewm_scan_nth ewm_out_def)
qed

lemma ewm_mean_ref_series:
  assumes "1 < sp" shows "ewm_mean sp sp xs = ewm_ref_series sp xs"
proof (rule nth_equalityI)
  show "length (ewm_mean sp sp xs) = length (ewm_ref_series sp xs)"
    by (simp add: ewm_mean_def ewm_ref_series_def)
next
  fix i assume "i < length (ewm_mean sp sp xs)"
  then have i: "i < length xs" by (simp add: ewm_mean_def)
  show "ewm_mean sp sp xs ! i = ewm_ref_series sp xs ! i"
    using ewm_mean_equiv [OF assms i, of sp] i by (simp add: ewm_ref_series_def)
qed

section \<open>Bounds and definedness\<close>

lemma convex_in_band:
  fixes ow w c lo hi :: real
  assumes "0 \<le> ow" "lo \<le> w" "w \<le> hi" "lo \<le> c" "c \<le> hi"
  shows "lo \<le> (ow * w + c) / (ow + 1) \<and> (ow * w + c) / (ow + 1) \<le> hi"
proof -
  have p: "0 < ow + 1" using assms(1) by simp
  have "ow * lo \<le> ow * w" "ow * w \<le> ow * hi" using assms by (simp_all add: mult_left_mono)
  then have "lo * (ow + 1) \<le> ow * w + c" "ow * w + c \<le> hi * (ow + 1)"
    using assms by (simp_all add: algebra_simps)
  then show ?thesis using p by (simp add: divide_simps)
qed

lemma ewm_step_in_band:
  assumes "in_band lo hi (weighted st)" "0 \<le> old_wt st" "in_band lo hi cur" "0 \<le> alpha" "alpha \<le> 1"
  shows "in_band lo hi (weighted (ewm_step alpha st cur)) \<and> 0 \<le> old_wt (ewm_step alpha st cur)"
proof -
  have ow: "0 \<le> old_wt st * (1 - alpha)" using assms by simp
  show ?thesis
  proof (cases "weighted st")
    case None
    then show ?thesis using assms by (cases cur) (simp_all add: ewm_step_def in_band_def)
  next
    case (Some w)
    show ?thesis
    proof (cases cur)
      case None
      then show ?thesis using Some assms ow by (simp add: ewm_step_def in_band_def)
    next
      case (Some c)
      then have "lo \<le> w" "w \<le> hi" "lo \<le> c" "c \<le> hi"
        using \<open>weighted st = Some w\<close> assms(1,3) by (simp_all add: in_band_def)
      from convex_in_band [OF ow this] show ?thesis
        using Some \<open>weighted st = Some w\<close> ow \<open>lo \<le> w\<close> \<open>w \<le> hi\<close>
        by (simp add: ewm_step_def in_band_def Let_def)
    qed
  qed
qed

lemma ewm_scan_in_band:
  assumes "0 \<le> alpha" "alpha \<le> 1"
  shows "in_band lo hi (weighted st) \<Longrightarrow> 0 \<le> old_wt st \<Longrightarrow> \<forall>v \<in> set xs. in_band lo hi v \<Longrightarrow>
    \<forall>v \<in> set (ewm_scan alpha minp st xs). in_band lo hi v"
proof (induction xs arbitrary: st)
  case (Cons c cs)
  have c: "in_band lo hi c" using Cons.prems(3) by simp
  have s: "in_band lo hi (weighted (ewm_step alpha st c)) \<and> 0 \<le> old_wt (ewm_step alpha st c)"
    using ewm_step_in_band [OF Cons.prems(1,2) c assms] .
  have "\<forall>v \<in> set (ewm_scan alpha minp (ewm_step alpha st c) cs). in_band lo hi v"
    using Cons.IH [OF conjunct1 [OF s] conjunct2 [OF s]] Cons.prems(3) by simp
  moreover have "in_band lo hi (ewm_out minp (ewm_step alpha st c))"
    using s by (simp add: ewm_out_def in_band_def)
  ultimately show ?case by (simp add: Let_def)
qed simp

text \<open>Every value \<open>ewm(span, min_periods).mean()\<close> produces lies
  between bounds that hold for all the observations of the series.\<close>

lemma ewm_mean_bounds:
  assumes "1 \<le> sp" and "\<forall>x \<in> set (valid xs). lo \<le> x \<and> x \<le> hi" and "Some v \<in> set (ewm_mean sp minp xs)"
  shows "lo \<le> v \<and> v \<le> hi"
proof -
  have a: "0 \<le> ewm_alpha sp" "ewm_alpha sp \<le> 1" using assms(1) by (simp_all add: ewm_alpha_def)
  have x: "\<forall>v \<in> set xs. in_band lo hi v"
  proof
    fix u assume "u \<in> set xs"
    then show "in_band lo hi u" using assms(2) by (auto simp: in_band_def set_valid split: option.split)
  qed
  have i: "in_band lo hi (weighted ewm_init)" "0 \<le> old_wt ewm_init" by (simp_all add: ewm_init_def in_band_def)
  have "\<forall>u \<in> set (ewm_mean sp minp xs). in_band lo hi u"
    unfolding ewm_mean_def using ewm_scan_in_band [OF a i x] .
  then have "in_band lo hi (Some v)" using assms(3) by blast
  then show ?thesis by (simp add: in_band_def)
qed

lemma ewm_step_count:
  "nobs (ewm_step alpha st c) = nobs st + (case c of None \<Rightarrow> 0 | Some _ \<Rightarrow> 1) \<and>
   (weighted (ewm_step alpha st c) = None) = (weighted st = None \<and> c = None)"
  by (cases c; cases "weighted st") (simp_all add: ewm_step_def Let_def)

lemma ewm_fold_count:
  "nobs (foldl (ewm_step alpha) st xs) = nobs st + length (valid xs) \<and>
   (weighted (foldl (ewm_step alpha) st xs) = None) = (weighted st = None \<and> valid xs = [])"
proof (induction xs arbitrary: st)
  case (Cons c cs)
  then show ?case using ewm_step_count [of alpha st c] by (cases c) simp_all
qed simp

text \<open>For every span, a row of \<open>ewm(span, min_periods).mean()\<close> is a number exactly when
  at least \<open>max min_periods 1\<close> values up to it are not NaN.\<close>

lemma ewm_mean_defined:
  "i < length xs \<Longrightarrow>
   (ewm_mean sp minp xs ! i \<noteq> None) = (max minp 1 \<le> length (valid (take (Suc i) xs)))"
  using ewm_fold_count [of "ewm_alpha sp" ewm_init "take (Suc i) xs"]
  by (auto simp: ewm_mean_def ewm_scan_nth ewm_out_def ewm_init_def)

lemma rolling_agg_length [simp]: "length (rolling_agg g n xs) = length xs"
  by (simp add: rolling_agg_def)

lemma rolling_agg_nth:
  "i < length xs \<Longrightarrow> rolling_agg g n xs ! i =
     (let w = valid (rolling_window n xs i) in if length w < n then None else Some (g w))"
  by (simp add: rolling_agg_def)

lemma rolling_agg_SomeE:
  assumes "Some v \<in> set (rolling_agg g n xs)"
  obtains i where "i < length xs" "n \<le> length (valid (rolling_window n xs i))"
    "v = g (valid (rolling_window n xs i))"
  using assms by (auto simp: rolling_agg_def Let_def split: if_splits)

lemma shift1_length [simp]: "length (shift1 xs) = length xs"
  by (simp add: shift1_def)

lemma shift1_nth: "i < length xs \<Longrightarrow> shift1 xs ! i = (if i = 0 then None else xs ! (i - 1))"
  by (simp add: shift1_def nth_Cons')

section \<open>Counting and bounds on windows\<close>

lemma valid_take_count:
  assumes "\<forall>j < length xs. (xs ! j \<noteq> None) = (s \<le> j)"
  shows "n \<le> length xs \<Longrightarrow> length (valid (take n xs)) = n - s"
proof (induction n)
  case (Suc n)
  then have n: "n < length xs" by simp
  have "take (Suc n) xs = take n xs @ [xs ! n]" using n by (simp add: take_Suc_conv_app_nth)
  then show ?case using Suc n assms by (cases "xs ! n") (auto simp: valid_snoc)
qed simp

lemma pstd_nonneg: "0 \<le> pstd xs"
  unfolding pstd_def by (intro real_sqrt_ge_zero divide_nonneg_nonneg sum_list_nonneg) auto

lemma mean_nonneg: "\<forall>x \<in> set xs. 0 \<le> x \<Longrightarrow> 0 \<le> mean xs"
  by (simp add: mean_def sum_list_nonneg)

lemma valid_window_subset: "set (valid (rolling_window n xs i)) \<subseteq> set (valid xs)"
  unfolding set_valid rolling_window_def using set_drop_subset set_take_subset by fastforce

lemma rolling_mean_nonneg:
  assumes "\<forall>x \<in> set (valid xs). 0 \<le> x" and "Some v \<in> set (rolling_mean n xs)"
  shows "0 \<le> v"
proof -
  from assms(2) obtain i where "i < length xs" "n \<le> length (valid (rolling_window n xs i))"
    and v: "v = mean (valid (rolling_window n xs i))"
    unfolding rolling_mean_def by (rule rolling_agg_SomeE)
  have "set (valid (rolling_window n xs i)) \<subseteq> set (valid xs)" by (rule valid_window_subset)
  then have "\<forall>x \<in> set (valid (rolling_window n xs i)). 0 \<le> x" using assms(1) by (meson subsetD)
  then show ?thesis unfolding v by (rule mean_nonneg)
qed

end
