(* ===== verification/Technical_Indicators.thy ===== *)
theory Technical_Indicators
  imports Pandas_Window Sharpe_Scripts
begin

text \<open>
  \<open>Options/Technical_Indicators _Class.py\<close>: the class \<open>Stock\<close>, which downloads a
  price history with a retry loop and adds daily returns, and the class
  \<open>Technical_Indicators\<close>, which derives MACD, ATR and Bollinger-band frames from it.
  A frame is a list of rows, NaN is \<open>None\<close>.
\<close>

record ohlcv =
  day :: date
  high :: "real option"
  low :: "real option"
  open_px :: "real option"
  close_px :: "real option"
  volume :: "real option"
  adj_close :: "real option"

definition row_complete :: "ohlcv \<Rightarrow> bool" where
  "row_complete r = (high r \<noteq> None \<and> low r \<noteq> None \<and> open_px r \<noteq> None \<and>
     close_px r \<noteq> None \<and> volume r \<noteq> None \<and> adj_close r \<noteq> None)"

definition dropna_rows :: "ohlcv list \<Rightarrow> ohlcv list" where
  "dropna_rows rs = filter row_complete rs"

definition fill_from :: "ohlcv \<Rightarrow> ohlcv option \<Rightarrow> ohlcv" where
  "fill_from r nxt = (case nxt of None \<Rightarrow> r | Some n \<Rightarrow>
     r\<lparr>high := (case high r of None \<Rightarrow> high n | v \<Rightarrow> v),
       low := (case low r of None \<Rightarrow> low n | v \<Rightarrow> v),
       open_px := (case open_px r of None \<Rightarrow> open_px n | v \<Rightarrow> v),
       close_px := (case close_px r of None \<Rightarrow> close_px n | v \<Rightarrow> v),
       volume := (case volume r of None \<Rightarrow> volume n | v \<Rightarrow> v),
       adj_close := (case adj_close r of None \<Rightarrow> adj_close n | v \<Rightarrow> v)\<rparr>)"

fun bfill_rows :: "ohlcv list \<Rightarrow> ohlcv list" where
  "bfill_rows [] = []"
| "bfill_rows (r # rs) = (let rs' = bfill_rows rs in fill_from r (case rs' of [] \<Rightarrow> None | n # _ \<Rightarrow> Some n) # rs')"

text \<open>\<open>pdr.get_data_yahoo\<close> is an outside service: the model takes the outcome of its
  \<open>k\<close>-th call as a parameter, a frame of rows or \<open>None\<close> when the call raises.\<close>

type_synonym download = "nat \<Rightarrow> ohlcv list option"

partial_function (option) hist_loop ::
  "download \<Rightarrow> nat \<Rightarrow> nat \<Rightarrow> ohlcv list \<Rightarrow> (nat \<times> ohlcv list) option" where
  "hist_loop dl attempt k hist =
     (if attempt < 3 then
        (case dl k of
           None \<Rightarrow> hist_loop dl attempt (Suc k) hist
         | Some temp \<Rightarrow> hist_loop dl (Suc attempt) (Suc k) (bfill_rows (dropna_rows temp)))
      else Some (k, hist))"

definition succ_count :: "download \<Rightarrow> nat \<Rightarrow> nat \<Rightarrow> nat" where
  "succ_count dl k n = length (filter (\<lambda>i. dl i \<noteq> None) [k..<k + n])"

text \<open>\<open>get_daily_returns\<close> adds the column \<open>Daily Return\<close> to the frame.\<close>

record hist_row = ohlcv +
  daily_return :: "real option"

definition get_daily_returns :: "ohlcv list \<Rightarrow> hist_row list" where
  "get_daily_returns rs =
     map2 (\<lambda>r d. ohlcv.extend r (hist_row.fields d)) rs (pct_change (map adj_close rs))"

text \<open>\<open>Stock.get_historical_price_data\<close>: the retry loop, then \<open>get_daily_returns\<close>;
  the number of download calls made is returned beside the frame.\<close>

definition get_historical_price_data :: "download \<Rightarrow> (nat \<times> hist_row list) option" where
  "get_historical_price_data dl =
     map_option (\<lambda>(k, h). (k, get_daily_returns h)) (hist_loop dl 0 0 [])"

record stock =
  ticker :: string
  stock_start :: date
  stock_end :: date
  historical_price_data :: "hist_row list"

definition Stock_init :: "download \<Rightarrow> string \<Rightarrow> date \<Rightarrow> date \<Rightarrow> stock option" where
  "Stock_init dl tk s e =
     map_option (\<lambda>(k, h). \<lparr>ticker = tk, stock_start = s, stock_end = e, historical_price_data = h\<rparr>)
       (get_historical_price_data dl)"

text \<open>\<open>Technical_Indicators.get_MACD_df\<close>: the fast and slow exponentially weighted means
  of the daily returns, their difference, its signal line, and \<open>dropna\<close> over the six
  columns of the frame.\<close>

record macd_row =
  m_day :: date
  m_return :: real
  m_adj :: real
  ma_fast :: real
  ma_slow :: real
  macd :: real
  signal_line :: real

definition get_MACD_df :: "hist_row list \<Rightarrow> nat \<Rightarrow> nat \<Rightarrow> nat \<Rightarrow> macd_row list" where
  "get_MACD_df h fast slow signal =
     (let r = map daily_return h; a = map adj_close h;
          f = ewm_mean fast fast r; s = ewm_mean slow slow r;
          m = map2 (lift2 (-)) f s; sg = ewm_mean signal signal m
      in [\<lparr>m_day = day (h ! i), m_return = the (r ! i), m_adj = the (a ! i), ma_fast = the (f ! i),
            ma_slow = the (s ! i), macd = the (m ! i), signal_line = the (sg ! i)\<rparr>.
          i \<leftarrow> [0..<length h],
          r ! i \<noteq> None \<and> a ! i \<noteq> None \<and> f ! i \<noteq> None \<and> s ! i \<noteq> None \<and> m ! i \<noteq> None \<and> sg ! i \<noteq> None])"

text \<open>\<open>get_ATR_df\<close>: the true range is the largest of \<open>|H - L|\<close>, \<open>|H - PC|\<close> and
  \<open>|L - PC|\<close> (\<open>PC\<close> the previous adjusted close), NaN when one of them is NaN
  (\<open>max(axis=1, skipna=False)\<close>); the ATR is its rolling mean over \<open>n\<close> rows.\<close>

definition true_range :: "real option \<Rightarrow> real option \<Rightarrow> real option \<Rightarrow> real option" where
  "true_range hi lo pc =
     (case (map_option abs (lift2 (-) hi lo), map_option abs (lift2 (-) hi pc),
            map_option abs (lift2 (-) lo pc)) of
        (Some a, Some b, Some c) \<Rightarrow> Some (max (max a b) c)
      | _ \<Rightarrow> None)"

record atr_row =
  a_day :: date
  atr :: "real option"
  tr :: "real option"

definition get_ATR_df :: "hist_row list \<Rightarrow> nat \<Rightarrow> atr_row list" where
  "get_ATR_df h n =
     (let pc = shift1 (map adj_close h);
          trs = map (\<lambda>i. true_range (high (h ! i)) (low (h ! i)) (pc ! i)) [0..<length h];
          atrs = rolling_mean n trs
      in map (\<lambda>i. \<lparr>a_day = day (h ! i), atr = atrs ! i, tr = trs ! i\<rparr>) [0..<length h])"

text \<open>\<open>get_BollBnd_df n m\<close>: the middle band is the rolling mean over \<open>n\<close> rows, the
  bands lie \<open>n\<close> population standard deviations over \<open>m\<close> rows above and below it,
  and \<open>dropna\<close> keeps the rows where High, Low, Adj Close and the four new columns are
  all numbers.\<close>

record bb_row =
  b_day :: date
  b_high :: real
  b_low :: real
  b_adj :: real
  ma :: real
  bb_up :: real
  bb_dn :: real
  bb_width :: real

definition get_BollBnd_df :: "hist_row list \<Rightarrow> nat \<Rightarrow> nat \<Rightarrow> bb_row list" where
  "get_BollBnd_df h n m =
     (let a = map adj_close h; mav = rolling_mean n a;
          sd = map (map_option (\<lambda>x. real n * x)) (rolling_std m a);
          up = map2 (lift2 (+)) mav sd; dn = map2 (lift2 (-)) mav sd;
          w = map2 (lift2 (-)) up dn
      in [\<lparr>b_day = day (h ! i), b_high = the (high (h ! i)), b_low = the (low (h ! i)), b_adj = the (a ! i),
            ma = the (mav ! i), bb_up = the (up ! i), bb_dn = the (dn ! i), bb_width = the (w ! i)\<rparr>.
          i \<leftarrow> [0..<length h],
          high (h ! i) \<noteq> None \<and> low (h ! i) \<noteq> None \<and> a ! i \<noteq> None \<and> mav ! i \<noteq> None \<and>
          up ! i \<noteq> None \<and> dn ! i \<noteq> None \<and> w ! i \<noteq> None])"

text \<open>\<open>Technical_Indicators.__init__\<close>: MACD(12, 26, 9), ATR(14), Bollinger bands (2, 20).\<close>

record technical_indicators =
  ti_stock :: stock
  ti_MACD :: "macd_row list"
  ti_ATR :: "atr_row list"
  ti_BollBnd :: "bb_row list"

definition Technical_Indicators_init :: "stock \<Rightarrow> technical_indicators" where
  "Technical_Indicators_init st =
     (let h = historical_price_data st in
      \<lparr>ti_stock = st, ti_MACD = get_MACD_df h 12 26 9, ti_ATR = get_ATR_df h 14,
       ti_BollBnd = get_BollBnd_df h 2 20\<rparr>)"

section \<open>Examples\<close>

text \<open>A complete daily row at price \<open>p\<close>, and a provider whose first call raises and
  whose later calls return one such row.\<close>

abbreviation ex_row :: "date \<Rightarrow> real \<Rightarrow> ohlcv" where
  "ex_row d p \<equiv> \<lparr>day = d, high = Some (p + 1), low = Some (p - 1), open_px = Some p, close_px = Some p,
     volume = Some 1000, adj_close = Some p\<rparr>"

abbreviation ex_dl :: download where
  "ex_dl \<equiv> (\<lambda>k. if k = 0 then None else Some [ex_row 0 10])"

text \<open>Five daily rows at 10, 11, 12, 11 and 13, and the one row their MACD(2, 3, 2)
  frame keeps.\<close>

abbreviation ex_macd_hist :: "hist_row list" where
  "ex_macd_hist \<equiv> get_daily_returns [ex_row 0 10, ex_row 1 11, ex_row 2 12, ex_row 3 11, ex_row 4 13]"

abbreviation ex_macd_row :: macd_row where
  "ex_macd_row \<equiv> \<lparr>m_day = 4, m_return = 2 / 11, m_adj = 13, ma_fast = 997 / 8800,
     ma_slow = 463 / 4950, macd = 313 / 15840, signal_line = 1205 / 128128\<rparr>"

section \<open>The download retry loop\<close>

lemma hist_loop_done: "\<not> a < 3 \<Longrightarrow> hist_loop dl a k h = Some (k, h)"
  by (subst hist_loop.simps) simp

lemma hist_loop_fail: "a < 3 \<Longrightarrow> dl k = None \<Longrightarrow> hist_loop dl a k h = hist_loop dl a (Suc k) h"
  by (subst hist_loop.simps) simp

lemma hist_loop_ok: "a < 3 \<Longrightarrow> dl k = Some t \<Longrightarrow>
    hist_loop dl a k h = hist_loop dl (Suc a) (Suc k) (bfill_rows (dropna_rows t))"
  by (subst hist_loop.simps) simp


lemma succ_count_Suc:
  "succ_count dl k (Suc n) = (if dl k = None then 0 else 1) + succ_count dl (Suc k) n"
  proof -
  have "[k..<k + Suc n] = k # [Suc k..<Suc k + n]" by (simp add: upt_conv_Cons del: upt_Suc)
  then show ?thesis by (simp add: succ_count_def)
qed

lemma hist_loop_returns_if:
  "3 - a \<le> succ_count dl k n \<Longrightarrow> \<exists>r. hist_loop dl a k h = Some r"
proof (induction n arbitrary: a k h)
  case 0
  then show ?case by (simp add: succ_count_def hist_loop_done)
next
  case (Suc n)
  show ?case
  proof (cases "a < 3")
    case True
    show ?thesis
    proof (cases "dl k")
      case None
      then have "3 - a \<le> succ_count dl (Suc k) n" using Suc.prems by (simp add: succ_count_Suc)
      then show ?thesis using True None Suc.IH by (simp add: hist_loop_fail)
    next
      case (Some t)
      then have "3 - Suc a \<le> succ_count dl (Suc k) n" using Suc.prems by (simp add: succ_count_Suc)
      then show ?thesis using True Some Suc.IH by (simp add: hist_loop_ok)
    qed
  qed (simp add: hist_loop_done)
qed

lemma hist_loop_returns_only_if:
  "hist_loop dl a k h = Some r \<Longrightarrow> \<exists>n. 3 - a \<le> succ_count dl k n"
proof (induction rule: hist_loop.raw_induct[rotated 1, consumes 1])
  case (1 loop dl a k h r)
  note IH = "1"(1) and eq = "1"(2)
  show ?case
  proof (cases "a < 3")
    case True
    show ?thesis
    proof (cases "dl k")
      case None
      then have "loop dl a (Suc k) h = Some r" using eq True by simp
      then obtain n where "3 - a \<le> succ_count dl (Suc k) n" using IH by blast
      then have "3 - a \<le> succ_count dl k (Suc n)" using None by (simp add: succ_count_Suc)
      then show ?thesis ..
    next
      case (Some t)
      then have "loop dl (Suc a) (Suc k) (bfill_rows (dropna_rows t)) = Some r"
        using eq True by simp
      then obtain n where "3 - Suc a \<le> succ_count dl (Suc k) n" using IH by blast
      then have "3 - a \<le> succ_count dl k (Suc n)" using Some by (simp add: succ_count_Suc)
      then show ?thesis ..
    qed
  next
    case False
    then have "3 - a \<le> succ_count dl k 0" by simp
    then show ?thesis ..
  qed
qed

lemma fill_from_complete: "row_complete r \<Longrightarrow> fill_from r nxt = r"
  by (cases nxt) (auto simp: fill_from_def row_complete_def)

lemma bfill_dropna: "bfill_rows (dropna_rows t) = dropna_rows t"
proof -
  have "\<forall>r \<in> set rs. row_complete r \<Longrightarrow> bfill_rows rs = rs" for rs
    by (induction rs) (simp_all add: fill_from_complete Let_def)
  then show ?thesis by (simp add: dropna_rows_def)
qed

lemma hist_loop_result:
  "hist_loop dl a k0 h0 = Some r \<Longrightarrow> case r of (k, h) \<Rightarrow>
   k0 \<le> k \<and> succ_count dl k0 (k - k0) = 3 - a \<and>
   (a < 3 \<longrightarrow> 0 < k \<and> (\<exists>t. dl (k - 1) = Some t \<and> h = bfill_rows (dropna_rows t))) \<and>
   (\<not> a < 3 \<longrightarrow> k = k0 \<and> h = h0)"
proof (induction rule: hist_loop.raw_induct[rotated 1, consumes 1])
  case (1 loop dl a k0 h0 r)
  note IH = "1"(1) and eq = "1"(2)
  obtain k h where kh: "r = (k, h)" by (cases r)
  show ?case
  proof (cases "a < 3")
    case False
    then show ?thesis using eq kh by (simp add: succ_count_def)
  next
    case True
    show ?thesis
    proof (cases "dl k0")
      case None
      then have "loop dl a (Suc k0) h0 = Some (k, h)" using eq True kh by simp
      from IH [OF this] True
      have r: "Suc k0 \<le> k" "succ_count dl (Suc k0) (k - Suc k0) = 3 - a"
        "\<exists>t. dl (k - 1) = Some t \<and> h = bfill_rows (dropna_rows t)" by auto
      have "k - k0 = Suc (k - Suc k0)" using r(1) by simp
      then have "succ_count dl k0 (k - k0) = 3 - a" using r(2) None by (simp add: succ_count_Suc)
      then show ?thesis using r True kh by simp
    next
      case (Some t)
      then have "loop dl (Suc a) (Suc k0) (bfill_rows (dropna_rows t)) = Some (k, h)"
        using eq True kh by simp
      from IH [OF this]
      have r: "Suc k0 \<le> k" "succ_count dl (Suc k0) (k - Suc k0) = 3 - Suc a"
        "Suc a < 3 \<longrightarrow> (\<exists>t. dl (k - 1) = Some t \<and> h = bfill_rows (dropna_rows t))"
        "\<not> Suc a < 3 \<longrightarrow> k = Suc k0 \<and> h = bfill_rows (dropna_rows t)" by auto
      have "k - k0 = Suc (k - Suc k0)" using r(1) by simp
      then have "succ_count dl k0 (k - k0) = 3 - a" using r(2) Some True by (simp add: succ_count_Suc)
      moreover have "\<exists>t. dl (k - 1) = Some t \<and> h = bfill_rows (dropna_rows t)"
        using r(3,4) Some by (cases "Suc a < 3") auto
      ultimately show ?thesis using r(1) True kh by simp
    qed
  qed
qed

text \<open>C32: \<open>get_historical_price_data\<close> never
  returns exactly when fewer than three downloads ever succeed: a failed download
  \<open>continue\<close>s without incrementing \<open>attempt\<close>, so a provider that keeps failing makes
  the constructor of \<open>Stock\<close> loop forever.\<close>

theorem get_historical_price_data_diverges_iff:
  "(get_historical_price_data dl = None) = (\<forall>n. succ_count dl 0 n < 3)"
proof
  assume "get_historical_price_data dl = None"
  then have "hist_loop dl 0 0 [] = None" by (simp add: get_historical_price_data_def)
  then show "\<forall>n. succ_count dl 0 n < 3"
    using hist_loop_returns_if [of 0 dl 0 _ "[]"] by (metis not_le option.distinct(1) diff_zero)
next
  assume "\<forall>n. succ_count dl 0 n < 3"
  then show "get_historical_price_data dl = None"
    using hist_loop_returns_only_if [of dl 0 0 "[]"]
    by (cases "hist_loop dl 0 0 []") (auto simp: get_historical_price_data_def not_le [symmetric])
qed

text \<open>C33: when it returns, the loop has made
  exactly three successful downloads (a success also increments \<open>attempt\<close>, so the data
  is fetched three times) and keeps the last one with its NaN rows dropped; the
  \<open>fillna(method='bfill')\<close> after \<open>dropna\<close> changes nothing.\<close>

theorem get_historical_price_data_three_downloads:
  assumes "get_historical_price_data dl = Some (k, h)"
  shows "succ_count dl 0 k = 3 \<and> (\<exists>t. dl (k - 1) = Some t \<and> h = get_daily_returns (dropna_rows t))"
proof -
  obtain h0 where l: "hist_loop dl 0 0 [] = Some (k, h0)" and h: "h = get_daily_returns h0"
    using assms by (auto simp: get_historical_price_data_def)
  show ?thesis using hist_loop_result [OF l] h by (auto simp: bfill_dropna)
qed

section \<open>Daily returns and the MACD frame\<close>

lemma pct_pairs_length [simp]: "length (pct_pairs prev xs) = length xs"
  by (induction xs arbitrary: prev) simp_all

lemma pct_change_length [simp]: "length (pct_change xs) = length xs"
proof -
  have "length (ffill p xs) = length xs" for p by (induction xs arbitrary: p rule: ffill.induct) simp_all
  then show ?thesis by (simp add: pct_change_def)
qed

lemma pct_pairs_defined:
  "\<forall>p \<in> set ps. p \<noteq> 0 \<Longrightarrow> prev \<noteq> Some 0 \<Longrightarrow> i < length ps \<Longrightarrow>
   (pct_pairs prev (map Some ps) ! i \<noteq> None) = (0 < i \<or> prev \<noteq> None)"
proof (induction ps arbitrary: prev i)
  case (Cons p ps)
  then show ?case by (cases i; cases prev) (auto simp: nth_Cons')
qed simp

lemma pct_change_defined:
  "\<forall>p \<in> set ps. p \<noteq> 0 \<Longrightarrow> i < length ps \<Longrightarrow> (pct_change (map Some ps) ! i \<noteq> None) = (0 < i)"
  using pct_pairs_defined [of ps None i] by (simp add: pct_change_def)

lemma get_daily_returns_cols:
  "length (get_daily_returns rs) = length rs"
  "map day (get_daily_returns rs) = map day rs"
  "map adj_close (get_daily_returns rs) = map adj_close rs"
  "map high (get_daily_returns rs) = map high rs"
  "map low (get_daily_returns rs) = map low rs"
  "map daily_return (get_daily_returns rs) = pct_change (map adj_close rs)"
  by (simp add: get_daily_returns_def,
      (rule nth_equalityI; simp add: get_daily_returns_def ohlcv.defs hist_row.defs)+)

lemma lift2_defined: "(lift2 g a b \<noteq> None) = (a \<noteq> None \<and> b \<noteq> None)"
  by (cases a; cases b) simp_all

text \<open>C35: on a price history whose adjusted closes are all present and nonzero,
  with \<open>1 \<le> fast \<le> slow\<close> and \<open>1 \<le> signal\<close>, the MACD frame keeps exactly the rows
  from row \<open>slow + signal - 1\<close> on (row 34 for MACD(12, 26, 9)): \<open>Daily Return\<close> is NaN in
  row 0, the slow mean needs \<open>slow\<close> returns and the signal line \<open>signal\<close> MACD values.\<close>

theorem macd_warmup:
  assumes "1 \<le> fast" "fast \<le> slow" "1 \<le> signal"
    and "\<forall>r \<in> set rs. \<exists>p. adj_close r = Some p \<and> p \<noteq> 0"
  shows "map m_day (get_MACD_df (get_daily_returns rs) fast slow signal) =
         drop (slow + signal - 1) (map day rs)"
proof -
  let ?h = "get_daily_returns rs" and ?L = "length rs" and ?K = "slow + signal - 1"
  define ps where "ps = map (the \<circ> adj_close) rs"
  have a: "map adj_close rs = map Some ps" using assms(4) by (auto simp: ps_def)
  have ps: "\<forall>p \<in> set ps. p \<noteq> 0" "length ps = ?L" using assms(4) by (auto simp: ps_def)
  define r where "r = map daily_return ?h"
  define f where "f = ewm_mean fast fast r"
  define s where "s = ewm_mean slow slow r"
  define m where "m = map2 (lift2 (-)) f s"
  define sg where "sg = ewm_mean signal signal m"
  have r: "r = pct_change (map Some ps)" using a by (simp add: r_def get_daily_returns_cols)
  have lr: "length r = ?L" "length f = ?L" "length s = ?L" "length m = ?L" "length sg = ?L"
    using ps by (simp_all add: r f_def s_def m_def sg_def ewm_mean_def)
  have rd: "\<forall>j < length r. (r ! j \<noteq> None) = (1 \<le> j)"
    using pct_change_defined [OF ps(1)] ps(2) lr(1) by (simp add: r Suc_le_eq)
  have cr: "i < ?L \<Longrightarrow> length (valid (take (Suc i) r)) = i" for i
    using valid_take_count [OF rd, of "Suc i"] lr(1) by simp
  have fd: "i < ?L \<Longrightarrow> (f ! i \<noteq> None) = (fast \<le> i)" for i
    using ewm_mean_defined [of i r fast fast] cr [of i] lr(1) assms(1) by (simp add: f_def)
  have sd: "i < ?L \<Longrightarrow> (s ! i \<noteq> None) = (slow \<le> i)" for i
    using ewm_mean_defined [of i r slow slow] cr [of i] lr(1) assms(1,2) by (simp add: s_def)
  have md: "\<forall>j < length m. (m ! j \<noteq> None) = (slow \<le> j)"
  proof (intro allI impI)
    fix j assume "j < length m"
    then have j: "j < ?L" by (simp add: lr)
    then have "m ! j = lift2 (-) (f ! j) (s ! j)" using lr by (simp add: m_def)
    then have "(m ! j \<noteq> None) = (f ! j \<noteq> None \<and> s ! j \<noteq> None)" by (simp only: lift2_defined)
    then show "(m ! j \<noteq> None) = (slow \<le> j)" using fd [OF j] sd [OF j] assms(2) by auto
  qed
  have cm: "i < ?L \<Longrightarrow> length (valid (take (Suc i) m)) = Suc i - slow" for i
    using valid_take_count [OF md, of "Suc i"] lr(4) by simp
  have sgd: "i < ?L \<Longrightarrow> (sg ! i \<noteq> None) = (?K \<le> i)" for i
    using ewm_mean_defined [of i m signal signal] cm [of i] lr(4) assms(3) by (simp add: sg_def; arith)
  have ad: "i < ?L \<Longrightarrow> map adj_close ?h ! i \<noteq> None" for i
    using a ps(2) by (simp add: get_daily_returns_cols)
  have guard: "i < ?L \<Longrightarrow>
      (r ! i \<noteq> None \<and> map adj_close ?h ! i \<noteq> None \<and> f ! i \<noteq> None \<and> s ! i \<noteq> None \<and>
       m ! i \<noteq> None \<and> sg ! i \<noteq> None) = (?K \<le> i)" for i
    using rd lr fd sd md sgd ad assms(1,2,3) by auto
  have lh: "length ?h = ?L" by (simp add: get_daily_returns_cols)
  have "map m_day (get_MACD_df ?h fast slow signal) =
      map (\<lambda>i. day (?h ! i)) (filter (\<lambda>i. r ! i \<noteq> None \<and> map adj_close ?h ! i \<noteq> None \<and>
        f ! i \<noteq> None \<and> s ! i \<noteq> None \<and> m ! i \<noteq> None \<and> sg ! i \<noteq> None) [0..<length ?h])"
    by (simp only: get_MACD_df_def Let_def map_concat_if o_def r_def f_def s_def m_def sg_def macd_row.simps)
  also have "filter (\<lambda>i. r ! i \<noteq> None \<and> map adj_close ?h ! i \<noteq> None \<and>
        f ! i \<noteq> None \<and> s ! i \<noteq> None \<and> m ! i \<noteq> None \<and> sg ! i \<noteq> None) [0..<length ?h] =
      filter (\<lambda>i. ?K \<le> i) [0..<length ?h]"
    by (rule filter_cong [OF refl]) (simp only: guard lh atLeastLessThan_iff set_upt)
  also have "filter (\<lambda>i. ?K \<le> i) [0..<length ?h] = [?K..<?L]" by (simp only: filter_ge_upt lh)
  also have "map (\<lambda>i. day (?h ! i)) [?K..<?L] = drop ?K (map day ?h)"
    by (simp only: drop_map_upt lh length_map nth_map)
  finally show ?thesis by (simp only: get_daily_returns_cols)
qed

lemma macd_rowE:
  assumes "row \<in> set (get_MACD_df h fast slow signal)"
  obtains i where "i < length h" "m_day row = day (h ! i)"
    "ewm_mean fast fast (map daily_return h) ! i = Some (ma_fast row)"
    "ewm_mean slow slow (map daily_return h) ! i = Some (ma_slow row)"
    "map2 (lift2 (-)) (ewm_mean fast fast (map daily_return h)) (ewm_mean slow slow (map daily_return h)) ! i
       = Some (macd row)"
    "ewm_mean signal signal (map2 (lift2 (-)) (ewm_mean fast fast (map daily_return h))
       (ewm_mean slow slow (map daily_return h))) ! i = Some (signal_line row)"
proof -
  from mem_concat_if [OF assms [unfolded get_MACD_df_def Let_def]]
  obtain i where "i \<in> set [0..<length h]" and c:
    "map daily_return h ! i \<noteq> None \<and> map adj_close h ! i \<noteq> None \<and>
     ewm_mean fast fast (map daily_return h) ! i \<noteq> None \<and> ewm_mean slow slow (map daily_return h) ! i \<noteq> None \<and>
     map2 (lift2 (-)) (ewm_mean fast fast (map daily_return h)) (ewm_mean slow slow (map daily_return h)) ! i \<noteq> None \<and>
     ewm_mean signal signal (map2 (lift2 (-)) (ewm_mean fast fast (map daily_return h))
       (ewm_mean slow slow (map daily_return h))) ! i \<noteq> None"
    and row: "row = \<lparr>m_day = day (h ! i), m_return = the (map daily_return h ! i), m_adj = the (map adj_close h ! i),
       ma_fast = the (ewm_mean fast fast (map daily_return h) ! i), ma_slow = the (ewm_mean slow slow (map daily_return h) ! i),
       macd = the (map2 (lift2 (-)) (ewm_mean fast fast (map daily_return h)) (ewm_mean slow slow (map daily_return h)) ! i),
       signal_line = the (ewm_mean signal signal (map2 (lift2 (-)) (ewm_mean fast fast (map daily_return h))
         (ewm_mean slow slow (map daily_return h))) ! i)\<rparr>"
    by blast
  show ?thesis
  proof (rule that)
    show "i < length h" using \<open>i \<in> set [0..<length h]\<close> by simp
  qed (use c row in auto)
qed

lemma lift2_minus_Some: "lift2 (-) a b = Some (x::real) \<Longrightarrow> \<exists>u v. a = Some u \<and> b = Some v \<and> x = u - v"
  by (cases a; cases b) simp_all

text \<open>C34: with spans above 1, every row of the MACD frame holds, in the columns the
  code computes with \<open>ewm(span=fast)\<close> and \<open>ewm(span=slow)\<close>, the weighted averages
  of the daily returns up to the row with weights \<open>(1 - 2/(fast+1))^k\<close> and
  \<open>(1 - 2/(slow+1))^k\<close>, their difference as MACD, and as signal line the weighted
  average, with span \<open>signal\<close>, of the MACD series up to the row.\<close>

theorem macd_reference:
  assumes "1 < fast" "1 < slow" "1 < signal" "row \<in> set (get_MACD_df h fast slow signal)"
  shows "\<exists>i < length h. m_day row = day (h ! i) \<and>
    ewm_ref (ewm_alpha fast) (take (Suc i) (map daily_return h)) = Some (ma_fast row) \<and>
    ewm_ref (ewm_alpha slow) (take (Suc i) (map daily_return h)) = Some (ma_slow row) \<and>
    macd row = ma_fast row - ma_slow row \<and>
    ewm_ref (ewm_alpha signal) (take (Suc i) (map2 (lift2 (-)) (ewm_ref_series fast (map daily_return h))
       (ewm_ref_series slow (map daily_return h)))) = Some (signal_line row)"
proof -
  let ?r = "map daily_return h"
  obtain i where i: "i < length h" "m_day row = day (h ! i)"
    and f: "ewm_ref_series fast ?r ! i = Some (ma_fast row)"
    and s: "ewm_ref_series slow ?r ! i = Some (ma_slow row)"
    and m: "map2 (lift2 (-)) (ewm_ref_series fast ?r) (ewm_ref_series slow ?r) ! i = Some (macd row)"
    and g: "ewm_ref_series signal (map2 (lift2 (-)) (ewm_ref_series fast ?r) (ewm_ref_series slow ?r)) ! i
              = Some (signal_line row)"
    using macd_rowE [OF assms(4)] unfolding ewm_mean_ref_series [OF assms(1)] ewm_mean_ref_series [OF assms(2)]
      ewm_mean_ref_series [OF assms(3)] by metis
  have ri: "i < length ?r" using i(1) by simp
  have "ewm_ref (ewm_alpha fast) (take (Suc i) ?r) = Some (ma_fast row)"
    using f ri by (simp add: ewm_ref_series_def split: if_splits)
  moreover have "ewm_ref (ewm_alpha slow) (take (Suc i) ?r) = Some (ma_slow row)"
    using s ri by (simp add: ewm_ref_series_def split: if_splits)
  moreover have "macd row = ma_fast row - ma_slow row"
    using m f s ri by (simp add: ewm_ref_series_def)
  moreover have "ewm_ref (ewm_alpha signal) (take (Suc i) (map2 (lift2 (-)) (ewm_ref_series fast ?r)
       (ewm_ref_series slow ?r))) = Some (signal_line row)"
    using g ri by (simp add: ewm_ref_series_def split: if_splits)
  ultimately show ?thesis using i by blast
qed

lemma ewm_mean_length [simp]: "length (ewm_mean sp minp xs) = length xs"
  by (simp add: ewm_mean_def)

lemma valid_mem: "x \<in> set (valid xs) \<longleftrightarrow> Some x \<in> set xs"
  by (force simp: valid_def)

lemma valid_map2_lift2_minus:
  "x \<in> set (valid (map2 (lift2 (-)) f s)) \<Longrightarrow> \<exists>u v. Some u \<in> set f \<and> Some v \<in> set s \<and> (x::real) = u - v"
  unfolding valid_mem
  by (auto dest!: lift2_minus_Some [OF sym] dest: set_zip_leftD set_zip_rightD)

lemma ewm_mean_mem_bounds:
  "1 \<le> sp \<Longrightarrow> \<forall>x\<in>set (valid xs). lo \<le> x \<and> x \<le> hi \<Longrightarrow> ewm_mean sp minp xs ! i = Some v \<Longrightarrow>
   i < length xs \<Longrightarrow> lo \<le> v \<and> v \<le> hi"
proof -
  assume a: "1 \<le> sp" "\<forall>x\<in>set (valid xs). lo \<le> x \<and> x \<le> hi" "ewm_mean sp minp xs ! i = Some v" "i < length xs"
  then have "Some v \<in> set (ewm_mean sp minp xs)" by (metis ewm_mean_length nth_mem)
  with a(1,2) show ?thesis by (rule ewm_mean_bounds)
qed

text \<open>C36: when the daily returns lie between \<open>lo\<close> and \<open>hi\<close>, so do the fast and
  slow averages of every row of the MACD frame, and the MACD and the signal line lie
  within the width \<open>hi - lo\<close> of that band on either side of 0.\<close>

theorem macd_bounded:
  assumes "1 \<le> fast" "1 \<le> slow" "1 \<le> signal"
    and b: "\<forall>x\<in>set (valid (map daily_return h)). lo \<le> x \<and> x \<le> hi"
    and "row \<in> set (get_MACD_df h fast slow signal)"
  shows "lo \<le> ma_fast row \<and> ma_fast row \<le> hi \<and> lo \<le> ma_slow row \<and> ma_slow row \<le> hi \<and>
    \<bar>macd row\<bar> \<le> hi - lo \<and> \<bar>signal_line row\<bar> \<le> hi - lo"
proof -
  let ?r = "map daily_return h"
  let ?f = "ewm_mean fast fast ?r" and ?s = "ewm_mean slow slow ?r"
  obtain i where i: "i < length h" and f: "?f ! i = Some (ma_fast row)" and s: "?s ! i = Some (ma_slow row)"
    and m: "map2 (lift2 (-)) ?f ?s ! i = Some (macd row)"
    and g: "ewm_mean signal signal (map2 (lift2 (-)) ?f ?s) ! i = Some (signal_line row)"
    using macd_rowE [OF assms(5)] by metis
  have ri: "i < length ?r" using i by simp
  have bf: "lo \<le> ma_fast row \<and> ma_fast row \<le> hi"
    using ewm_mean_mem_bounds [OF assms(1) b f ri] .
  have bs: "lo \<le> ma_slow row \<and> ma_slow row \<le> hi"
    using ewm_mean_mem_bounds [OF assms(2) b s ri] .
  have "macd row = ma_fast row - ma_slow row" using m f s ri by simp
  then have bm: "\<bar>macd row\<bar> \<le> hi - lo" using bf bs by linarith
  have fb: "\<forall>v. Some v \<in> set ?f \<longrightarrow> lo \<le> v \<and> v \<le> hi"
    using ewm_mean_bounds [OF assms(1) b] by blast
  have sb: "\<forall>v. Some v \<in> set ?s \<longrightarrow> lo \<le> v \<and> v \<le> hi"
    using ewm_mean_bounds [OF assms(2) b] by blast
  have "\<forall>x\<in>set (valid (map2 (lift2 (-)) ?f ?s)). lo - hi \<le> x \<and> x \<le> hi - lo"
  proof
    fix x assume "x \<in> set (valid (map2 (lift2 (-)) ?f ?s))"
    then obtain u v where "Some u \<in> set ?f" "Some v \<in> set ?s" "x = u - v"
      using valid_map2_lift2_minus by blast
    with fb sb show "lo - hi \<le> x \<and> x \<le> hi - lo" by force
  qed
  moreover have "i < length (map2 (lift2 (-)) ?f ?s)" using ri by simp
  ultimately have "lo - hi \<le> signal_line row \<and> signal_line row \<le> hi - lo"
    using ewm_mean_mem_bounds [OF assms(3) _ g] by blast
  then show ?thesis using bf bs bm by linarith
qed

section \<open>True range and ATR\<close>

lemma tr_arith:
  fixes h l pc :: real
  assumes "l \<le> h"
  shows "max (max \<bar>h - l\<bar> \<bar>h - pc\<bar>) \<bar>l - pc\<bar> = max h pc - min l pc"
  using assms by (cases "pc \<le> l"; cases "pc \<le> h") (simp_all add: max_def min_def abs_if)

lemma get_ATR_df_length [simp]: "length (get_ATR_df h n) = length h"
  by (simp add: get_ATR_df_def Let_def)

lemma true_range_nonneg: "true_range a b c = Some x \<Longrightarrow> 0 \<le> x"
  by (auto simp: true_range_def split: option.splits)

text \<open>C37: when the high is not below the low, the largest of
  \<open>|H - L|\<close>, \<open>|H - PC|\<close>, \<open>|L - PC|\<close> that \<open>get_ATR_df\<close> computes is Wilder's true
  range \<open>max(H, PC) - min(L, PC)\<close>.\<close>

theorem true_range_classic:
  "l \<le> h \<Longrightarrow> true_range (Some h) (Some l) (Some pc) = Some (max h pc - min l pc)"
  by (simp add: true_range_def tr_arith)

text \<open>C38: every true range and every ATR value in the frame
  \<open>get_ATR_df\<close> returns is non-negative.\<close>

theorem atr_nonneg:
  assumes "a \<in> set (get_ATR_df h n)"
  shows "(\<forall>v. atr a = Some v \<longrightarrow> 0 \<le> v) \<and> (\<forall>t. tr a = Some t \<longrightarrow> 0 \<le> t)"
proof -
  define trs where "trs = map (\<lambda>i. true_range (high (h ! i)) (low (h ! i)) (shift1 (map adj_close h) ! i))
    [0..<length h]"
  from assms obtain i where i: "i < length h"
    and a: "a = \<lparr>a_day = day (h ! i), atr = rolling_mean n trs ! i, tr = trs ! i\<rparr>"
    unfolding get_ATR_df_def Let_def trs_def [symmetric] by auto
  have nn: "\<forall>x \<in> set (valid trs). 0 \<le> x"
  proof
    fix x assume "x \<in> set (valid trs)"
    then have "Some x \<in> set trs" by (simp add: set_valid)
    then show "0 \<le> x" unfolding trs_def by (auto intro: true_range_nonneg)
  qed
  have li: "i < length trs" "i < length (rolling_mean n trs)" using i by (simp_all add: trs_def rolling_mean_def)
  have "rolling_mean n trs ! i = Some v \<Longrightarrow> 0 \<le> v" for v
    using rolling_mean_nonneg [OF nn] nth_mem [OF li(2)] by metis
  moreover have "trs ! i = Some t \<Longrightarrow> 0 \<le> t" for t
    using nn nth_mem [OF li(1)] by (auto simp: set_valid)
  ultimately show ?thesis using a by simp
qed

section \<open>Bollinger bands\<close>

lemma bollinger_row:
  assumes "b \<in> set (get_BollBnd_df h n m)"
  shows "\<exists>i < length h. b_day b = day (h ! i) \<and>
     ma b = mean (valid (rolling_window n (map adj_close h) i)) \<and>
     bb_up b = ma b + real n * pstd (valid (rolling_window m (map adj_close h) i)) \<and>
     bb_dn b = ma b - real n * pstd (valid (rolling_window m (map adj_close h) i)) \<and>
     bb_width b = bb_up b - bb_dn b"
proof -
  let ?a = "map adj_close h"
  let ?mav = "rolling_mean n ?a" and ?sd = "map (map_option (\<lambda>x. real n * x)) (rolling_std m ?a)"
  let ?up = "map2 (lift2 (+)) ?mav ?sd" and ?dn = "map2 (lift2 (-)) ?mav ?sd"
  let ?w = "map2 (lift2 (-)) ?up ?dn"
  obtain i where i: "i < length h" and g: "?mav ! i \<noteq> None \<and> ?up ! i \<noteq> None \<and> ?dn ! i \<noteq> None \<and> ?w ! i \<noteq> None"
    and b: "b = \<lparr>b_day = day (h ! i), b_high = the (high (h ! i)), b_low = the (low (h ! i)), b_adj = the (?a ! i),
            ma = the (?mav ! i), bb_up = the (?up ! i), bb_dn = the (?dn ! i), bb_width = the (?w ! i)\<rparr>"
    using mem_concat_if [OF assms [unfolded get_BollBnd_df_def Let_def]] by auto
  obtain mv where mv: "?mav ! i = Some mv" using g by auto
  have upi: "?up ! i = lift2 (+) (?mav ! i) (?sd ! i)" using i by (simp add: rolling_mean_def rolling_std_def)
  have "?up ! i \<noteq> None" using g by blast
  then have "lift2 (+) (?mav ! i) (?sd ! i) \<noteq> None" using upi by argo
  then have "?sd ! i \<noteq> None" using lift2_defined by blast
  then obtain sv where sv: "rolling_std m ?a ! i = Some sv"
    using i by (cases "rolling_std m ?a ! i") (simp_all add: rolling_std_def)
  have mv': "mv = mean (valid (rolling_window n ?a i))"
    using mv i by (simp add: rolling_mean_def rolling_agg_nth Let_def split: if_splits)
  have sv': "sv = pstd (valid (rolling_window m ?a i))"
    using sv i by (simp add: rolling_std_def rolling_agg_nth Let_def split: if_splits)
  have up: "?up ! i = Some (mv + real n * sv)" and dn: "?dn ! i = Some (mv - real n * sv)"
    using i mv sv by (simp_all add: rolling_mean_def rolling_std_def)
  have w: "?w ! i = Some ((mv + real n * sv) - (mv - real n * sv))"
    using i up dn by (simp add: rolling_mean_def rolling_std_def)
  show ?thesis using i b mv up dn w mv' sv' by auto
qed

text \<open>C39: in every row the Bollinger frame keeps, the lower band is
  at most the middle band, the middle band at most the upper band, and the width is
  twice the distance from the middle to the upper band.\<close>

theorem bollinger_band_order:
  assumes "b \<in> set (get_BollBnd_df h n m)"
  shows "bb_dn b \<le> ma b \<and> ma b \<le> bb_up b \<and> bb_width b = 2 * (bb_up b - ma b)"
proof -
  obtain i where "bb_up b = ma b + real n * pstd (valid (rolling_window m (map adj_close h) i))"
    "bb_dn b = ma b - real n * pstd (valid (rolling_window m (map adj_close h) i))"
    "bb_width b = bb_up b - bb_dn b"
    using bollinger_row [OF assms] by blast
  moreover have "0 \<le> real n * pstd (valid (rolling_window m (map adj_close h) i))"
    by (simp add: pstd_nonneg)
  ultimately show ?thesis by simp
qed

section \<open>Witnesses\<close>

lemma bollinger_middle_band_two_rows:
  "map ma (get_BollBnd_df (get_daily_returns [ex_row 0 1, ex_row 1 2, ex_row 2 6]) 2 3) = [4]"
  by (simp add: get_BollBnd_df_def get_daily_returns_def pct_change_def rolling_mean_def rolling_std_def
      rolling_agg_def rolling_window_def valid_def mean_def ohlcv.defs hist_row.defs)

theorem get_historical_price_data_three_downloads_witness:
  "get_historical_price_data ex_dl = Some (4, get_daily_returns [ex_row 0 10]) \<and> succ_count ex_dl 0 4 = 3"
proof -
  have g: "get_historical_price_data ex_dl = Some (4, get_daily_returns [ex_row 0 10])"
    by (simp add: get_historical_price_data_def hist_loop_fail hist_loop_ok hist_loop_done
        dropna_rows_def row_complete_def fill_from_def)
  from get_historical_price_data_three_downloads [OF g] g show ?thesis by simp
qed

theorem macd_warmup_witness:
  "map m_day (get_MACD_df (get_daily_returns [ex_row 0 10, ex_row 1 11]) 1 1 1) = [1]"
  using macd_warmup [of 1 1 1 "[ex_row 0 10, ex_row 1 11]"] by simp

theorem true_range_classic_witness: "true_range (Some 3) (Some 1) (Some 5) = Some 4"
  using true_range_classic [of 1 3 5] by simp

theorem atr_nonneg_witness:
  "atr (get_ATR_df (get_daily_returns [ex_row 0 10, ex_row 1 12]) 1 ! 1) = Some 3 \<and> 0 \<le> (3::real)"
proof -
  let ?h = "get_daily_returns [ex_row 0 10, ex_row 1 12]"
  have a: "atr (get_ATR_df ?h 1 ! 1) = Some 3"
    by (simp add: get_ATR_df_def get_daily_returns_def shift1_def true_range_def rolling_mean_def
        rolling_agg_def rolling_window_def valid_def mean_def ohlcv.defs hist_row.defs)
  have "get_ATR_df ?h 1 ! 1 \<in> set (get_ATR_df ?h 1)"
    by (rule nth_mem) (simp add: get_ATR_df_length get_daily_returns_cols)
  from atr_nonneg [OF this] a show ?thesis by simp
qed

theorem bollinger_band_order_witness:
  "get_BollBnd_df (get_daily_returns [ex_row 0 10, ex_row 1 12]) 2 2 =
     [\<lparr>b_day = 1, b_high = 13, b_low = 11, b_adj = 12, ma = 11, bb_up = 13, bb_dn = 9, bb_width = 4\<rparr>] \<and>
   (9::real) \<le> 11 \<and> (11::real) \<le> 13"
proof -
  have b: "get_BollBnd_df (get_daily_returns [ex_row 0 10, ex_row 1 12]) 2 2 =
     [\<lparr>b_day = 1, b_high = 13, b_low = 11, b_adj = 12, ma = 11, bb_up = 13, bb_dn = 9, bb_width = 4\<rparr>]"
    by (simp add: get_BollBnd_df_def get_daily_returns_def pct_change_def rolling_mean_def rolling_std_def
        rolling_agg_def rolling_window_def valid_def mean_def pstd_def ohlcv.defs hist_row.defs)
  have "\<lparr>b_day = 1, b_high = 13, b_low = 11, b_adj = 12, ma = 11, bb_up = 13, bb_dn = 9, bb_width = 4\<rparr>
      \<in> set (get_BollBnd_df (get_daily_returns [ex_row 0 10, ex_row 1 12]) 2 2)"
    by (simp only: b) simp
  from bollinger_band_order [OF this] b show ?thesis by simp
qed

lemma ex_macd_frame: "get_MACD_df ex_macd_hist 2 3 2 = [ex_macd_row]"
  by code_simp

lemma ex_macd_returns: "valid (map daily_return ex_macd_hist) = [1 / 10, 1 / 11, - (1 / 12), 2 / 11]"
  by code_simp

theorem macd_reference_witness:
  "\<exists>i < length ex_macd_hist. m_day ex_macd_row = day (ex_macd_hist ! i) \<and>
     ewm_ref (ewm_alpha 2) (take (Suc i) (map daily_return ex_macd_hist)) = Some (997 / 8800) \<and>
     ewm_ref (ewm_alpha 3) (take (Suc i) (map daily_return ex_macd_hist)) = Some (463 / 4950)"
proof -
  have "ex_macd_row \<in> set (get_MACD_df ex_macd_hist 2 3 2)" by (simp only: ex_macd_frame) simp
  from macd_reference [OF _ _ _ this]
  have "\<exists>i < length ex_macd_hist. m_day ex_macd_row = day (ex_macd_hist ! i) \<and>
     ewm_ref (ewm_alpha 2) (take (Suc i) (map daily_return ex_macd_hist)) = Some (ma_fast ex_macd_row) \<and>
     ewm_ref (ewm_alpha 3) (take (Suc i) (map daily_return ex_macd_hist)) = Some (ma_slow ex_macd_row)"
    by fastforce
  then show ?thesis by (simp only: macd_row.select_convs)
qed

theorem macd_bounded_witness:
  "\<bar>macd ex_macd_row\<bar> \<le> 2 / 11 - - (1 / 12) \<and> \<bar>signal_line ex_macd_row\<bar> \<le> 2 / 11 - - (1 / 12)"
proof -
  have m: "ex_macd_row \<in> set (get_MACD_df ex_macd_hist 2 3 2)" by (simp only: ex_macd_frame) simp
  have b: "\<forall>x\<in>set (valid (map daily_return ex_macd_hist)). - (1 / 12) \<le> x \<and> x \<le> 2 / 11"
    by (simp only: ex_macd_returns) simp
  from macd_bounded [OF _ _ _ b m] show ?thesis by simp
qed

end
