(* ===== verification/Spec2Isabelle.thy ===== *)
theory Spec2Isabelle
  imports Simulation IB_Execution Options_Spread Sharpe_Scripts Cont_Futures Technical_Indicators
begin

text \<open>
  \<^bold>\<open>A verification development of the event-driven backtester of
  Algorithmic-Trading.\<close>

  \<^bold>\<open>The program.\<close> \<open>src/Quantiative Finance/Automated Trading\<close> holds an
  event-driven backtester. \<open>backtest.py\<close> (class \<open>Backtest\<close>) owns a FIFO
  queue of events and runs a heartbeat loop: while the data handler reports data
  it advances the data by one bar, which enqueues a market event, and then drains
  the queue, dispatching each event: a market event to the strategy
  (\<open>calculate_signals\<close>, which enqueues signals) and then to
  \<open>Portfolio.update_timeindex\<close>; a signal to \<open>Portfolio.update_signal\<close>
  (which enqueues the order of the naive sizing policy); an order to the execution
  handler (which enqueues fills); a fill to \<open>Portfolio.update_fill\<close>.
  \<open>portfolio.py\<close> keeps the current positions and holdings and their
  time-indexed snapshots; \<open>performance.py\<close> computes the Sharpe ratio and the
  drawdowns of the equity curve. The event classes, the data handler, the
  strategy and the simulated execution handler live in files that are not part of
  the repository (\<open>event.py\<close>, \<open>data.py\<close>, \<open>strategy.py\<close>,
  \<open>execution.py\<close>): the development keeps only what the backtest uses of them,
  the event types, the data handler's \<open>update_bars\<close>, and the strategy and the
  execution handler as parameters of every theorem about the loop.
  \<open>src/Quantiative Finance/Options\<close> holds option payoff calculators and
  \<open>Technical_Indicators _Class.py\<close>: a class \<open>Stock\<close> that downloads a price
  history with a retry loop and a class \<open>Technical_Indicators\<close> that derives
  MACD, ATR and Bollinger-band frames from it with pandas' \<open>ewm\<close> and
  \<open>rolling\<close> windows.

  \<^bold>\<open>The theories.\<close>
  \<^item> \<open>Prelude\<close>: Python exceptions as the datatype \<open>py_error\<close>, the error
    monad \<open>'a result = py_error + 'a\<close> with \<open>rbind\<close> and the raising
    \<open>for\<close> loop \<open>for_each\<close>, Python dictionaries as maps with the raising
    accessors \<open>getitem\<close>, \<open>iadd\<close> (\<open>d[k] += v\<close>) and \<open>isub\<close>,
    sums over the values of a map, and list lemmas on filters of index ranges.
  \<^item> \<open>Events\<close>: the four event classes as records and one datatype
    \<open>event\<close>; a queue entry is an \<open>event option\<close> because the portfolio
    enqueues \<open>None\<close>; \<open>rank\<close> orders the pipeline Market, Signal, Order,
    Fill.
  \<^item> \<open>Data_Handler\<close>: the market-data provider (ticks still to replay, the
    bars seen per symbol, \<open>continue_backtest\<close>), \<open>update_bars\<close> and the
    raising accessors of the latest bar; \<open>extends_history\<close> says that a later
    provider keeps every bar an earlier one delivered, as \<open>update_bars\<close> does.
  \<^item> \<open>Portfolio\<close>: the \<open>Portfolio\<close> class as a record with one function per
    method (\<open>init_portfolio\<close>, \<open>update_timeindex\<close> with its two loops
    \<open>copy_position\<close> and \<open>mark_symbol\<close>, \<open>update_positions_from_fill\<close>,
    \<open>update_holdings_from_fill\<close>, \<open>update_fill\<close>,
    \<open>generate_naive_order\<close>, \<open>update_signal\<close>), the bookkeeping invariant
    \<open>pf_inv\<close> (totals, capital, the keys of the dictionaries), the marking
    invariant \<open>snapshots_marked\<close> (snapshots in pairs with one datetime, each
    symbol entry the paired position times the adjusted close of a bar the data
    handler has delivered, 0 for a flat position), and the lemmas: the exact
    effect of a fill and of a run of fills (the cash ledger), the error paths,
    the snapshot marked to market by a tick, the sizing policy's table, and
    preservation of both invariants.
  \<^item> \<open>Performance\<close>: \<open>create_sharpe_ratio\<close> and \<open>create_drawdowns\<close> (its loop
    is \<open>dd_loop\<close>) over series of \<open>real option\<close>, NaN being \<open>None\<close>;
    lemmas: non-negative drawdowns, zero drawdown gives zero duration, the loop
    against the reference high-water mark \<open>hwm_after\<close>, when the Sharpe ratio
    is undefined (exactly for constant returns over the reals; the claim keeps to
    one return or all-zero returns, the cases that are exact in floating point
    as well), its scale invariance, and the specification's scenarios.
  \<^item> \<open>Backtest_Dispatch\<close>, \<open>Event_Loop\<close>, \<open>Backtest\<close>: the
    \<open>Backtest\<close> state (queue, counters, components), the strategy and
    execution handler as an interface record \<open>collaborators\<close> over states of
    their own, the dispatch of one event (\<open>dispatch\<close>), the inner loop
    (\<open>drain\<close>) and the heartbeat loop (\<open>run_backtest\<close>).
  \<^item> \<open>Portfolio_Stats\<close>: \<open>create_equity_curve_dataframe\<close> (pandas
    \<open>pct_change\<close> with forward padding, \<open>cumprod\<close> skipping NaN) and
    \<open>output_summary_stats\<close> with its \<open>IndexError\<close> and \<open>ValueError\<close>
    paths; lemmas: the equity curve telescopes to total over first total, and the
    total return of a run with positive totals.
  \<^item> \<open>Simulation\<close>: \<open>_output_performance\<close> and \<open>simulate_trading\<close>
    composing the heartbeat loop with the statistics; an empty data feed makes the
    whole simulation raise, and a two-bar run is evaluated end to end.
  \<^item> \<open>IB_Execution\<close>: the Interactive Brokers handler (ib_execution.py) under
    Python 3, attribute and name lookups that fail being error values; the TWS
    connection is the list of placed orders. Lemmas: the constructor and the
    reply handler always raise, \<open>create_fill\<close> cannot read the entry it is
    meant to read, and with the handler plugged into the backtest every counted
    order is placed once under consecutive fresh ids, and every placed order is a
    \<open>MKT\<close> order for a positive quantity, bought or sold (a queue invariant
    \<open>queue_wf\<close> kept by every dispatch, through \<open>drain_preserves_queue\<close>).
  \<^item> \<open>Options_Call\<close>, \<open>Options_Spread\<close>: the classes \<open>Call\<close>,
    \<open>Short_Call\<close>, \<open>Options\<close> and \<open>Call_Spread\<close> of the Options
    directory, DataFrames as lists of row records (NaN as \<open>None\<close>, a column
    assignment with the index-setting rule of pandas), and the script of
    Call_Spread.py (whose classes are verbatim copies of Call_Class.py and
    Call_Spread_Class.py). Lemmas: returns refine the expiry payoff
    \<open>call_payoff\<close>, long and short legs are zero-sum, the breakeven price
    gives a zero return, Short_Call agrees with a short Call, the loss of a long
    call is bounded by its premium, a short-over-long spread moves by at most its
    strike width, and the BA script's numbers.
  \<^item> \<open>Sharpe_Scripts\<close>: \<open>annualised_sharpe\<close>, \<open>equity_sharpe\<close> and
    \<open>market_neutral_sharpe\<close> of Sharpe.py (pandas' sample standard
    deviation); lemma: they equal performance.py's ratio times
    \<open>sqrt((n - 1) / n)\<close>, and the halving of the long/short return is
    immaterial.
  \<^item> \<open>Cont_Futures\<close>: \<open>futures_rollover_weights\<close> of Cont_Futures.py on a
    business-day calendar (day numbers, weekdays only, as \<open>freq='B'\<close>) with
    the \<open>.loc\<close> semantics it uses, and the script's continuous contract;
    lemmas: weights in \<open>[0, 1]\<close>, the \<open>KeyError\<close> of a roll window before
    the start, the CL1/CL2 weights (evaluated by \<open>code_simp\<close>), and the zero
    a missing price day produces.
  \<^item> \<open>Pandas_Window\<close>: pandas' \<open>ewm(span, min_periods).mean()\<close> as the
    recursion pandas runs (\<open>ewm_step\<close> over the state \<open>ewm_state\<close>: running
    average, accumulated weight, observation count), \<open>rolling(n)\<close> with
    \<open>mean\<close> and \<open>std(ddof=0)\<close>, and \<open>shift(1)\<close>; lemmas: the recursion
    computes the documented weighted average \<open>ewm_ref\<close> (its closed form
    \<open>ewm_ref_series\<close>), when a row is defined, and the values stay within
    the range of the observations. These lemmas serve the MACD properties of
    \<open>Technical_Indicators\<close>; the pandas definitions are mapped to the call
    sites that use them.
  \<^item> \<open>Technical_Indicators\<close>: \<open>Stock\<close> and \<open>Technical_Indicators\<close> of
    \<open>Technical_Indicators _Class.py\<close>; the download is a parameter
    \<open>download\<close> (the outcome of the \<open>k\<close>-th call, \<open>None\<close> for an
    exception), the retry loop is \<open>hist_loop\<close>, a \<open>partial_function
    (option)\<close>; lemmas: the loop returns exactly when three downloads succeed and
    keeps the last, the MACD frame's first row, the MACD columns against the
    weighted averages of the daily returns with the frame's spans, their bounds,
    Wilder's true range, non-negative ATR, and the order of the Bollinger bands.

  \<^bold>\<open>Termination.\<close> \<open>drain\<close> is a \<open>function\<close> whose termination is proved
  with the multiset ordering on the ranks of the queued entries: a dispatch
  replaces the entry it takes by entries of strictly smaller rank, however many
  the strategy or the execution handler produce. \<open>run_backtest\<close> terminates on
  the number of ticks left plus the \<open>continue_backtest\<close> flag. No fuel is
  used: both loops are total functions, and an exception is an \<open>Inl\<close> result,
  never non-termination. The one loop that may not end is the retry loop of
  \<open>Stock.get_historical_price_data\<close>; it is a \<open>partial_function (option)\<close>
  whose \<open>None\<close> is "never returns", and the theorem
  \<open>get_historical_price_data_diverges_iff\<close> says exactly when that happens, in
  both directions (by induction on the number of calls for returning, and by the
  loop's \<open>raw_induct\<close> for the converse).

  \<^bold>\<open>What is proved.\<close> The cash ledger of any sequence of fills; the portfolio
  invariant across every operation and every run, with every holdings snapshot
  priced at delivered bars; the drain always ends with an
  empty queue or an exception; one positions snapshot per bar and a run that
  stops only on exhaustion; the naive sizing policy's table; the drawdown and
  Sharpe properties; and the specification's scenarios 1 to 5, the last three as
  an end-to-end run of the whole pipeline evaluated by the simplifier (a test
  lemma, not a property); the
  equity curve and summary statistics; the IB handler's error paths and fresh
  order ids; the option calculators' payoff, equivalence, round-trip and
  bound properties; the two Sharpe implementations' relation; and the
  rollover weights' bounds, error path and scenario; the typing of every order
  placed with IB; the retry loop's liveness and result; the MACD warm-up, the
  MACD columns against the documented weighted averages and their bounds; the
  true range, the ATR and the Bollinger bands.

  \<^bold>\<open>Findings the theorems record.\<close> \<open>self.fills ++ 1\<close> never increments the
  fill counter; \<open>Backtest.__init__\<close> raises \<open>TypeError\<close>; fills are priced at
  the latest bar and not at the fill's \<open>fill_cost\<close>; \<open>update_signal\<close>
  enqueues \<open>None\<close>; \<open>create_drawdowns\<close> never reads index 0; the current
  \<open>total\<close> always equals \<open>cash\<close>; an empty data feed crashes the
  statistics; ib_execution.py has a syntax error (line 99), registers a missing
  \<open>_error_handler\<close>, calls \<open>dict.has_key\<close>, prints the undefined
  \<open>masg\<close> and reads the key \<open>"Symbol"\<close>; Short_Call's ticker column is NaN;
  the two Sharpe ratios of the repository differ; the continuous futures
  contract is 0 on days without prices; \<open>Stock\<close> hangs when downloads keep
  failing and downloads three times when they succeed; the Bollinger middle
  band is a two-day mean (\<open>rolling(n)\<close> with the band multiplier \<open>n = 2\<close>);
  MACD is computed on daily returns.

  \<^bold>\<open>Not modelled.\<close> Float rounding (money is \<open>real\<close>, \<open>round\<close> is
  half-to-even on the exact value; where a claim depends on an exact zero, as the
  Sharpe ratio's standard deviation does, the claim is kept to cases that are
  exact in floating point too); printing, sleeping, plotting and CSV
  output; the TWS socket itself and the Quandl and AlphaVantage downloads;
  the parsing loop after the AlphaVantage download (shared verbatim by
  Sharpe.py, var.py, Hurst.py and adf.py) and var.py's \<open>var_cov_var\<close>,
  whose date handling needs a model of \<open>strptime\<close> not yet in the library; Hurst.py and adf.py beyond that loop, which are calls into
  numpy's \<open>polyfit\<close> and statsmodels' ADF test; \<open>Stock.get_financial_data\<close>
  (HTTP scraping into a frame nothing reads) and the display methods of
  \<open>Technical_Indicators\<close>; network, database and machine-learning scripts
  (I/O and library numerics only). No fuel is used anywhere.
\<close>

end
